theory Spec2Isabelle
  imports Complex_Main "HOL-Library.Sublist" "HOL-Library.Monad_Syntax"
begin

section \<open>BiSeNetv1: construction\<close>

text \<open>
  The development follows \<^verbatim>\<open>models/bisenetv1.py\<close>. Construction
  (\<^verbatim>\<open>__init__\<close>) is modelled first: every \<^verbatim>\<open>raise\<close> of the source is an
  \<open>Inl\<close> result, a constructed module is a record of what the constructor stored.
\<close>

datatype error = NotImplementedError | ValueError string

subsection \<open>Python's substring test\<close>

text \<open>\<^verbatim>\<open>sub in s\<close> on Python strings: \<open>sub\<close> occurs as a contiguous block of \<open>s\<close>.\<close>

fun py_in :: "string \<Rightarrow> string \<Rightarrow> bool" where
  "py_in sub [] = (sub = [])"
| "py_in sub (c # cs) = (prefix sub (c # cs) \<or> py_in sub cs)"

subsection \<open>The collaborators of \<^verbatim>\<open>modules.py\<close>\<close>

text \<open>
  Modelled from the spec: \<^verbatim>\<open>ConvBNAct\<close> and \<^verbatim>\<open>conv1x1\<close> are imported from
  \<^verbatim>\<open>modules.py\<close>, which is not part of the given source. The spec describes
  \<^verbatim>\<open>ConvBNAct\<close> as the fused convolution + normalisation + activation primitive built
  from channel counts, kernel size, stride and activation kind, and lists no construction
  error of its own; the constructor therefore only records its arguments. Kernel size
  defaults to 3 and stride to 1 at the call sites that omit them.
\<close>

record ConvBNAct =
  cba_in :: nat
  cba_out :: nat
  cba_kernel :: nat
  cba_stride :: nat
  cba_act :: string

definition ConvBNAct_init :: "nat \<Rightarrow> nat \<Rightarrow> nat \<Rightarrow> nat \<Rightarrow> string \<Rightarrow> ConvBNAct" where
  "ConvBNAct_init in_channels out_channels kernel_size stride act_type =
     \<lparr>cba_in = in_channels, cba_out = out_channels, cba_kernel = kernel_size,
      cba_stride = stride, cba_act = act_type\<rparr>"

record Conv1x1 =
  c1_in :: nat
  c1_out :: nat

definition conv1x1 :: "nat \<Rightarrow> nat \<Rightarrow> Conv1x1" where
  "conv1x1 in_channels out_channels = \<lparr>c1_in = in_channels, c1_out = out_channels\<rparr>"

subsection \<open>ResNet\<close>

datatype resnet_arch = Resnet18 | Resnet34 | Resnet50 | Resnet101 | Resnet152

text \<open>The dictionary \<^verbatim>\<open>resnet_hub\<close> of \<^verbatim>\<open>ResNet.__init__\<close>, in the source's order.\<close>

definition resnet_hub :: "string \<rightharpoonup> resnet_arch" where
  "resnet_hub = map_of
     [(''resnet18'', Resnet18), (''resnet34'', Resnet34), (''resnet50'', Resnet50),
      (''resnet101'', Resnet101), (''resnet152'', Resnet152)]"

record ResNet =
  rn_arch :: resnet_arch
  rn_pretrained :: bool

definition ResNet_init :: "string \<Rightarrow> bool \<Rightarrow> error + ResNet" where
  "ResNet_init resnet_type pretrained =
     (case resnet_hub resnet_type of
        None \<Rightarrow> Inl (ValueError (''Unsupported ResNet type: '' @ resnet_type @ ''.\<newline>''))
      | Some a \<Rightarrow> Inr \<lparr>rn_arch = a, rn_pretrained = pretrained\<rparr>)"

subsection \<open>The modules of the network\<close>

text \<open>\<^verbatim>\<open>SpatialPath\<close> is an \<^verbatim>\<open>nn.Sequential\<close>: the list of its three blocks.\<close>

definition SpatialPath_init :: "nat \<Rightarrow> nat \<Rightarrow> string \<Rightarrow> ConvBNAct list" where
  "SpatialPath_init in_channels out_channels act_type =
     [ConvBNAct_init in_channels out_channels 3 2 act_type,
      ConvBNAct_init out_channels out_channels 3 2 act_type,
      ConvBNAct_init out_channels out_channels 3 2 act_type]"

record AttentionRefinementModule =
  arm_conv :: ConvBNAct

definition AttentionRefinementModule_init :: "nat \<Rightarrow> AttentionRefinementModule" where
  "AttentionRefinementModule_init channels =
     \<lparr>arm_conv = ConvBNAct_init channels channels 1 1 ''sigmoid''\<rparr>"

record ContextPath =
  cp_backbone :: ResNet
  cp_channels :: "nat list"
  cp_arm_16 :: AttentionRefinementModule
  cp_arm_32 :: AttentionRefinementModule
  cp_conv_16 :: Conv1x1
  cp_conv_32 :: Conv1x1

definition ContextPath_init :: "nat \<Rightarrow> string \<Rightarrow> string \<Rightarrow> error + ContextPath" where
  "ContextPath_init out_channels backbone_type act_type =
     (if py_in ''resnet'' backbone_type then
        (case ResNet_init backbone_type True of
           Inl e \<Rightarrow> Inl e
         | Inr backbone \<Rightarrow>
             (let channels =
                    (if py_in ''18'' backbone_type \<or> py_in ''34'' backbone_type
                     then [256, 512] else [1024, 2048])
              in Inr \<lparr>cp_backbone = backbone,
                      cp_channels = channels,
                      cp_arm_16 = AttentionRefinementModule_init (channels ! 0),
                      cp_arm_32 = AttentionRefinementModule_init (channels ! 1),
                      cp_conv_16 = conv1x1 (channels ! 0) out_channels,
                      cp_conv_32 = conv1x1 (channels ! 1) out_channels\<rparr>))
      else Inl NotImplementedError)"

text \<open>
  \<^verbatim>\<open>FeatureFusionModule.conv2\<close> is the sequence 1x1 convolution, ReLU, 1x1
  convolution, sigmoid; its two convolutions are what the constructor configures.
\<close>

record FeatureFusionModule =
  ffm_conv1 :: ConvBNAct
  ffm_conv2_a :: Conv1x1
  ffm_conv2_b :: Conv1x1

definition FeatureFusionModule_init :: "nat \<Rightarrow> nat \<Rightarrow> string \<Rightarrow> FeatureFusionModule" where
  "FeatureFusionModule_init in_channels out_channels act_type =
     \<lparr>ffm_conv1 = ConvBNAct_init in_channels out_channels 3 1 act_type,
      ffm_conv2_a = conv1x1 out_channels out_channels,
      ffm_conv2_b = conv1x1 out_channels out_channels\<rparr>"

record SegHead =
  sh_conv :: ConvBNAct
  sh_proj :: Conv1x1

definition SegHead_init :: "nat \<Rightarrow> nat \<Rightarrow> string \<Rightarrow> nat \<Rightarrow> SegHead" where
  "SegHead_init in_channels out_channels act_type hid_channels =
     \<lparr>sh_conv = ConvBNAct_init in_channels hid_channels 3 1 act_type,
      sh_proj = conv1x1 hid_channels out_channels\<rparr>"

record BiSeNetv1 =
  spatial_path :: "ConvBNAct list"
  context_path :: ContextPath
  ffm :: FeatureFusionModule
  seg_head :: SegHead

text \<open>
  \<^verbatim>\<open>BiSeNetv1.__init__\<close> builds the four members in the source's order; the only
  member whose constructor can raise is the context path.
\<close>

definition BiSeNetv1_init :: "nat \<Rightarrow> nat \<Rightarrow> string \<Rightarrow> string \<Rightarrow> error + BiSeNetv1" where
  "BiSeNetv1_init num_class n_channel backbone_type act_type =
     (let sp = SpatialPath_init n_channel 128 act_type in
      case ContextPath_init 256 backbone_type act_type of
        Inl e \<Rightarrow> Inl e
      | Inr cp \<Rightarrow>
          Inr \<lparr>spatial_path = sp,
               context_path = cp,
               ffm = FeatureFusionModule_init 384 256 act_type,
               seg_head = SegHead_init 256 num_class act_type 128\<rparr>)"

section \<open>Shapes: the forward pass on tensor sizes\<close>

text \<open>
  A tensor's shape is the quadruple (batch, channels, height, width). Each library
  operation is modelled by the shape it returns, \<open>None\<close> where the library raises.
  The flag \<open>training\<close> is the mode of the module (\<^verbatim>\<open>nn.Module.training\<close>,
  true after construction until \<^verbatim>\<open>eval()\<close> is called): batch normalisation
  refuses, in training mode only, an input with a single value per channel.
\<close>

type_synonym shape = "nat \<times> nat \<times> nat \<times> nat"

subsection \<open>Library operations\<close>

text \<open>
  Output length of a convolution or pooling window along one axis: the padded input
  must hold the kernel, then \<open>floor ((n + 2 p - k) / s) + 1\<close>.
\<close>

definition window_out :: "nat \<Rightarrow> nat \<Rightarrow> nat \<Rightarrow> nat \<Rightarrow> nat option" where
  "window_out n k s p =
     (if s = 0 \<or> n + 2 * p < k then None else Some ((n + 2 * p - k) div s + 1))"

definition Conv2d_shape :: "nat \<Rightarrow> nat \<Rightarrow> nat \<Rightarrow> nat \<Rightarrow> nat \<Rightarrow> shape \<Rightarrow> shape option" where
  "Conv2d_shape c_in c_out k s p x =
     (case x of (b, c, h, w) \<Rightarrow>
        if c \<noteq> c_in then None
        else do {
          h' \<leftarrow> window_out h k s p;
          w' \<leftarrow> window_out w k s p;
          Some (b, c_out, h', w')
        })"

definition BatchNorm2d_shape :: "bool \<Rightarrow> nat \<Rightarrow> shape \<Rightarrow> shape option" where
  "BatchNorm2d_shape training num_features x =
     (case x of (b, c, h, w) \<Rightarrow>
        if c \<noteq> num_features then None
        else if training \<and> b * h * w = 1 then None
        else Some x)"

definition MaxPool2d_shape :: "nat \<Rightarrow> nat \<Rightarrow> nat \<Rightarrow> shape \<Rightarrow> shape option" where
  "MaxPool2d_shape k s p x =
     (case x of (b, c, h, w) \<Rightarrow> do {
        h' \<leftarrow> window_out h k s p;
        w' \<leftarrow> window_out w k s p;
        Some (b, c, h', w')
      })"

text \<open>\<^verbatim>\<open>nn.AdaptiveAvgPool2d(1)\<close>: every non-batch dimension must be non-empty.\<close>

definition AdaptiveAvgPool2d_shape :: "shape \<Rightarrow> shape option" where
  "AdaptiveAvgPool2d_shape x =
     (case x of (b, c, h, w) \<Rightarrow>
        if c = 0 \<or> h = 0 \<or> w = 0 then None else Some (b, c, 1, 1))"

text \<open>\<^verbatim>\<open>x.expand_as(y)\<close>: a dimension of \<open>x\<close> is kept, or has size 1 and is repeated.\<close>

definition expand_as_shape :: "shape \<Rightarrow> shape \<Rightarrow> shape option" where
  "expand_as_shape x y =
     (case (x, y) of ((b, c, h, w), (b', c', h', w')) \<Rightarrow>
        if (b = b' \<or> b = 1) \<and> (c = c' \<or> c = 1) \<and> (h = h' \<or> h = 1) \<and> (w = w' \<or> w = 1)
        then Some y else None)"

text \<open>Broadcasting of one dimension, and of the shapes of a binary operation.\<close>

definition broadcast_dim :: "nat \<Rightarrow> nat \<Rightarrow> nat option" where
  "broadcast_dim m n =
     (if m = n then Some m else if m = 1 then Some n else if n = 1 then Some m else None)"

definition broadcast_shape :: "shape \<Rightarrow> shape \<Rightarrow> shape option" where
  "broadcast_shape x y =
     (case (x, y) of ((b, c, h, w), (b', c', h', w')) \<Rightarrow> do {
        b'' \<leftarrow> broadcast_dim b b';
        c'' \<leftarrow> broadcast_dim c c';
        h'' \<leftarrow> broadcast_dim h h';
        w'' \<leftarrow> broadcast_dim w w';
        Some (b'', c'', h'', w'')
      })"

text \<open>\<^verbatim>\<open>x += y\<close> writes into \<open>x\<close>: the broadcast shape must be the shape of \<open>x\<close>.\<close>

definition iadd_shape :: "shape \<Rightarrow> shape \<Rightarrow> shape option" where
  "iadd_shape x y = (if broadcast_shape x y = Some x then Some x else None)"

text \<open>\<^verbatim>\<open>torch.cat([x, y], dim=1)\<close>: all dimensions but the channels must agree.\<close>

definition cat_shape :: "shape \<Rightarrow> shape \<Rightarrow> shape option" where
  "cat_shape x y =
     (case (x, y) of ((b, c, h, w), (b', c', h', w')) \<Rightarrow>
        if b = b' \<and> h = h' \<and> w = w' then Some (b, c + c', h, w) else None)"

text \<open>
  \<^verbatim>\<open>F.interpolate\<close> in bilinear mode: input and output heights and widths must be
  positive and the channel dimension non-empty (an empty batch is accepted).
\<close>

definition interpolate_size_shape :: "nat \<times> nat \<Rightarrow> shape \<Rightarrow> shape option" where
  "interpolate_size_shape out_size x =
     (case (out_size, x) of ((oh, ow), (b, c, h, w)) \<Rightarrow>
        if c = 0 \<or> h = 0 \<or> w = 0 \<or> oh = 0 \<or> ow = 0 then None else Some (b, c, oh, ow))"

definition interpolate_scale_shape :: "nat \<Rightarrow> shape \<Rightarrow> shape option" where
  "interpolate_scale_shape scale_factor x =
     (case x of (b, c, h, w) \<Rightarrow> interpolate_size_shape (h * scale_factor, w * scale_factor) x)"

subsection \<open>Layers\<close>

text \<open>
  Modelled from the spec: the forward pass of \<^verbatim>\<open>ConvBNAct\<close> (\<^verbatim>\<open>modules.py\<close>, not
  part of the given source). By the spec a stride-2 block halves the spatial resolution
  and a stride-1 block keeps it, whatever the kernel: the convolution pads by
  \<open>(kernel - 1) div 2\<close>. It is followed by a batch normalisation over the output
  channels and by the activation, which keeps the shape.
\<close>

definition ConvBNAct_shape :: "bool \<Rightarrow> ConvBNAct \<Rightarrow> shape \<Rightarrow> shape option" where
  "ConvBNAct_shape training m x = do {
     x \<leftarrow> Conv2d_shape (cba_in m) (cba_out m) (cba_kernel m) (cba_stride m)
           ((cba_kernel m - 1) div 2) x;
     BatchNorm2d_shape training (cba_out m) x
   }"

text \<open>
  Modelled from the spec: the forward pass of \<^verbatim>\<open>conv1x1\<close> (\<^verbatim>\<open>modules.py\<close>, not
  part of the given source) is a 1x1 convolution, stride 1, no padding.
\<close>

definition conv1x1_shape :: "Conv1x1 \<Rightarrow> shape \<Rightarrow> shape option" where
  "conv1x1_shape m x = Conv2d_shape (c1_in m) (c1_out m) 1 1 0 x"

text \<open>\<^verbatim>\<open>nn.Sequential\<close>: the members are applied in order.\<close>

fun Sequential_shape :: "('m \<Rightarrow> shape \<Rightarrow> shape option) \<Rightarrow> 'm list \<Rightarrow> shape \<Rightarrow> shape option" where
  "Sequential_shape f [] x = Some x"
| "Sequential_shape f (m # ms) x = (case f m x of None \<Rightarrow> None | Some y \<Rightarrow> Sequential_shape f ms y)"

subsection \<open>The torchvision backbone\<close>

text \<open>
  The residual networks come from torchvision. Their basic-block variants (18, 34)
  have stage widths 64, 128, 256, 512; the bottleneck variants (50, 101, 152) four times
  that. A stage changes the shape as its strided convolution (3x3 with padding 1, or the
  1x1 shortcut of the same stride) does, and normalises its output.
\<close>

definition resnet_expansion :: "resnet_arch \<Rightarrow> nat" where
  "resnet_expansion a = (case a of Resnet18 \<Rightarrow> 1 | Resnet34 \<Rightarrow> 1 | _ \<Rightarrow> 4)"

definition resnet_layer_shape :: "bool \<Rightarrow> nat \<Rightarrow> nat \<Rightarrow> nat \<Rightarrow> shape \<Rightarrow> shape option" where
  "resnet_layer_shape training c_in c_out stride x = do {
     x \<leftarrow> Conv2d_shape c_in c_out 3 stride 1 x;
     BatchNorm2d_shape training c_out x
   }"

text \<open>\<^verbatim>\<open>ResNet.forward\<close>: returns the 1/32 map first, the 1/16 map second.\<close>

definition ResNet_forward_shape :: "bool \<Rightarrow> ResNet \<Rightarrow> shape \<Rightarrow> (shape \<times> shape) option" where
  "ResNet_forward_shape training rn x = do {
     let e = resnet_expansion (rn_arch rn);
     x \<leftarrow> Conv2d_shape 3 64 7 2 3 x;
     x \<leftarrow> BatchNorm2d_shape training 64 x;
     x \<leftarrow> MaxPool2d_shape 3 2 1 x;
     x \<leftarrow> resnet_layer_shape training 64 (64 * e) 1 x;
     x \<leftarrow> resnet_layer_shape training (64 * e) (128 * e) 2 x;
     x3 \<leftarrow> resnet_layer_shape training (128 * e) (256 * e) 2 x;
     x \<leftarrow> resnet_layer_shape training (256 * e) (512 * e) 2 x3;
     Some (x, x3)
   }"

subsection \<open>The forward passes\<close>

definition SpatialPath_forward_shape :: "bool \<Rightarrow> ConvBNAct list \<Rightarrow> shape \<Rightarrow> shape option" where
  "SpatialPath_forward_shape training sp x = Sequential_shape (ConvBNAct_shape training) sp x"

definition AttentionRefinementModule_forward_shape ::
    "bool \<Rightarrow> AttentionRefinementModule \<Rightarrow> shape \<Rightarrow> shape option" where
  "AttentionRefinementModule_forward_shape training m x = do {
     x_pool \<leftarrow> AdaptiveAvgPool2d_shape x;
     x_pool \<leftarrow> expand_as_shape x_pool x;
     x_pool \<leftarrow> ConvBNAct_shape training (arm_conv m) x_pool;
     broadcast_shape x x_pool
   }"

definition ContextPath_forward_shape :: "bool \<Rightarrow> ContextPath \<Rightarrow> shape \<Rightarrow> shape option" where
  "ContextPath_forward_shape training m x = do {
     (x_32, x_16) \<leftarrow> ResNet_forward_shape training (cp_backbone m) x;
     x_32_avg \<leftarrow> AdaptiveAvgPool2d_shape x_32;
     x_32 \<leftarrow> AttentionRefinementModule_forward_shape training (cp_arm_32 m) x_32;
     x_32 \<leftarrow> iadd_shape x_32 x_32_avg;
     x_32 \<leftarrow> conv1x1_shape (cp_conv_32 m) x_32;
     x_32 \<leftarrow> interpolate_scale_shape 2 x_32;
     x_16 \<leftarrow> AttentionRefinementModule_forward_shape training (cp_arm_16 m) x_16;
     x_16 \<leftarrow> conv1x1_shape (cp_conv_16 m) x_16;
     x_16 \<leftarrow> iadd_shape x_16 x_32;
     interpolate_scale_shape 2 x_16
   }"

text \<open>
  \<^verbatim>\<open>FeatureFusionModule.conv2\<close>: the two 1x1 convolutions change the shape, the
  ReLU and the sigmoid between and after them keep it.
\<close>

definition FeatureFusionModule_conv2_shape :: "FeatureFusionModule \<Rightarrow> shape \<Rightarrow> shape option" where
  "FeatureFusionModule_conv2_shape m x = do {
     x \<leftarrow> conv1x1_shape (ffm_conv2_a m) x;
     conv1x1_shape (ffm_conv2_b m) x
   }"

definition FeatureFusionModule_forward_shape ::
    "bool \<Rightarrow> FeatureFusionModule \<Rightarrow> shape \<Rightarrow> shape \<Rightarrow> shape option" where
  "FeatureFusionModule_forward_shape training m x_low x_high = do {
     x \<leftarrow> cat_shape x_low x_high;
     x \<leftarrow> ConvBNAct_shape training (ffm_conv1 m) x;
     x_pool \<leftarrow> AdaptiveAvgPool2d_shape x;
     x_pool \<leftarrow> expand_as_shape x_pool x;
     x_pool \<leftarrow> FeatureFusionModule_conv2_shape m x_pool;
     x_pool \<leftarrow> broadcast_shape x x_pool;
     broadcast_shape x x_pool
   }"

definition SegHead_forward_shape :: "bool \<Rightarrow> SegHead \<Rightarrow> shape \<Rightarrow> shape option" where
  "SegHead_forward_shape training m x = do {
     x \<leftarrow> ConvBNAct_shape training (sh_conv m) x;
     conv1x1_shape (sh_proj m) x
   }"

text \<open>\<^verbatim>\<open>x.size()[2:]\<close>: the height and the width.\<close>

definition spatial_size :: "shape \<Rightarrow> nat \<times> nat" where
  "spatial_size x = (case x of (b, c, h, w) \<Rightarrow> (h, w))"

definition BiSeNetv1_forward_shape :: "bool \<Rightarrow> BiSeNetv1 \<Rightarrow> shape \<Rightarrow> shape option" where
  "BiSeNetv1_forward_shape training m x = do {
     let size' = spatial_size x;
     x_s \<leftarrow> SpatialPath_forward_shape training (spatial_path m) x;
     x_c \<leftarrow> ContextPath_forward_shape training (context_path m) x;
     x \<leftarrow> FeatureFusionModule_forward_shape training (ffm m) x_s x_c;
     x \<leftarrow> SegHead_forward_shape training (seg_head m) x;
     interpolate_size_shape size' x
   }"

section \<open>Values: the forward pass on tensors\<close>

text \<open>
  A tensor is its shape together with its elements, indexed batch, channel, row, column.
  Elements are real numbers: the arithmetic of the linear operations is exact, and
  rounding is modelled where a claim rests on it, in the sigmoid. Every operation builds
  its result for the shape that the shape-level rule of the same operation returns, and
  raises exactly when that rule does.
\<close>

record 'a tensor =
  t_shape :: shape
  t_data :: "'a list list list list"

definition elt :: "'a tensor \<Rightarrow> nat \<Rightarrow> nat \<Rightarrow> nat \<Rightarrow> nat \<Rightarrow> 'a" where
  "elt t b c i j = t_data t ! b ! c ! i ! j"

definition tensor_of :: "shape \<Rightarrow> (nat \<Rightarrow> nat \<Rightarrow> nat \<Rightarrow> nat \<Rightarrow> 'a) \<Rightarrow> 'a tensor" where
  "tensor_of s f =
     (case s of (B, C, H, W) \<Rightarrow>
        \<lparr>t_shape = s,
         t_data = map (\<lambda>b. map (\<lambda>c. map (\<lambda>i. map (\<lambda>j. f b c i j) [0..<W]) [0..<H]) [0..<C]) [0..<B]\<rparr>)"

text \<open>The indices of a shape, and the tensors whose data fill their shape.\<close>

definition inside :: "shape \<Rightarrow> nat \<Rightarrow> nat \<Rightarrow> nat \<Rightarrow> nat \<Rightarrow> bool" where
  "inside s b c i j = (case s of (B, C, H, W) \<Rightarrow> b < B \<and> c < C \<and> i < H \<and> j < W)"

definition well_formed :: "'a tensor \<Rightarrow> bool" where
  "well_formed t = (t = tensor_of (t_shape t) (elt t))"

definition result :: "shape option \<Rightarrow> (nat \<Rightarrow> nat \<Rightarrow> nat \<Rightarrow> nat \<Rightarrow> 'a) \<Rightarrow> 'a tensor option" where
  "result s f = map_option (\<lambda>s. tensor_of s f) s"

text \<open>Reading an element under broadcasting: a dimension of size 1 is read at index 0.\<close>

definition bindex :: "nat \<Rightarrow> nat \<Rightarrow> nat" where
  "bindex n k = (if n = 1 then 0 else k)"

definition belt :: "'a tensor \<Rightarrow> nat \<Rightarrow> nat \<Rightarrow> nat \<Rightarrow> nat \<Rightarrow> 'a" where
  "belt t b c i j =
     (case t_shape t of (B, C, H, W) \<Rightarrow> elt t (bindex B b) (bindex C c) (bindex H i) (bindex W j))"

subsection \<open>Library operations\<close>

definition torch_cat :: "'a tensor \<Rightarrow> 'a tensor \<Rightarrow> 'a tensor option" where
  "torch_cat x y =
     result (cat_shape (t_shape x) (t_shape y))
       (\<lambda>b c i j. case t_shape x of (B, C, H, W) \<Rightarrow>
          if c < C then elt x b c i j else elt y b (c - C) i j)"

definition torch_mul :: "real tensor \<Rightarrow> real tensor \<Rightarrow> real tensor option" where
  "torch_mul x y =
     result (broadcast_shape (t_shape x) (t_shape y)) (\<lambda>b c i j. belt x b c i j * belt y b c i j)"

definition torch_add :: "real tensor \<Rightarrow> real tensor \<Rightarrow> real tensor option" where
  "torch_add x y =
     result (broadcast_shape (t_shape x) (t_shape y)) (\<lambda>b c i j. belt x b c i j + belt y b c i j)"

text \<open>\<^verbatim>\<open>x += y\<close>; the model returns the new value of \<open>x\<close>.\<close>

definition torch_iadd :: "real tensor \<Rightarrow> real tensor \<Rightarrow> real tensor option" where
  "torch_iadd x y =
     result (iadd_shape (t_shape x) (t_shape y)) (\<lambda>b c i j. elt x b c i j + belt y b c i j)"

definition expand_as :: "'a tensor \<Rightarrow> 'a tensor \<Rightarrow> 'a tensor option" where
  "expand_as x y = result (expand_as_shape (t_shape x) (t_shape y)) (belt x)"

text \<open>\<^verbatim>\<open>nn.AdaptiveAvgPool2d(1)\<close>: the mean of every channel plane.\<close>

definition plane_mean :: "real tensor \<Rightarrow> nat \<Rightarrow> nat \<Rightarrow> real" where
  "plane_mean x b c =
     (case t_shape x of (B, C, H, W) \<Rightarrow> (\<Sum>u<H. \<Sum>v<W. elt x b c u v) / real (H * W))"

definition AdaptiveAvgPool2d :: "real tensor \<Rightarrow> real tensor option" where
  "AdaptiveAvgPool2d x =
     result (AdaptiveAvgPool2d_shape (t_shape x)) (\<lambda>b c i j. plane_mean x b c)"

text \<open>Convolution with zero padding; \<open>weight o c di dj\<close> is the kernel.\<close>

definition padded :: "nat \<Rightarrow> real tensor \<Rightarrow> nat \<Rightarrow> nat \<Rightarrow> nat \<Rightarrow> nat \<Rightarrow> real" where
  "padded p x b c u v =
     (case t_shape x of (B, C, H, W) \<Rightarrow>
        if p \<le> u \<and> u < H + p \<and> p \<le> v \<and> v < W + p then elt x b c (u - p) (v - p) else 0)"

definition Conv2d ::
    "nat \<Rightarrow> nat \<Rightarrow> nat \<Rightarrow> nat \<Rightarrow> nat \<Rightarrow> (nat \<Rightarrow> nat \<Rightarrow> nat \<Rightarrow> nat \<Rightarrow> real) \<Rightarrow> real tensor
     \<Rightarrow> real tensor option" where
  "Conv2d c_in c_out k s p weight x =
     result (Conv2d_shape c_in c_out k s p (t_shape x))
       (\<lambda>b o' i j. \<Sum>c<c_in. \<Sum>di<k. \<Sum>dj<k.
          weight o' c di dj * padded p x b c (i * s + di) (j * s + dj))"

text \<open>
  Batch normalisation is an affine map per channel. Its two coefficients come from the
  running statistics in inference mode and from the statistics of the batch in training
  mode: \<open>coef training x c\<close> gives them for channel \<open>c\<close> of the input \<open>x\<close>.
\<close>

definition BatchNorm2d ::
    "bool \<Rightarrow> nat \<Rightarrow> (bool \<Rightarrow> real tensor \<Rightarrow> nat \<Rightarrow> real \<times> real) \<Rightarrow> real tensor
     \<Rightarrow> real tensor option" where
  "BatchNorm2d training num_features coef x =
     result (BatchNorm2d_shape training num_features (t_shape x))
       (\<lambda>b c i j. fst (coef training x c) * elt x b c i j + snd (coef training x c))"

definition tensor_map :: "('a \<Rightarrow> 'b) \<Rightarrow> 'a tensor \<Rightarrow> 'b tensor" where
  "tensor_map f x = tensor_of (t_shape x) (\<lambda>b c i j. f (elt x b c i j))"

text \<open>
  Bilinear interpolation with aligned corners (\<^verbatim>\<open>mode='bilinear', align_corners=True\<close>):
  output index \<open>i\<close> of \<open>n_out\<close> reads the input at \<open>i * (n_in - 1) / (n_out - 1)\<close>.
\<close>

definition source_index :: "nat \<Rightarrow> nat \<Rightarrow> nat \<Rightarrow> real" where
  "source_index n_in n_out i =
     (if n_out \<le> 1 then 0 else real i * real (n_in - 1) / real (n_out - 1))"

definition bilinear :: "real tensor \<Rightarrow> nat \<times> nat \<Rightarrow> nat \<Rightarrow> nat \<Rightarrow> nat \<Rightarrow> nat \<Rightarrow> real" where
  "bilinear x out_size b c i j =
     (case (t_shape x, out_size) of ((B, C, H, W), (oh, ow)) \<Rightarrow>
        let sy = source_index H oh i; y0 = nat \<lfloor>sy\<rfloor>; y1 = min (y0 + 1) (H - 1); ly = sy - real y0;
            sx = source_index W ow j; x0 = nat \<lfloor>sx\<rfloor>; x1 = min (x0 + 1) (W - 1); lx = sx - real x0
        in (1 - ly) * ((1 - lx) * elt x b c y0 x0 + lx * elt x b c y0 x1)
           + ly * ((1 - lx) * elt x b c y1 x0 + lx * elt x b c y1 x1))"

definition F_interpolate_size :: "real tensor \<Rightarrow> nat \<times> nat \<Rightarrow> real tensor option" where
  "F_interpolate_size x out_size =
     result (interpolate_size_shape out_size (t_shape x)) (bilinear x out_size)"

definition F_interpolate_scale :: "real tensor \<Rightarrow> nat \<Rightarrow> real tensor option" where
  "F_interpolate_scale x scale_factor =
     (case t_shape x of (B, C, H, W) \<Rightarrow>
        result (interpolate_scale_shape scale_factor (t_shape x))
          (bilinear x (H * scale_factor, W * scale_factor)))"

subsection \<open>Nonlinearities\<close>

text \<open>
  The element-wise nonlinearities are parameters of the forward pass: what the library
  computes for \<^verbatim>\<open>nn.ReLU\<close>, for \<^verbatim>\<open>nn.Sigmoid\<close> and for the other activation kinds.
\<close>

record nonlinearities =
  nl_relu :: "real \<Rightarrow> real"
  nl_sigmoid :: "real \<Rightarrow> real"
  nl_named :: "string \<Rightarrow> real \<Rightarrow> real"

definition relu :: "real \<Rightarrow> real" where
  "relu v = max 0 v"

definition sigmoid :: "real \<Rightarrow> real" where
  "sigmoid v = 1 / (1 + exp (- v))"

text \<open>
  The library computes on single-precision numbers (binary32: 24 significant bits, least
  exponent -126). \<open>float32_ulp x\<close> is the distance of two neighbours of the format near
  \<open>x\<close>, \<open>float32_round x\<close> the member of the format nearest to \<open>x\<close> (a tie goes up here,
  to the even neighbour in the format; no fact below rests on a tie) and \<open>float32_max\<close>
  the largest finite member.

  \<^verbatim>\<open>nn.Sigmoid\<close> evaluates \<open>1 / (1 + exp (- v))\<close> in this arithmetic, every operation
  rounded: when \<open>exp (- v)\<close> exceeds the largest finite number it is infinite, and so is
  the sum, and the quotient is 0.
\<close>

definition float32_ulp :: "real \<Rightarrow> real" where
  "float32_ulp x = 2 powr (real_of_int (max \<lfloor>log 2 \<bar>x\<bar>\<rfloor> (- 126)) - 23)"

definition float32_round :: "real \<Rightarrow> real" where
  "float32_round x = (if x = 0 then 0 else float32_ulp x * real_of_int (round (x / float32_ulp x)))"

definition float32_max :: real where
  "float32_max = (2 - 1 / 2 ^ 23) * 2 ^ 127"

definition float32_sigmoid :: "real \<Rightarrow> real" where
  "float32_sigmoid v =
     (let e = float32_round (exp (- v))
      in if float32_max < e then 0 else float32_round (1 / float32_round (1 + e)))"

definition float32_nonlinearities :: "(string \<Rightarrow> real \<Rightarrow> real) \<Rightarrow> nonlinearities" where
  "float32_nonlinearities other = \<lparr>nl_relu = relu, nl_sigmoid = float32_sigmoid, nl_named = other\<rparr>"

text \<open>
  Modelled from the spec: the activation of \<^verbatim>\<open>ConvBNAct\<close> (\<^verbatim>\<open>modules.py\<close>, not part
  of the given source) is chosen by the activation-kind identifier; \<^verbatim>\<open>sigmoid\<close> and
  \<^verbatim>\<open>relu\<close> name the library's nonlinearities.
\<close>

definition Activation :: "nonlinearities \<Rightarrow> string \<Rightarrow> real \<Rightarrow> real" where
  "Activation N act_type =
     (if act_type = ''sigmoid'' then nl_sigmoid N
      else if act_type = ''relu'' then nl_relu N
      else nl_named N act_type)"

subsection \<open>Layers with their parameters\<close>

text \<open>
  The learned parameters of a module are kept beside its configuration, in a record of
  the same structure. A convolution kernel is the function \<open>weight o c di dj\<close>; the
  coefficients of a normalisation are the function \<open>coef training x c\<close>.
\<close>

record ConvBNAct_params =
  cba_weight :: "nat \<Rightarrow> nat \<Rightarrow> nat \<Rightarrow> nat \<Rightarrow> real"
  cba_coef :: "bool \<Rightarrow> real tensor \<Rightarrow> nat \<Rightarrow> real \<times> real"

record Conv1x1_params =
  c1_weight :: "nat \<Rightarrow> nat \<Rightarrow> nat \<Rightarrow> nat \<Rightarrow> real"
  c1_bias :: "nat \<Rightarrow> real"

text \<open>
  Modelled from the spec: the forward pass of \<^verbatim>\<open>ConvBNAct\<close> (\<^verbatim>\<open>modules.py\<close>, not
  part of the given source), on values: the convolution padded by \<open>(kernel - 1) div 2\<close>,
  the batch normalisation of its output channels, then the activation of the configured
  kind on every element.
\<close>

definition ConvBNAct_forward ::
    "nonlinearities \<Rightarrow> bool \<Rightarrow> ConvBNAct \<Rightarrow> ConvBNAct_params \<Rightarrow> real tensor \<Rightarrow> real tensor option" where
  "ConvBNAct_forward N training m \<theta> x = do {
     x \<leftarrow> Conv2d (cba_in m) (cba_out m) (cba_kernel m) (cba_stride m)
           ((cba_kernel m - 1) div 2) (cba_weight \<theta>) x;
     x \<leftarrow> BatchNorm2d training (cba_out m) (cba_coef \<theta>) x;
     Some (tensor_map (Activation N (cba_act m)) x)
   }"

text \<open>
  Modelled from the spec: the forward pass of \<^verbatim>\<open>conv1x1\<close> (\<^verbatim>\<open>modules.py\<close>, not
  part of the given source), on values: a 1x1 convolution, stride 1, no padding, no
  activation, with a bias per output channel (zero when the layer has none).
\<close>

definition conv1x1_forward :: "Conv1x1 \<Rightarrow> Conv1x1_params \<Rightarrow> real tensor \<Rightarrow> real tensor option" where
  "conv1x1_forward m \<theta> x = do {
     x \<leftarrow> Conv2d (c1_in m) (c1_out m) 1 1 0 (c1_weight \<theta>) x;
     Some (tensor_of (t_shape x) (\<lambda>b c i j. elt x b c i j + c1_bias \<theta> c))
   }"

text \<open>\<^verbatim>\<open>nn.Sequential\<close> with parameters: member \<open>k\<close> runs with the parameters of index \<open>k\<close>.\<close>

fun Sequential_forward ::
    "('m \<Rightarrow> 'p \<Rightarrow> 'x \<Rightarrow> 'x option) \<Rightarrow> 'm list \<Rightarrow> (nat \<Rightarrow> 'p) \<Rightarrow> nat \<Rightarrow> 'x \<Rightarrow> 'x option" where
  "Sequential_forward f [] \<theta> k x = Some x"
| "Sequential_forward f (m # ms) \<theta> k x =
     (case f m (\<theta> k) x of None \<Rightarrow> None | Some y \<Rightarrow> Sequential_forward f ms \<theta> (Suc k) y)"

text \<open>
  The eight members that \<^verbatim>\<open>ResNet.__init__\<close> copies from the torchvision network are
  external: each has the shape rule of the shape level and an element function of its
  input that is left open (\<open>k x b c i j\<close> is element \<open>(b, c, i, j)\<close> of the output for the
  input \<open>x\<close>).
\<close>

type_synonym kernel = "real tensor \<Rightarrow> nat \<Rightarrow> nat \<Rightarrow> nat \<Rightarrow> nat \<Rightarrow> real"

record ResNet_params =
  rn_conv1 :: kernel
  rn_bn1 :: "bool \<Rightarrow> kernel"
  rn_relu :: kernel
  rn_maxpool :: kernel
  rn_layer1 :: "bool \<Rightarrow> kernel"
  rn_layer2 :: "bool \<Rightarrow> kernel"
  rn_layer3 :: "bool \<Rightarrow> kernel"
  rn_layer4 :: "bool \<Rightarrow> kernel"

record AttentionRefinementModule_params =
  arm_conv_p :: ConvBNAct_params

record ContextPath_params =
  cp_backbone_p :: ResNet_params
  cp_arm_16_p :: AttentionRefinementModule_params
  cp_arm_32_p :: AttentionRefinementModule_params
  cp_conv_16_p :: Conv1x1_params
  cp_conv_32_p :: Conv1x1_params

record FeatureFusionModule_params =
  ffm_conv1_p :: ConvBNAct_params
  ffm_conv2_a_p :: Conv1x1_params
  ffm_conv2_b_p :: Conv1x1_params

record SegHead_params =
  sh_conv_p :: ConvBNAct_params
  sh_proj_p :: Conv1x1_params

record BiSeNetv1_params =
  spatial_path_p :: "nat \<Rightarrow> ConvBNAct_params"
  context_path_p :: ContextPath_params
  ffm_p :: FeatureFusionModule_params
  seg_head_p :: SegHead_params

subsection \<open>The forward passes\<close>

definition SpatialPath_forward ::
    "nonlinearities \<Rightarrow> bool \<Rightarrow> ConvBNAct list \<Rightarrow> (nat \<Rightarrow> ConvBNAct_params) \<Rightarrow> real tensor
     \<Rightarrow> real tensor option" where
  "SpatialPath_forward N training sp \<theta> x = Sequential_forward (ConvBNAct_forward N training) sp \<theta> 0 x"

definition ResNet_forward ::
    "bool \<Rightarrow> ResNet \<Rightarrow> ResNet_params \<Rightarrow> real tensor \<Rightarrow> (real tensor \<times> real tensor) option" where
  "ResNet_forward training rn \<theta> x = do {
     let e = resnet_expansion (rn_arch rn);
     x \<leftarrow> result (Conv2d_shape 3 64 7 2 3 (t_shape x)) (rn_conv1 \<theta> x);
     x \<leftarrow> result (BatchNorm2d_shape training 64 (t_shape x)) (rn_bn1 \<theta> training x);
     x \<leftarrow> result (Some (t_shape x)) (rn_relu \<theta> x);
     x \<leftarrow> result (MaxPool2d_shape 3 2 1 (t_shape x)) (rn_maxpool \<theta> x);
     x \<leftarrow> result (resnet_layer_shape training 64 (64 * e) 1 (t_shape x)) (rn_layer1 \<theta> training x);
     x \<leftarrow> result (resnet_layer_shape training (64 * e) (128 * e) 2 (t_shape x)) (rn_layer2 \<theta> training x);
     x3 \<leftarrow> result (resnet_layer_shape training (128 * e) (256 * e) 2 (t_shape x)) (rn_layer3 \<theta> training x);
     x \<leftarrow> result (resnet_layer_shape training (256 * e) (512 * e) 2 (t_shape x3)) (rn_layer4 \<theta> training x3);
     Some (x, x3)
   }"

definition AttentionRefinementModule_forward ::
    "nonlinearities \<Rightarrow> bool \<Rightarrow> AttentionRefinementModule \<Rightarrow> AttentionRefinementModule_params
     \<Rightarrow> real tensor \<Rightarrow> real tensor option" where
  "AttentionRefinementModule_forward N training m \<theta> x = do {
     x_pool \<leftarrow> AdaptiveAvgPool2d x;
     x_pool \<leftarrow> expand_as x_pool x;
     x_pool \<leftarrow> ConvBNAct_forward N training (arm_conv m) (arm_conv_p \<theta>) x_pool;
     torch_mul x x_pool
   }"

definition ContextPath_forward ::
    "nonlinearities \<Rightarrow> bool \<Rightarrow> ContextPath \<Rightarrow> ContextPath_params \<Rightarrow> real tensor
     \<Rightarrow> real tensor option" where
  "ContextPath_forward N training m \<theta> x = do {
     (x_32, x_16) \<leftarrow> ResNet_forward training (cp_backbone m) (cp_backbone_p \<theta>) x;
     x_32_avg \<leftarrow> AdaptiveAvgPool2d x_32;
     x_32 \<leftarrow> AttentionRefinementModule_forward N training (cp_arm_32 m) (cp_arm_32_p \<theta>) x_32;
     x_32 \<leftarrow> torch_iadd x_32 x_32_avg;
     x_32 \<leftarrow> conv1x1_forward (cp_conv_32 m) (cp_conv_32_p \<theta>) x_32;
     x_32 \<leftarrow> F_interpolate_scale x_32 2;
     x_16 \<leftarrow> AttentionRefinementModule_forward N training (cp_arm_16 m) (cp_arm_16_p \<theta>) x_16;
     x_16 \<leftarrow> conv1x1_forward (cp_conv_16 m) (cp_conv_16_p \<theta>) x_16;
     x_16 \<leftarrow> torch_iadd x_16 x_32;
     F_interpolate_scale x_16 2
   }"

text \<open>\<^verbatim>\<open>FeatureFusionModule.conv2\<close>: 1x1 convolution, ReLU, 1x1 convolution, sigmoid.\<close>

definition FeatureFusionModule_conv2 ::
    "nonlinearities \<Rightarrow> FeatureFusionModule \<Rightarrow> FeatureFusionModule_params \<Rightarrow> real tensor
     \<Rightarrow> real tensor option" where
  "FeatureFusionModule_conv2 N m \<theta> x = do {
     x \<leftarrow> conv1x1_forward (ffm_conv2_a m) (ffm_conv2_a_p \<theta>) x;
     x \<leftarrow> Some (tensor_map (nl_relu N) x);
     x \<leftarrow> conv1x1_forward (ffm_conv2_b m) (ffm_conv2_b_p \<theta>) x;
     Some (tensor_map (nl_sigmoid N) x)
   }"

definition FeatureFusionModule_forward ::
    "nonlinearities \<Rightarrow> bool \<Rightarrow> FeatureFusionModule \<Rightarrow> FeatureFusionModule_params
     \<Rightarrow> real tensor \<Rightarrow> real tensor \<Rightarrow> real tensor option" where
  "FeatureFusionModule_forward N training m \<theta> x_low x_high = do {
     x \<leftarrow> torch_cat x_low x_high;
     x \<leftarrow> ConvBNAct_forward N training (ffm_conv1 m) (ffm_conv1_p \<theta>) x;
     x_pool \<leftarrow> AdaptiveAvgPool2d x;
     x_pool \<leftarrow> expand_as x_pool x;
     x_pool \<leftarrow> FeatureFusionModule_conv2 N m \<theta> x_pool;
     x_pool \<leftarrow> torch_mul x x_pool;
     torch_add x x_pool
   }"

definition SegHead_forward ::
    "nonlinearities \<Rightarrow> bool \<Rightarrow> SegHead \<Rightarrow> SegHead_params \<Rightarrow> real tensor \<Rightarrow> real tensor option" where
  "SegHead_forward N training m \<theta> x = do {
     x \<leftarrow> ConvBNAct_forward N training (sh_conv m) (sh_conv_p \<theta>) x;
     conv1x1_forward (sh_proj m) (sh_proj_p \<theta>) x
   }"

definition BiSeNetv1_forward ::
    "nonlinearities \<Rightarrow> bool \<Rightarrow> BiSeNetv1 \<Rightarrow> BiSeNetv1_params \<Rightarrow> real tensor \<Rightarrow> real tensor option" where
  "BiSeNetv1_forward N training m \<theta> x = do {
     let size' = spatial_size (t_shape x);
     x_s \<leftarrow> SpatialPath_forward N training (spatial_path m) (spatial_path_p \<theta>) x;
     x_c \<leftarrow> ContextPath_forward N training (context_path m) (context_path_p \<theta>) x;
     x \<leftarrow> FeatureFusionModule_forward N training (ffm m) (ffm_p \<theta>) x_s x_c;
     x \<leftarrow> SegHead_forward N training (seg_head m) (seg_head_p \<theta>) x;
     F_interpolate_size x size'
   }"

text \<open>
  The same forward pass with the two branches evaluated in the other order: the context
  path first, the spatial path second.
\<close>

definition BiSeNetv1_forward_context_first ::
    "nonlinearities \<Rightarrow> bool \<Rightarrow> BiSeNetv1 \<Rightarrow> BiSeNetv1_params \<Rightarrow> real tensor \<Rightarrow> real tensor option" where
  "BiSeNetv1_forward_context_first N training m \<theta> x = do {
     let size' = spatial_size (t_shape x);
     x_c \<leftarrow> ContextPath_forward N training (context_path m) (context_path_p \<theta>) x;
     x_s \<leftarrow> SpatialPath_forward N training (spatial_path m) (spatial_path_p \<theta>) x;
     x \<leftarrow> FeatureFusionModule_forward N training (ffm m) (ffm_p \<theta>) x_s x_c;
     x \<leftarrow> SegHead_forward N training (seg_head m) (seg_head_p \<theta>) x;
     F_interpolate_size x size'
   }"

subsection \<open>Auxiliary notions\<close>

text \<open>A tensor whose elements depend on the batch element and the channel only.\<close>

definition per_channel :: "'a tensor \<Rightarrow> (nat \<Rightarrow> nat \<Rightarrow> 'a) \<Rightarrow> bool" where
  "per_channel t g = (\<forall>b c i j. inside (t_shape t) b c i j \<longrightarrow> elt t b c i j = g b c)"

text \<open>A tensor with one value everywhere.\<close>

definition const_tensor :: "shape \<Rightarrow> 'a \<Rightarrow> 'a tensor" where
  "const_tensor s v = tensor_of s (\<lambda>b c i j. v)"

subsection \<open>Example parameters\<close>

text \<open>
  Concrete parameters on which the forward passes are evaluated below. The sigmoid of
  the example saturates outside \<open>[-100, 100]\<close>, as a sigmoid computed in finite
  precision does; with it a gate can be exactly zero.
\<close>

definition saturating_sigmoid :: "real \<Rightarrow> real" where
  "saturating_sigmoid v = (if v < - 100 then 0 else if 100 < v then 1 else sigmoid v)"

definition example_ConvBNAct_params :: ConvBNAct_params where
  "example_ConvBNAct_params = \<lparr>cba_weight = (\<lambda>o' c di dj. 1), cba_coef = (\<lambda>t x c. (1, 0))\<rparr>"

definition example_Conv1x1_params :: "real \<Rightarrow> Conv1x1_params" where
  "example_Conv1x1_params bias = \<lparr>c1_weight = (\<lambda>o' c di dj. 0), c1_bias = (\<lambda>c. bias)\<rparr>"

definition example_ResNet_params :: ResNet_params where
  "example_ResNet_params =
     \<lparr>rn_conv1 = (\<lambda>x b c i j. 0), rn_bn1 = (\<lambda>t x b c i j. 0), rn_relu = (\<lambda>x b c i j. 0),
      rn_maxpool = (\<lambda>x b c i j. 0), rn_layer1 = (\<lambda>t x b c i j. 0), rn_layer2 = (\<lambda>t x b c i j. 0),
      rn_layer3 = (\<lambda>t x b c i j. 0), rn_layer4 = (\<lambda>t x b c i j. 0)\<rparr>"

definition example_ARM_params :: AttentionRefinementModule_params where
  "example_ARM_params = \<lparr>arm_conv_p = example_ConvBNAct_params\<rparr>"

definition example_FFM_params :: FeatureFusionModule_params where
  "example_FFM_params =
     \<lparr>ffm_conv1_p = example_ConvBNAct_params,
      ffm_conv2_a_p = example_Conv1x1_params 0,
      ffm_conv2_b_p = example_Conv1x1_params (- 200)\<rparr>"

definition example_params :: BiSeNetv1_params where
  "example_params =
     \<lparr>spatial_path_p = (\<lambda>k. example_ConvBNAct_params),
      context_path_p =
        \<lparr>cp_backbone_p = example_ResNet_params,
         cp_arm_16_p = example_ARM_params, cp_arm_32_p = example_ARM_params,
         cp_conv_16_p = example_Conv1x1_params 0, cp_conv_32_p = example_Conv1x1_params 0\<rparr>,
      ffm_p = example_FFM_params,
      seg_head_p = \<lparr>sh_conv_p = example_ConvBNAct_params, sh_proj_p = example_Conv1x1_params 0\<rparr>\<rparr>"

definition example_nonlinearities :: nonlinearities where
  "example_nonlinearities = \<lparr>nl_relu = relu, nl_sigmoid = saturating_sigmoid, nl_named = (\<lambda>a. id)\<rparr>"

text \<open>
  Parameters that tell the two branches apart: every block of the spatial path has a
  normalisation that maps each value to 7, so the spatial feature is 7 everywhere, while
  the projections of the context path, of weight and bias zero, make the corner pixels of
  the context feature 0.
\<close>

definition constant_ConvBNAct_params :: "real \<Rightarrow> ConvBNAct_params" where
  "constant_ConvBNAct_params s = \<lparr>cba_weight = (\<lambda>o' c di dj. 1), cba_coef = (\<lambda>t x c. (0, s))\<rparr>"

definition distinct_branch_params :: BiSeNetv1_params where
  "distinct_branch_params =
     \<lparr>spatial_path_p = (\<lambda>k. constant_ConvBNAct_params 7),
      context_path_p = context_path_p example_params,
      ffm_p = example_FFM_params,
      seg_head_p = seg_head_p example_params\<rparr>"

section \<open>References: the forward pass on a heap of tensors\<close>

text \<open>
  \<^verbatim>\<open>ContextPath.forward\<close> updates tensors in place (\<^verbatim>\<open>x_32 += x_32_avg\<close>,
  \<^verbatim>\<open>x_16 += x_32\<close>). To see which tensors these writes reach, a Python variable is
  modelled as a reference into a heap of tensors. A library operation or a call of a
  module without in-place updates reads its operands and stores its result in a new
  cell; \<^verbatim>\<open>+=\<close> overwrites the cell of its left operand.
\<close>

type_synonym ref = nat
type_synonym heap = "real tensor list"

definition new :: "real tensor option \<Rightarrow> heap \<Rightarrow> (ref \<times> heap) option" where
  "new r h = map_option (\<lambda>v. (length h, h @ [v])) r"

definition iadd_ref :: "ref \<Rightarrow> ref \<Rightarrow> heap \<Rightarrow> (ref \<times> heap) option" where
  "iadd_ref a b h = map_option (\<lambda>v. (a, h[a := v])) (torch_iadd (h ! a) (h ! b))"

text \<open>The backbone returns two tensors: two new cells, the 1/32 map first.\<close>

definition new_pair :: "(real tensor \<times> real tensor) option \<Rightarrow> heap \<Rightarrow> ((ref \<times> ref) \<times> heap) option" where
  "new_pair r h = map_option (\<lambda>(v, v'). ((length h, Suc (length h)), h @ [v, v'])) r"

definition ContextPath_forward_heap ::
    "nonlinearities \<Rightarrow> bool \<Rightarrow> ContextPath \<Rightarrow> ContextPath_params \<Rightarrow> ref \<Rightarrow> heap
     \<Rightarrow> (ref \<times> heap) option" where
  "ContextPath_forward_heap N training m \<theta> x h = do {
     ((x_32, x_16), h) \<leftarrow> new_pair (ResNet_forward training (cp_backbone m) (cp_backbone_p \<theta>) (h ! x)) h;
     (x_32_avg, h) \<leftarrow> new (AdaptiveAvgPool2d (h ! x_32)) h;
     (x_32, h) \<leftarrow> new (AttentionRefinementModule_forward N training (cp_arm_32 m) (cp_arm_32_p \<theta>) (h ! x_32)) h;
     (x_32, h) \<leftarrow> iadd_ref x_32 x_32_avg h;
     (x_32, h) \<leftarrow> new (conv1x1_forward (cp_conv_32 m) (cp_conv_32_p \<theta>) (h ! x_32)) h;
     (x_32, h) \<leftarrow> new (F_interpolate_scale (h ! x_32) 2) h;
     (x_16, h) \<leftarrow> new (AttentionRefinementModule_forward N training (cp_arm_16 m) (cp_arm_16_p \<theta>) (h ! x_16)) h;
     (x_16, h) \<leftarrow> new (conv1x1_forward (cp_conv_16 m) (cp_conv_16_p \<theta>) (h ! x_16)) h;
     (x_16, h) \<leftarrow> iadd_ref x_16 x_32 h;
     new (F_interpolate_scale (h ! x_16) 2) h
   }"

definition BiSeNetv1_forward_heap ::
    "nonlinearities \<Rightarrow> bool \<Rightarrow> BiSeNetv1 \<Rightarrow> BiSeNetv1_params \<Rightarrow> ref \<Rightarrow> heap
     \<Rightarrow> (ref \<times> heap) option" where
  "BiSeNetv1_forward_heap N training m \<theta> x h = do {
     let size' = spatial_size (t_shape (h ! x));
     (x_s, h) \<leftarrow> new (SpatialPath_forward N training (spatial_path m) (spatial_path_p \<theta>) (h ! x)) h;
     (x_c, h) \<leftarrow> ContextPath_forward_heap N training (context_path m) (context_path_p \<theta>) x h;
     (x, h) \<leftarrow> new (FeatureFusionModule_forward N training (ffm m) (ffm_p \<theta>) (h ! x_s) (h ! x_c)) h;
     (x, h) \<leftarrow> new (SegHead_forward N training (seg_head m) (seg_head_p \<theta>) (h ! x)) h;
     new (F_interpolate_size (h ! x) size') h
   }"

text \<open>The same with the two branches in the other order: the context path first.\<close>

definition BiSeNetv1_forward_heap_context_first ::
    "nonlinearities \<Rightarrow> bool \<Rightarrow> BiSeNetv1 \<Rightarrow> BiSeNetv1_params \<Rightarrow> ref \<Rightarrow> heap
     \<Rightarrow> (ref \<times> heap) option" where
  "BiSeNetv1_forward_heap_context_first N training m \<theta> x h = do {
     let size' = spatial_size (t_shape (h ! x));
     (x_c, h) \<leftarrow> ContextPath_forward_heap N training (context_path m) (context_path_p \<theta>) x h;
     (x_s, h) \<leftarrow> new (SpatialPath_forward N training (spatial_path m) (spatial_path_p \<theta>) (h ! x)) h;
     (x, h) \<leftarrow> new (FeatureFusionModule_forward N training (ffm m) (ffm_p \<theta>) (h ! x_s) (h ! x_c)) h;
     (x, h) \<leftarrow> new (SegHead_forward N training (seg_head m) (seg_head_p \<theta>) (h ! x)) h;
     new (F_interpolate_size (h ! x) size') h
   }"

text \<open>The tensor a forward pass returns: the content of the returned reference.\<close>

definition returned :: "(ref \<times> heap) option \<Rightarrow> real tensor option" where
  "returned r = map_option (\<lambda>(a, h). h ! a) r"

section \<open>Verification: construction\<close>

subsection \<open>Substring test and the backbone table\<close>

lemma py_in_sublist: "py_in sub s \<longleftrightarrow> sublist sub s"
  by (induction s) (auto simp: sublist_Cons_right)

lemma py_in_middle: "py_in s (a @ s @ b)"
  by (simp add: py_in_sublist)

lemma resnet_hub_None:
  "t \<notin> {''resnet18'', ''resnet34'', ''resnet50'', ''resnet101'', ''resnet152''} \<Longrightarrow> resnet_hub t = None"
  by (simp add: resnet_hub_def)

lemma resnet_hub_cases:
  assumes "resnet_hub t = Some a"
  shows "(t, a) \<in> {(''resnet18'', Resnet18), (''resnet34'', Resnet34), (''resnet50'', Resnet50),
                   (''resnet101'', Resnet101), (''resnet152'', Resnet152)}"
  using assms by (auto simp: resnet_hub_def split: if_splits)

lemma resnet_expansion_pos: "0 < resnet_expansion a"
  by (cases a) (simp_all add: resnet_expansion_def)

lemma ContextPath_init_fields:
  assumes "ContextPath_init out_channels t act = Inr m"
  shows "cp_channels m = [256 * resnet_expansion (rn_arch (cp_backbone m)),
                          512 * resnet_expansion (rn_arch (cp_backbone m))]"
    and "cp_arm_16 m = AttentionRefinementModule_init (cp_channels m ! 0)"
    and "cp_arm_32 m = AttentionRefinementModule_init (cp_channels m ! 1)"
    and "cp_conv_16 m = conv1x1 (cp_channels m ! 0) out_channels"
    and "cp_conv_32 m = conv1x1 (cp_channels m ! 1) out_channels"
    and "resnet_hub t = Some (rn_arch (cp_backbone m))"
proof -
  from assms obtain a where a: "resnet_hub t = Some a"
    by (auto simp: ContextPath_init_def ResNet_init_def split: if_splits option.splits)
  from resnet_hub_cases[OF a] assms a
  show "cp_channels m = [256 * resnet_expansion (rn_arch (cp_backbone m)),
                          512 * resnet_expansion (rn_arch (cp_backbone m))]"
    and "cp_arm_16 m = AttentionRefinementModule_init (cp_channels m ! 0)"
    and "cp_arm_32 m = AttentionRefinementModule_init (cp_channels m ! 1)"
    and "cp_conv_16 m = conv1x1 (cp_channels m ! 0) out_channels"
    and "cp_conv_32 m = conv1x1 (cp_channels m ! 1) out_channels"
    and "resnet_hub t = Some (rn_arch (cp_backbone m))"
    by (auto simp: ContextPath_init_def ResNet_init_def resnet_expansion_def Let_def)
qed

lemma BiSeNetv1_init_fields:
  assumes "BiSeNetv1_init num_class n_channel t act = Inr m"
  shows "spatial_path m = SpatialPath_init n_channel 128 act"
    and "ContextPath_init 256 t act = Inr (context_path m)"
    and "ffm m = FeatureFusionModule_init 384 256 act"
    and "seg_head m = SegHead_init 256 num_class act 128"
  using assms by (auto simp: BiSeNetv1_init_def Let_def split: sum.splits)

lemma BiSeNetv1_init_supported:
  assumes "backbone_type \<in> {''resnet18'', ''resnet34'', ''resnet50'', ''resnet101'', ''resnet152''}"
  shows "\<exists>m. BiSeNetv1_init num_class n_channel backbone_type act_type = Inr m
             \<and> cp_channels (context_path m)
                 = (if py_in ''18'' backbone_type \<or> py_in ''34'' backbone_type
                    then [256, 512] else [1024, 2048])"
  using assms
  by (auto simp: BiSeNetv1_init_def ContextPath_init_def ResNet_init_def resnet_hub_def Let_def)

text \<open>
  Claim C2. A backbone-type string that contains \<^verbatim>\<open>resnet\<close> and is not one of the
  five keys of \<^verbatim>\<open>resnet_hub\<close> makes the construction of the network fail with a
  value error whose message contains that string. Construction returns no module, so no
  forward pass can follow.
\<close>

theorem unsupported_resnet_variant_value_error:
  assumes "py_in ''resnet'' backbone_type"
    and "backbone_type \<notin> {''resnet18'', ''resnet34'', ''resnet50'', ''resnet101'', ''resnet152''}"
  shows "BiSeNetv1_init num_class n_channel backbone_type act_type
           = Inl (ValueError (''Unsupported ResNet type: '' @ backbone_type @ ''.\<newline>''))
         \<and> py_in backbone_type (''Unsupported ResNet type: '' @ backbone_type @ ''.\<newline>'')"
proof
  show "BiSeNetv1_init num_class n_channel backbone_type act_type
          = Inl (ValueError (''Unsupported ResNet type: '' @ backbone_type @ ''.\<newline>''))"
    using assms
    by (simp add: BiSeNetv1_init_def ContextPath_init_def ResNet_init_def resnet_hub_None Let_def)
  show "py_in backbone_type (''Unsupported ResNet type: '' @ backbone_type @ ''.\<newline>'')"
    by (rule py_in_middle)
qed

theorem unsupported_resnet_variant_value_error_witness:
  "py_in ''resnet'' ''resnet9''
   \<and> ''resnet9'' \<notin> {''resnet18'', ''resnet34'', ''resnet50'', ''resnet101'', ''resnet152''}
   \<and> BiSeNetv1_init 19 3 ''resnet9'' ''relu''
       = Inl (ValueError ''Unsupported ResNet type: resnet9.\<newline>'')
   \<and> py_in ''resnet9'' ''Unsupported ResNet type: resnet9.\<newline>''"
proof -
  have a: "py_in ''resnet'' ''resnet9''" by simp
  have b: "''resnet9'' \<notin> {''resnet18'', ''resnet34'', ''resnet50'', ''resnet101'', ''resnet152''}"
    by simp
  from unsupported_resnet_variant_value_error[OF a b, of 19 3 "''relu''"] a b
  show ?thesis by simp
qed

text \<open>
  Claim C3. A backbone-type string that does not contain \<^verbatim>\<open>resnet\<close> makes the
  construction of the network fail with a not-implemented error.
\<close>

theorem non_resnet_family_not_implemented:
  assumes "\<not> py_in ''resnet'' backbone_type"
  shows "BiSeNetv1_init num_class n_channel backbone_type act_type = Inl NotImplementedError"
  using assms by (simp add: BiSeNetv1_init_def ContextPath_init_def Let_def)

theorem non_resnet_family_not_implemented_witness:
  "\<not> py_in ''resnet'' ''vgg16'' \<and> BiSeNetv1_init 19 3 ''vgg16'' ''relu'' = Inl NotImplementedError"
proof -
  have a: "\<not> py_in ''resnet'' ''vgg16''" by simp
  from non_resnet_family_not_implemented[OF a, of 19 3 "''relu''"] a
  show ?thesis by simp
qed

section \<open>Verification: shapes\<close>

subsection \<open>Layers on well-sized inputs\<close>

lemma ConvBNAct_shape_stride2:
  assumes "0 < h" "0 < w" "training \<longrightarrow> b * h * w \<noteq> 1"
  shows "ConvBNAct_shape training (ConvBNAct_init c_in c_out 3 2 act) (b, c_in, 2 * h, 2 * w)
         = Some (b, c_out, h, w)"
  using assms
  by (auto simp: ConvBNAct_shape_def ConvBNAct_init_def Conv2d_shape_def BatchNorm2d_shape_def
      window_out_def)

lemma ConvBNAct_shape_stride1:
  assumes "0 < h" "0 < w" "training \<longrightarrow> b * h * w \<noteq> 1"
  shows "ConvBNAct_shape training (ConvBNAct_init c_in c_out 3 1 act) (b, c_in, h, w)
         = Some (b, c_out, h, w)"
  using assms
  by (auto simp: ConvBNAct_shape_def ConvBNAct_init_def Conv2d_shape_def BatchNorm2d_shape_def
      window_out_def)

lemma ConvBNAct_shape_1x1:
  assumes "0 < h" "0 < w" "training \<longrightarrow> b * h * w \<noteq> 1"
  shows "ConvBNAct_shape training (ConvBNAct_init c_in c_out 1 1 act) (b, c_in, h, w)
         = Some (b, c_out, h, w)"
  using assms
  by (auto simp: ConvBNAct_shape_def ConvBNAct_init_def Conv2d_shape_def BatchNorm2d_shape_def
      window_out_def)

lemma conv1x1_shape_ok:
  assumes "0 < h" "0 < w"
  shows "conv1x1_shape (conv1x1 c_in c_out) (b, c_in, h, w) = Some (b, c_out, h, w)"
  using assms by (auto simp: conv1x1_shape_def conv1x1_def Conv2d_shape_def window_out_def)

lemma resnet_layer_shape_stride2:
  assumes "0 < h" "0 < w" "training \<longrightarrow> b * h * w \<noteq> 1"
  shows "resnet_layer_shape training c_in c_out 2 (b, c_in, 2 * h, 2 * w) = Some (b, c_out, h, w)"
  using assms
  by (auto simp: resnet_layer_shape_def Conv2d_shape_def BatchNorm2d_shape_def window_out_def)

lemma resnet_layer_shape_stride1:
  assumes "0 < h" "0 < w" "training \<longrightarrow> b * h * w \<noteq> 1"
  shows "resnet_layer_shape training c_in c_out 1 (b, c_in, h, w) = Some (b, c_out, h, w)"
  using assms
  by (auto simp: resnet_layer_shape_def Conv2d_shape_def BatchNorm2d_shape_def window_out_def)

lemma resnet_stem_shape:
  assumes "0 < h" "0 < w"
  shows "Conv2d_shape 3 64 7 2 3 (b, 3, 2 * h, 2 * w) = Some (b, 64, h, w)"
    and "MaxPool2d_shape 3 2 1 (b, c, 2 * h, 2 * w) = Some (b, c, h, w)"
  using assms by (auto simp: Conv2d_shape_def MaxPool2d_shape_def window_out_def)

lemma BatchNorm2d_shape_ok:
  "(training \<longrightarrow> b * h * w \<noteq> 1) \<Longrightarrow> BatchNorm2d_shape training c (b, c, h, w) = Some (b, c, h, w)"
  by (auto simp: BatchNorm2d_shape_def)

lemma iadd_shape_pooled:
  "iadd_shape (b, c, h, w) (b, c, Suc 0, Suc 0) = Some (b, c, h, w)"
  by (simp add: iadd_shape_def broadcast_shape_def broadcast_dim_def)

lemma iadd_shape_same: "iadd_shape x x = Some x"
  by (cases x) (simp add: iadd_shape_def broadcast_shape_def broadcast_dim_def)

lemma interpolate_scale_shape_2:
  "0 < c \<Longrightarrow> 0 < h \<Longrightarrow> 0 < w \<Longrightarrow> interpolate_scale_shape 2 (b, c, h, w) = Some (b, c, 2 * h, 2 * w)"
  by (simp add: interpolate_scale_shape_def interpolate_size_shape_def mult.commute)

subsection \<open>Modules on inputs whose sides are multiples of 32\<close>

lemma SpatialPath_shape_ok:
  assumes "0 < h" "0 < w" "training \<longrightarrow> b * h * w \<noteq> 1"
  shows "SpatialPath_forward_shape training (SpatialPath_init c_in c_out act) (b, c_in, 8 * h, 8 * w)
         = Some (b, c_out, h, w)"
proof -
  have a: "ConvBNAct_shape training (ConvBNAct_init c_in c_out 3 2 act) (b, c_in, 2 * (4 * h), 2 * (4 * w))
           = Some (b, c_out, 4 * h, 4 * w)"
    using assms by (intro ConvBNAct_shape_stride2) auto
  have b: "ConvBNAct_shape training (ConvBNAct_init c_out c_out 3 2 act) (b, c_out, 2 * (2 * h), 2 * (2 * w))
           = Some (b, c_out, 2 * h, 2 * w)"
    using assms by (intro ConvBNAct_shape_stride2) auto
  have c: "ConvBNAct_shape training (ConvBNAct_init c_out c_out 3 2 act) (b, c_out, 2 * h, 2 * w)
           = Some (b, c_out, h, w)"
    using assms by (intro ConvBNAct_shape_stride2) auto
  show ?thesis
    using a b c by (simp add: SpatialPath_forward_shape_def SpatialPath_init_def)
qed

lemma ResNet_shape_ok:
  assumes "0 < h" "0 < w" "training \<longrightarrow> b * h * w \<noteq> 1"
  shows "ResNet_forward_shape training rn (b, 3, 32 * h, 32 * w)
         = Some ((b, 512 * resnet_expansion (rn_arch rn), h, w),
                 (b, 256 * resnet_expansion (rn_arch rn), 2 * h, 2 * w))"
proof -
  let ?e = "resnet_expansion (rn_arch rn)"
  have s1: "Conv2d_shape 3 64 7 2 3 (b, 3, 2 * (16 * h), 2 * (16 * w)) = Some (b, 64, 16 * h, 16 * w)"
    using assms by (intro resnet_stem_shape) auto
  have s2: "BatchNorm2d_shape training 64 (b, 64, 16 * h, 16 * w) = Some (b, 64, 16 * h, 16 * w)"
    using assms by (intro BatchNorm2d_shape_ok) auto
  have s3: "MaxPool2d_shape 3 2 1 (b, 64, 2 * (8 * h), 2 * (8 * w)) = Some (b, 64, 8 * h, 8 * w)"
    using assms by (intro resnet_stem_shape) auto
  have l1: "resnet_layer_shape training 64 (64 * ?e) 1 (b, 64, 8 * h, 8 * w) = Some (b, 64 * ?e, 8 * h, 8 * w)"
    using assms by (intro resnet_layer_shape_stride1) auto
  have l2: "resnet_layer_shape training (64 * ?e) (128 * ?e) 2 (b, 64 * ?e, 2 * (4 * h), 2 * (4 * w))
            = Some (b, 128 * ?e, 4 * h, 4 * w)"
    using assms by (intro resnet_layer_shape_stride2) auto
  have l3: "resnet_layer_shape training (128 * ?e) (256 * ?e) 2 (b, 128 * ?e, 2 * (2 * h), 2 * (2 * w))
            = Some (b, 256 * ?e, 2 * h, 2 * w)"
    using assms by (intro resnet_layer_shape_stride2) auto
  have l4: "resnet_layer_shape training (256 * ?e) (512 * ?e) 2 (b, 256 * ?e, 2 * h, 2 * w)
            = Some (b, 512 * ?e, h, w)"
    using assms by (intro resnet_layer_shape_stride2) auto
  show ?thesis
    using s1 s2 s3 l1 l2 l3 l4 by (simp add: ResNet_forward_shape_def Let_def)
qed

lemma ARM_shape_ok:
  assumes "0 < c" "0 < h" "0 < w" "training \<longrightarrow> b * h * w \<noteq> 1"
  shows "AttentionRefinementModule_forward_shape training (AttentionRefinementModule_init c) (b, c, h, w)
         = Some (b, c, h, w)"
proof -
  have g: "ConvBNAct_shape training (ConvBNAct_init c c 1 1 ''sigmoid'') (b, c, h, w) = Some (b, c, h, w)"
    using assms by (intro ConvBNAct_shape_1x1) auto
  show ?thesis
    using assms g
    by (simp add: AttentionRefinementModule_forward_shape_def AttentionRefinementModule_init_def
        AdaptiveAvgPool2d_shape_def expand_as_shape_def broadcast_shape_def broadcast_dim_def)
qed

lemma ContextPath_shape_ok:
  assumes init: "ContextPath_init out_channels t act = Inr m"
    and pos: "0 < out_channels" "0 < h" "0 < w"
    and bn: "training \<longrightarrow> b * h * w \<noteq> 1"
  shows "ContextPath_forward_shape training m (b, 3, 32 * h, 32 * w) = Some (b, out_channels, 4 * h, 4 * w)"
proof -
  let ?e = "resnet_expansion (rn_arch (cp_backbone m))"
  note f = ContextPath_init_fields[OF init]
  have e: "0 < ?e" by (rule resnet_expansion_pos)
  have bb: "ResNet_forward_shape training (cp_backbone m) (b, 3, 32 * h, 32 * w)
            = Some ((b, 512 * ?e, h, w), (b, 256 * ?e, 2 * h, 2 * w))"
    using pos bn by (intro ResNet_shape_ok) auto
  have avg: "AdaptiveAvgPool2d_shape (b, 512 * ?e, h, w) = Some (b, 512 * ?e, 1, 1)"
    using pos e by (simp add: AdaptiveAvgPool2d_shape_def)
  have a32: "AttentionRefinementModule_forward_shape training (cp_arm_32 m) (b, 512 * ?e, h, w)
             = Some (b, 512 * ?e, h, w)"
    unfolding f(3) f(1) using pos e bn by (simp add: ARM_shape_ok)
  have c32: "conv1x1_shape (cp_conv_32 m) (b, 512 * ?e, h, w) = Some (b, out_channels, h, w)"
    unfolding f(5) f(1) using pos by (simp add: conv1x1_shape_ok)
  have u32: "interpolate_scale_shape 2 (b, out_channels, h, w) = Some (b, out_channels, 2 * h, 2 * w)"
    using pos by (simp add: interpolate_scale_shape_2)
  have a16: "AttentionRefinementModule_forward_shape training (cp_arm_16 m) (b, 256 * ?e, 2 * h, 2 * w)
             = Some (b, 256 * ?e, 2 * h, 2 * w)"
    unfolding f(2) f(1) using pos e bn by (simp add: ARM_shape_ok)
  have c16: "conv1x1_shape (cp_conv_16 m) (b, 256 * ?e, 2 * h, 2 * w) = Some (b, out_channels, 2 * h, 2 * w)"
    unfolding f(4) f(1) using pos by (simp add: conv1x1_shape_ok)
  have u16: "interpolate_scale_shape 2 (b, out_channels, 2 * h, 2 * w) = Some (b, out_channels, 4 * h, 4 * w)"
    using pos by (simp add: interpolate_scale_shape_2)
  show ?thesis
    by (simp add: ContextPath_forward_shape_def bb avg a32 iadd_shape_pooled c32 u32 a16 c16
        iadd_shape_same u16)
qed

lemma FeatureFusionModule_shape_ok:
  assumes "0 < h" "0 < w" "training \<longrightarrow> b * h * w \<noteq> 1"
  shows "FeatureFusionModule_forward_shape training (FeatureFusionModule_init 384 256 act)
           (b, 128, h, w) (b, 256, h, w) = Some (b, 256, h, w)"
proof -
  have c1: "ConvBNAct_shape training (ConvBNAct_init 384 256 3 1 act) (b, 384, h, w) = Some (b, 256, h, w)"
    using assms by (intro ConvBNAct_shape_stride1) auto
  have c2: "conv1x1_shape (conv1x1 256 256) (b, 256, h, w) = Some (b, 256, h, w)"
    using assms by (intro conv1x1_shape_ok) auto
  show ?thesis
    using assms c1 c2
    by (simp add: FeatureFusionModule_forward_shape_def FeatureFusionModule_conv2_shape_def
        FeatureFusionModule_init_def cat_shape_def AdaptiveAvgPool2d_shape_def expand_as_shape_def
        broadcast_shape_def broadcast_dim_def)
qed

lemma SegHead_shape_ok:
  assumes "0 < h" "0 < w" "training \<longrightarrow> b * h * w \<noteq> 1"
  shows "SegHead_forward_shape training (SegHead_init 256 num_class act 128) (b, 256, h, w)
         = Some (b, num_class, h, w)"
proof -
  have c1: "ConvBNAct_shape training (ConvBNAct_init 256 128 3 1 act) (b, 256, h, w) = Some (b, 128, h, w)"
    using assms by (intro ConvBNAct_shape_stride1) auto
  have c2: "conv1x1_shape (conv1x1 128 num_class) (b, 128, h, w) = Some (b, num_class, h, w)"
    using assms by (intro conv1x1_shape_ok) auto
  show ?thesis
    using c1 c2 by (simp add: SegHead_forward_shape_def SegHead_init_def)
qed

lemma BiSeNetv1_forward_shape_ok:
  assumes init: "BiSeNetv1_init num_class 3 backbone_type act_type = Inr m"
    and nc: "0 < num_class"
    and H: "0 < H" "32 dvd H" and W: "0 < W" "32 dvd W"
    and bn: "training \<longrightarrow> B * (H div 32) * (W div 32) \<noteq> 1"
  shows "BiSeNetv1_forward_shape training m (B, 3, H, W) = Some (B, num_class, H, W)"
proof -
  from H obtain h where h: "H = 32 * h" "0 < h" by (auto elim: dvdE)
  from W obtain w where w: "W = 32 * w" "0 < w" by (auto elim: dvdE)
  from bn h w have bn': "training \<longrightarrow> B * h * w \<noteq> 1" by simp
  note f = BiSeNetv1_init_fields[OF init]
  have sp: "SpatialPath_forward_shape training (spatial_path m) (B, 3, 8 * (4 * h), 8 * (4 * w))
            = Some (B, 128, 4 * h, 4 * w)"
    unfolding f(1) using h w by (intro SpatialPath_shape_ok) auto
  have cp: "ContextPath_forward_shape training (context_path m) (B, 3, 32 * h, 32 * w)
            = Some (B, 256, 4 * h, 4 * w)"
    using f(2) h w bn' by (intro ContextPath_shape_ok) auto
  have ff: "FeatureFusionModule_forward_shape training (ffm m) (B, 128, 4 * h, 4 * w) (B, 256, 4 * h, 4 * w)
            = Some (B, 256, 4 * h, 4 * w)"
    unfolding f(3) using h w by (intro FeatureFusionModule_shape_ok) auto
  have sh: "SegHead_forward_shape training (seg_head m) (B, 256, 4 * h, 4 * w)
            = Some (B, num_class, 4 * h, 4 * w)"
    unfolding f(4) using h w by (intro SegHead_shape_ok) auto
  have up: "interpolate_size_shape (32 * h, 32 * w) (B, num_class, 4 * h, 4 * w)
            = Some (B, num_class, 32 * h, 32 * w)"
    using nc h w by (simp add: interpolate_size_shape_def)
  from sp have sp': "SpatialPath_forward_shape training (spatial_path m) (B, 3, 32 * h, 32 * w)
            = Some (B, 128, 4 * h, 4 * w)" by simp
  show ?thesis
    unfolding h(1) w(1) by (simp add: BiSeNetv1_forward_shape_def spatial_size_def sp' cp ff sh up)
qed



section \<open>Verification: values\<close>

subsection \<open>Tensors and results\<close>

lemma t_shape_tensor_of: "t_shape (tensor_of s f) = s"
  by (cases s) (simp add: tensor_of_def)

lemma elt_tensor_of: "inside s b c i j \<Longrightarrow> elt (tensor_of s f) b c i j = f b c i j"
  by (cases s) (simp add: tensor_of_def inside_def elt_def)

lemma tensor_of_cong:
  assumes "\<And>b c i j. inside s b c i j \<Longrightarrow> f b c i j = g b c i j"
  shows "tensor_of s f = tensor_of s g"
proof -
  obtain B C H W where s: "s = (B, C, H, W)" by (cases s) auto
  show ?thesis
    using assms unfolding s by (simp add: tensor_of_def inside_def)
qed

lemma well_formed_tensor_of: "well_formed (tensor_of s f)"
  unfolding well_formed_def t_shape_tensor_of
  by (rule tensor_of_cong) (simp add: elt_tensor_of)


lemma result_eq_Some: "result so f = Some t \<longleftrightarrow> (\<exists>s. so = Some s \<and> t = tensor_of s f)"
  by (cases so) (auto simp: result_def)

lemma result_eq_None: "result so f = None \<longleftrightarrow> so = None"
  by (cases so) (auto simp: result_def)

lemma shape_result: "map_option t_shape (result so f) = so"
  by (cases so) (simp_all add: result_def t_shape_tensor_of)

lemma result_SomeD:
  assumes "result so f = Some t"
  shows "so = Some (t_shape t)" and "t = tensor_of (t_shape t) f" and "well_formed t"
  using assms by (auto simp: result_eq_Some t_shape_tensor_of well_formed_tensor_of)

lemma result_elt:
  assumes "result so f = Some t" "inside (t_shape t) b c i j"
  shows "elt t b c i j = f b c i j"
  using assms by (auto simp: result_eq_Some t_shape_tensor_of elt_tensor_of)

lemma belt_inside:
  "inside (t_shape t) b c i j \<Longrightarrow> belt t b c i j = elt t b c i j"
  by (cases "t_shape t") (auto simp: belt_def inside_def bindex_def)

lemma tensor_map_shape: "t_shape (tensor_map f x) = t_shape x"
  by (simp add: tensor_map_def t_shape_tensor_of)

lemma tensor_map_elt:
  "inside (t_shape x) b c i j \<Longrightarrow> elt (tensor_map f x) b c i j = f (elt x b c i j)"
  by (simp add: tensor_map_def elt_tensor_of)

lemma tensor_map_well_formed: "well_formed (tensor_map f x)"
  by (simp add: tensor_map_def well_formed_tensor_of)

lemma t_shape_const_tensor: "t_shape (const_tensor s v) = s"
  by (simp add: const_tensor_def t_shape_tensor_of)

subsection \<open>What a successful operation tells\<close>

lemma Conv2d_SomeD:
  assumes "Conv2d c_in c_out k s p wt x = Some y"
  shows "Conv2d_shape c_in c_out k s p (t_shape x) = Some (t_shape y)" and "well_formed y"
  using assms unfolding Conv2d_def by (auto dest: result_SomeD)

lemma Conv2d_shape_1x1:
  assumes "Conv2d_shape c_in c_out (Suc 0) (Suc 0) 0 s = Some s'"
  shows "\<exists>B H W. s = (B, c_in, H, W) \<and> s' = (B, c_out, H, W) \<and> 0 < H \<and> 0 < W"
  using assms
  by (cases s) (auto simp: Conv2d_shape_def window_out_def split: if_splits)

lemma conv1x1_forward_SomeD:
  assumes "conv1x1_forward m \<theta> x = Some y"
  shows "conv1x1_shape m (t_shape x) = Some (t_shape y)" and "well_formed y"
  using assms unfolding conv1x1_forward_def conv1x1_shape_def
  by (auto simp: bind_eq_Some_conv t_shape_tensor_of well_formed_tensor_of dest: Conv2d_SomeD)

lemma BatchNorm2d_SomeD:
  assumes "BatchNorm2d training n coef x = Some y"
  shows "BatchNorm2d_shape training n (t_shape x) = Some (t_shape y)" and "well_formed y"
  using assms unfolding BatchNorm2d_def by (auto dest: result_SomeD)

lemma ConvBNAct_forward_SomeD:
  assumes "ConvBNAct_forward N training m \<theta> x = Some y"
  shows "ConvBNAct_shape training m (t_shape x) = Some (t_shape y)" and "well_formed y"
proof -
  from assms obtain y1 y2
    where 1: "Conv2d (cba_in m) (cba_out m) (cba_kernel m) (cba_stride m)
                ((cba_kernel m - 1) div 2) (cba_weight \<theta>) x = Some y1"
      and 2: "BatchNorm2d training (cba_out m) (cba_coef \<theta>) y1 = Some y2"
      and 3: "y = tensor_map (Activation N (cba_act m)) y2"
    unfolding ConvBNAct_forward_def by (auto simp: bind_eq_Some_conv)
  from Conv2d_SomeD(1)[OF 1] BatchNorm2d_SomeD(1)[OF 2] 3
  show "ConvBNAct_shape training m (t_shape x) = Some (t_shape y)"
    by (simp add: ConvBNAct_shape_def tensor_map_shape)
  from 3 show "well_formed y" by (simp add: tensor_map_well_formed)
qed

lemma FeatureFusionModule_conv2_SomeD:
  assumes "FeatureFusionModule_conv2 N m \<theta> x = Some y"
  shows "FeatureFusionModule_conv2_shape m (t_shape x) = Some (t_shape y)"
    and "well_formed y"
proof -
  from assms obtain y1 y2
    where 1: "conv1x1_forward (ffm_conv2_a m) (ffm_conv2_a_p \<theta>) x = Some y1"
      and 2: "conv1x1_forward (ffm_conv2_b m) (ffm_conv2_b_p \<theta>) (tensor_map (nl_relu N) y1) = Some y2"
      and 3: "y = tensor_map (nl_sigmoid N) y2"
    unfolding FeatureFusionModule_conv2_def by (auto simp: bind_eq_Some_conv)
  from conv1x1_forward_SomeD(1)[OF 1] conv1x1_forward_SomeD(1)[OF 2] 3
  show "FeatureFusionModule_conv2_shape m (t_shape x) = Some (t_shape y)"
    by (simp add: tensor_map_shape FeatureFusionModule_conv2_shape_def)
  from 3 show "well_formed y" by (simp add: tensor_map_well_formed)
qed

lemma AdaptiveAvgPool2d_SomeD:
  assumes "AdaptiveAvgPool2d x = Some y"
  shows "AdaptiveAvgPool2d_shape (t_shape x) = Some (t_shape y)" and "well_formed y"
  using assms unfolding AdaptiveAvgPool2d_def by (auto dest: result_SomeD)

lemma expand_as_SomeD:
  assumes "expand_as x y = Some z"
  shows "expand_as_shape (t_shape x) (t_shape y) = Some (t_shape z)" and "well_formed z"
    and "t_shape z = t_shape y"
proof -
  from assms show 1: "expand_as_shape (t_shape x) (t_shape y) = Some (t_shape z)" and "well_formed z"
    unfolding expand_as_def by (auto dest: result_SomeD)
  from 1 show "t_shape z = t_shape y"
    by (cases "t_shape x"; cases "t_shape y") (auto simp: expand_as_shape_def split: if_splits)
qed

lemma pooled_expand_shape:
  assumes "AdaptiveAvgPool2d x = Some p" "expand_as p x = Some e"
  shows "t_shape e = t_shape x"
    and "\<exists>B C H W. t_shape x = (B, C, H, W) \<and> 0 < C \<and> 0 < H \<and> 0 < W"
  using assms
  by (auto dest!: AdaptiveAvgPool2d_SomeD(1) expand_as_SomeD(3)
      simp: AdaptiveAvgPool2d_shape_def split: prod.splits if_splits)

lemma broadcast_shape_same: "broadcast_shape s s = Some s"
  by (cases s) (simp add: broadcast_shape_def broadcast_dim_def)

lemma torch_mul_same_shape:
  assumes "t_shape y = t_shape x"
  shows "torch_mul x y = Some (tensor_of (t_shape x) (\<lambda>b c i j. elt x b c i j * elt y b c i j))"
proof -
  have "tensor_of (t_shape x) (\<lambda>b c i j. belt x b c i j * belt y b c i j)
        = tensor_of (t_shape x) (\<lambda>b c i j. elt x b c i j * elt y b c i j)"
    by (rule tensor_of_cong) (simp add: belt_inside assms)
  then show ?thesis
    by (simp add: torch_mul_def assms broadcast_shape_same result_def)
qed

lemma torch_add_same_shape:
  assumes "t_shape y = t_shape x"
  shows "torch_add x y = Some (tensor_of (t_shape x) (\<lambda>b c i j. elt x b c i j + elt y b c i j))"
proof -
  have "tensor_of (t_shape x) (\<lambda>b c i j. belt x b c i j + belt y b c i j)
        = tensor_of (t_shape x) (\<lambda>b c i j. elt x b c i j + elt y b c i j)"
    by (rule tensor_of_cong) (simp add: belt_inside assms)
  then show ?thesis
    by (simp add: torch_add_def assms broadcast_shape_same result_def)
qed

lemma FeatureFusionModule_forward_steps:
  assumes "FeatureFusionModule_forward N training m \<theta> x_low x_high = Some out"
  shows "\<exists>cat x pooled expanded gate gated.
           torch_cat x_low x_high = Some cat
         \<and> ConvBNAct_forward N training (ffm_conv1 m) (ffm_conv1_p \<theta>) cat = Some x
         \<and> AdaptiveAvgPool2d x = Some pooled
         \<and> expand_as pooled x = Some expanded
         \<and> FeatureFusionModule_conv2 N m \<theta> expanded = Some gate
         \<and> torch_mul x gate = Some gated
         \<and> torch_add x gated = Some out"
  using assms unfolding FeatureFusionModule_forward_def
  by (auto simp: bind_eq_Some_conv)

lemma FeatureFusionModule_gate_shape:
  assumes "AdaptiveAvgPool2d x = Some p" "expand_as p x = Some e"
    and "FeatureFusionModule_conv2 N (FeatureFusionModule_init c_in c_out act) \<theta> e = Some gate"
  shows "t_shape gate = t_shape x"
proof -
  from pooled_expand_shape[OF assms(1,2)] have e: "t_shape e = t_shape x" by simp
  from FeatureFusionModule_conv2_SomeD(1)[OF assms(3)]
  obtain s1 where a: "conv1x1_shape (conv1x1 c_out c_out) (t_shape x) = Some s1"
    and b: "conv1x1_shape (conv1x1 c_out c_out) s1 = Some (t_shape gate)"
    by (auto simp: FeatureFusionModule_conv2_shape_def FeatureFusionModule_init_def e bind_eq_Some_conv)
  from a have "s1 = t_shape x"
    by (auto simp: conv1x1_shape_def conv1x1_def dest!: Conv2d_shape_1x1)
  with b show ?thesis
    by (auto simp: conv1x1_shape_def conv1x1_def dest!: Conv2d_shape_1x1)
qed

subsection \<open>Values and shapes agree\<close>

lemma shape_bind:
  assumes "map_option t_shape mx = sx" and "\<And>x. map_option \<beta> (f x) = fs (t_shape x)"
  shows "map_option \<beta> (mx \<bind> f) = sx \<bind> fs"
  using assms by (cases mx) auto

lemma shape_bind_pair:
  assumes "map_option (map_prod t_shape t_shape) mx = sx"
    and "\<And>a b. map_option t_shape (f a b) = fs (t_shape a) (t_shape b)"
  shows "map_option t_shape (mx \<bind> (\<lambda>(a, b). f a b)) = sx \<bind> (\<lambda>(a, b). fs a b)"
  using assms by (cases mx) auto

lemma Conv2d_abs: "map_option t_shape (Conv2d c_in c_out k s p wt x) = Conv2d_shape c_in c_out k s p (t_shape x)"
  by (simp add: Conv2d_def shape_result)

lemma BatchNorm2d_abs: "map_option t_shape (BatchNorm2d training n coef x) = BatchNorm2d_shape training n (t_shape x)"
  by (simp add: BatchNorm2d_def shape_result)

lemma AdaptiveAvgPool2d_abs: "map_option t_shape (AdaptiveAvgPool2d x) = AdaptiveAvgPool2d_shape (t_shape x)"
  by (simp add: AdaptiveAvgPool2d_def shape_result)

lemma expand_as_abs: "map_option t_shape (expand_as x y) = expand_as_shape (t_shape x) (t_shape y)"
  by (simp add: expand_as_def shape_result)

lemma torch_mul_abs: "map_option t_shape (torch_mul x y) = broadcast_shape (t_shape x) (t_shape y)"
  by (simp add: torch_mul_def shape_result)

lemma torch_add_abs: "map_option t_shape (torch_add x y) = broadcast_shape (t_shape x) (t_shape y)"
  by (simp add: torch_add_def shape_result)

lemma torch_iadd_abs: "map_option t_shape (torch_iadd x y) = iadd_shape (t_shape x) (t_shape y)"
  by (simp add: torch_iadd_def shape_result)

lemma torch_cat_abs: "map_option t_shape (torch_cat x y) = cat_shape (t_shape x) (t_shape y)"
  by (simp add: torch_cat_def shape_result)

lemma F_interpolate_size_abs:
  "map_option t_shape (F_interpolate_size x sz) = interpolate_size_shape sz (t_shape x)"
  by (simp add: F_interpolate_size_def shape_result)

lemma F_interpolate_scale_abs:
  "map_option t_shape (F_interpolate_scale x k) = interpolate_scale_shape k (t_shape x)"
  by (cases "t_shape x") (simp add: F_interpolate_scale_def shape_result)

lemma shape_bind_keep:
  assumes "\<And>x. t_shape (g x) = t_shape x"
  shows "map_option t_shape (mx \<bind> (\<lambda>x. Some (g x))) = map_option t_shape mx"
  using assms by (cases mx) auto

lemma ConvBNAct_forward_abs:
  "map_option t_shape (ConvBNAct_forward N training m \<theta> x) = ConvBNAct_shape training m (t_shape x)"
  unfolding ConvBNAct_forward_def ConvBNAct_shape_def
proof (rule shape_bind[OF Conv2d_abs])
  fix y
  show "map_option t_shape (BatchNorm2d training (cba_out m) (cba_coef \<theta>) y
          \<bind> (\<lambda>x. Some (tensor_map (Activation N (cba_act m)) x)))
        = BatchNorm2d_shape training (cba_out m) (t_shape y)"
    by (simp only: shape_bind_keep[OF tensor_map_shape] BatchNorm2d_abs)
qed

lemma conv1x1_forward_abs:
  "map_option t_shape (conv1x1_forward m \<theta> x) = conv1x1_shape m (t_shape x)"
proof -
  have "map_option t_shape (conv1x1_forward m \<theta> x)
        = map_option t_shape (Conv2d (c1_in m) (c1_out m) 1 1 0 (c1_weight \<theta>) x)"
    unfolding conv1x1_forward_def by (rule shape_bind_keep) (rule t_shape_tensor_of)
  then show ?thesis by (simp only: Conv2d_abs conv1x1_shape_def)
qed

lemma Sequential_forward_abs:
  assumes "\<And>m p x. map_option t_shape (f m p x) = fs m (t_shape x)"
  shows "map_option t_shape (Sequential_forward f ms \<theta> k x) = Sequential_shape fs ms (t_shape x)"
proof (induction ms arbitrary: k x)
  case Nil
  show ?case by simp
next
  case (Cons m ms)
  show ?case
  proof (cases "f m (\<theta> k) x")
    case None
    with assms[of m "\<theta> k" x, symmetric] show ?thesis by simp
  next
    case (Some y)
    with assms[of m "\<theta> k" x, symmetric] Cons.IH[of "Suc k" y] show ?thesis by simp
  qed
qed

lemma SpatialPath_forward_abs:
  "map_option t_shape (SpatialPath_forward N training sp \<theta> x)
   = SpatialPath_forward_shape training sp (t_shape x)"
  unfolding SpatialPath_forward_def SpatialPath_forward_shape_def
  by (rule Sequential_forward_abs) (rule ConvBNAct_forward_abs)

lemma result_abs: "map_option t_shape (result so f) = so"
  by (rule shape_result)

lemma result_Some: "result (Some s) f = Some (tensor_of s f)"
  by (simp add: result_def)

lemma ResNet_forward_abs:
  "map_option (map_prod t_shape t_shape) (ResNet_forward training rn \<theta> x)
   = ResNet_forward_shape training rn (t_shape x)"
  unfolding ResNet_forward_def ResNet_forward_shape_def Let_def
  apply (simp only: result_Some Option.bind.bind_lunit t_shape_tensor_of)
  apply (rule shape_bind, rule result_abs)
  apply (rule shape_bind, rule result_abs)
  apply (rule shape_bind, rule result_abs)
  apply (rule shape_bind, rule result_abs)
  apply (rule shape_bind, rule result_abs)
  apply (rule shape_bind, rule result_abs)
  apply (rule shape_bind, rule result_abs)
  apply simp
  done

lemma AttentionRefinementModule_forward_abs:
  "map_option t_shape (AttentionRefinementModule_forward N training m \<theta> x)
   = AttentionRefinementModule_forward_shape training m (t_shape x)"
  unfolding AttentionRefinementModule_forward_def AttentionRefinementModule_forward_shape_def
  by (intro shape_bind AdaptiveAvgPool2d_abs expand_as_abs ConvBNAct_forward_abs torch_mul_abs)

lemma FeatureFusionModule_conv2_abs:
  "map_option t_shape (FeatureFusionModule_conv2 N m \<theta> x) = FeatureFusionModule_conv2_shape m (t_shape x)"
proof -
  have "map_option t_shape (FeatureFusionModule_conv2 N m \<theta> x)
        = map_option t_shape (conv1x1_forward (ffm_conv2_a m) (ffm_conv2_a_p \<theta>) x
            \<bind> (\<lambda>x. conv1x1_forward (ffm_conv2_b m) (ffm_conv2_b_p \<theta>) (tensor_map (nl_relu N) x)))"
    unfolding FeatureFusionModule_conv2_def
    by (simp add: shape_bind_keep[OF tensor_map_shape] flip: bind_assoc)
  also have "\<dots> = FeatureFusionModule_conv2_shape m (t_shape x)"
    unfolding FeatureFusionModule_conv2_shape_def
    by (rule shape_bind[OF conv1x1_forward_abs]) (simp add: conv1x1_forward_abs tensor_map_shape)
  finally show ?thesis .
qed

lemma FeatureFusionModule_forward_abs:
  "map_option t_shape (FeatureFusionModule_forward N training m \<theta> x_low x_high)
   = FeatureFusionModule_forward_shape training m (t_shape x_low) (t_shape x_high)"
  unfolding FeatureFusionModule_forward_def FeatureFusionModule_forward_shape_def
  by (intro shape_bind torch_cat_abs ConvBNAct_forward_abs AdaptiveAvgPool2d_abs expand_as_abs
      FeatureFusionModule_conv2_abs torch_mul_abs torch_add_abs)

lemma SegHead_forward_abs:
  "map_option t_shape (SegHead_forward N training m \<theta> x) = SegHead_forward_shape training m (t_shape x)"
  unfolding SegHead_forward_def SegHead_forward_shape_def
  by (intro shape_bind ConvBNAct_forward_abs conv1x1_forward_abs)

lemma ContextPath_forward_abs:
  "map_option t_shape (ContextPath_forward N training m \<theta> x) = ContextPath_forward_shape training m (t_shape x)"
  unfolding ContextPath_forward_def ContextPath_forward_shape_def
  by (intro shape_bind_pair shape_bind ResNet_forward_abs AdaptiveAvgPool2d_abs
      AttentionRefinementModule_forward_abs torch_iadd_abs conv1x1_forward_abs F_interpolate_scale_abs)

lemma BiSeNetv1_forward_abs:
  "map_option t_shape (BiSeNetv1_forward N training m \<theta> x) = BiSeNetv1_forward_shape training m (t_shape x)"
  unfolding BiSeNetv1_forward_def BiSeNetv1_forward_shape_def Let_def
  by (intro shape_bind SpatialPath_forward_abs ContextPath_forward_abs FeatureFusionModule_forward_abs
      SegHead_forward_abs F_interpolate_size_abs)

subsection \<open>Shapes of intermediate results\<close>

lemma resnet_layer_shape_D:
  assumes "resnet_layer_shape training c_in c_out stride x = Some y"
  shows "\<exists>b h w h' w'. x = (b, c_in, h, w) \<and> y = (b, c_out, h', w') \<and> 0 < h' \<and> 0 < w'"
  using assms
  by (cases x)
     (auto simp: resnet_layer_shape_def Conv2d_shape_def BatchNorm2d_shape_def window_out_def
        bind_eq_Some_conv split: if_splits)

lemma ResNet_forward_shape_D:
  assumes "ResNet_forward_shape training rn s = Some (s32, s16)"
  shows "\<exists>B h16 w16 h32 w32.
           s16 = (B, 256 * resnet_expansion (rn_arch rn), h16, w16)
         \<and> s32 = (B, 512 * resnet_expansion (rn_arch rn), h32, w32)
         \<and> 0 < h16 \<and> 0 < w16 \<and> 0 < h32 \<and> 0 < w32"
proof -
  let ?e = "resnet_expansion (rn_arch rn)"
  from assms obtain s2 where 3: "resnet_layer_shape training (128 * ?e) (256 * ?e) 2 s2 = Some s16"
    and 4: "resnet_layer_shape training (256 * ?e) (512 * ?e) 2 s16 = Some s32"
    unfolding ResNet_forward_shape_def Let_def by (auto simp: bind_eq_Some_conv)
  from resnet_layer_shape_D[OF 3] resnet_layer_shape_D[OF 4] show ?thesis by auto
qed

lemma ResNet_forward_D:
  assumes "ResNet_forward training rn \<theta> x = Some (x_32, x_16)"
  shows "\<exists>B h16 w16 h32 w32.
           t_shape x_16 = (B, 256 * resnet_expansion (rn_arch rn), h16, w16)
         \<and> t_shape x_32 = (B, 512 * resnet_expansion (rn_arch rn), h32, w32)
         \<and> 0 < h16 \<and> 0 < w16 \<and> 0 < h32 \<and> 0 < w32"
proof -
  from ResNet_forward_abs[of training rn \<theta> x] assms
  have "ResNet_forward_shape training rn (t_shape x) = Some (t_shape x_32, t_shape x_16)" by simp
  from ResNet_forward_shape_D[OF this] show ?thesis .
qed

lemma torch_iadd_D:
  assumes "torch_iadd x y = Some z"
  shows "t_shape z = t_shape x"
    and "broadcast_shape (t_shape x) (t_shape y) = Some (t_shape x)"
    and "\<And>b c i j. inside (t_shape x) b c i j \<Longrightarrow> elt z b c i j = elt x b c i j + belt y b c i j"
proof -
  from assms have "iadd_shape (t_shape x) (t_shape y) = Some (t_shape z)"
    unfolding torch_iadd_def by (rule result_SomeD(1))
  then show s: "t_shape z = t_shape x" and "broadcast_shape (t_shape x) (t_shape y) = Some (t_shape x)"
    by (auto simp: iadd_shape_def split: if_splits)
  fix b c i j assume "inside (t_shape x) b c i j"
  with s have "inside (t_shape z) b c i j" by simp
  with assms show "elt z b c i j = elt x b c i j + belt y b c i j"
    unfolding torch_iadd_def by (rule result_elt)
qed

lemma pooled_belt:
  assumes p: "AdaptiveAvgPool2d x = Some pooled" and i: "inside (t_shape x) b c i j"
  shows "belt pooled b c i j = plane_mean x b c"
proof -
  obtain B C H W where s: "t_shape x = (B, C, H, W)" by (cases "t_shape x") auto
  from p s have ps: "t_shape pooled = (B, C, 1, 1)"
    by (auto dest!: AdaptiveAvgPool2d_SomeD(1) simp: AdaptiveAvgPool2d_shape_def split: if_splits)
  from i s have r: "b < B" "c < C" by (auto simp: inside_def)
  then have "belt pooled b c i j = elt pooled b c 0 0"
    by (auto simp: belt_def ps bindex_def)
  also have "\<dots> = plane_mean x b c"
    using p unfolding AdaptiveAvgPool2d_def
    by (rule result_elt) (use r in \<open>simp add: ps inside_def\<close>)
  finally show ?thesis .
qed

lemma conv1x1_forward_D:
  assumes "conv1x1_forward (conv1x1 c_in c_out) \<theta> x = Some y"
  shows "\<exists>B H W. t_shape x = (B, c_in, H, W) \<and> t_shape y = (B, c_out, H, W) \<and> 0 < H \<and> 0 < W"
  using conv1x1_forward_SomeD(1)[OF assms]
  by (auto simp: conv1x1_shape_def conv1x1_def dest!: Conv2d_shape_1x1)

lemma F_interpolate_scale_D:
  assumes "F_interpolate_scale x k = Some y" and "t_shape x = (B, C, H, W)"
  shows "t_shape y = (B, C, H * k, W * k)" and "0 < C" and "0 < H" and "0 < W" and "0 < k"
proof -
  from F_interpolate_scale_abs[of x k] assms
  have "interpolate_scale_shape k (B, C, H, W) = Some (t_shape y)" by simp
  then show "t_shape y = (B, C, H * k, W * k)" and "0 < C" and "0 < H" and "0 < W" and "0 < k"
    by (auto simp: interpolate_scale_shape_def interpolate_size_shape_def split: if_splits)
qed

lemma source_index_first: "source_index n_in n_out 0 = 0"
  by (simp add: source_index_def)

lemma source_index_last:
  assumes "0 < n_in" "n_in \<le> n_out"
  shows "source_index n_in n_out (n_out - 1) = real (n_in - 1)"
proof (cases "n_out \<le> 1")
  case True
  with assms have "n_in = 1" by simp
  with True show ?thesis by (simp add: source_index_def)
next
  case False
  then have "real (n_out - 1) \<noteq> 0" by simp
  with False show ?thesis by (simp add: source_index_def)
qed

lemma bilinear_at_grid_point:
  assumes "t_shape x = (B, C, H, W)"
    and "source_index H oh i = real u" and "source_index W ow j = real v"
  shows "bilinear x (oh, ow) b c i j = elt x b c u v"
  using assms by (simp add: bilinear_def Let_def)

lemma F_interpolate_scale_corners:
  assumes y: "F_interpolate_scale x k = Some y" and s: "t_shape x = (B, C, H, W)"
    and r: "b < B" "c < C"
  shows "elt y b c 0 0 = elt x b c 0 0"
    and "elt y b c (H * k - 1) (W * k - 1) = elt x b c (H - 1) (W - 1)"
proof -
  note d = F_interpolate_scale_D[OF y s]
  have el: "elt y b c i j = bilinear x (H * k, W * k) b c i j" if "i < H * k" "j < W * k" for i j
    using y unfolding F_interpolate_scale_def s prod.case
    by (rule result_elt) (use that r in \<open>simp add: d(1) inside_def\<close>)
  have pos: "0 < H * k" "0 < W * k" using d by simp_all
  have le: "H \<le> H * k" "W \<le> W * k" using d by simp_all
  show "elt y b c 0 0 = elt x b c 0 0"
    using el[OF pos] bilinear_at_grid_point[OF s, of "H * k" 0 0 "W * k" 0 0 b c]
    by (simp add: source_index_first)
  have sy: "source_index H (H * k) (H * k - 1) = real (H - 1)"
    by (rule source_index_last) (use d in simp_all)
  have sx: "source_index W (W * k) (W * k - 1) = real (W - 1)"
    by (rule source_index_last) (use d in simp_all)
  have "bilinear x (H * k, W * k) b c (H * k - 1) (W * k - 1) = elt x b c (H - 1) (W - 1)"
    by (rule bilinear_at_grid_point[OF s sy sx])
  with el[of "H * k - 1" "W * k - 1"] pos
  show "elt y b c (H * k - 1) (W * k - 1) = elt x b c (H - 1) (W - 1)" by simp
qed

lemma ConvBNAct_shape_D:
  assumes "ConvBNAct_shape training m s = Some s'"
  shows "\<exists>B H W. s' = (B, cba_out m, H, W)"
  using assms
  by (cases s)
     (auto simp: ConvBNAct_shape_def Conv2d_shape_def BatchNorm2d_shape_def bind_eq_Some_conv
        split: if_splits)

lemma torch_cat_D:
  assumes z: "torch_cat x y = Some z" and sx: "t_shape x = (B, C, H, W)"
  shows "\<exists>C'. t_shape y = (B, C', H, W) \<and> t_shape z = (B, C + C', H, W)"
    and "\<And>b c i j. inside (t_shape z) b c i j \<Longrightarrow>
           elt z b c i j = (if c < C then elt x b c i j else elt y b (c - C) i j)"
proof -
  from z have "cat_shape (t_shape x) (t_shape y) = Some (t_shape z)"
    unfolding torch_cat_def by (rule result_SomeD(1))
  then show "\<exists>C'. t_shape y = (B, C', H, W) \<and> t_shape z = (B, C + C', H, W)"
    by (cases "t_shape y") (auto simp: cat_shape_def sx split: if_splits)
  fix b c i j assume "inside (t_shape z) b c i j"
  with z have "elt z b c i j
      = (case t_shape x of (B, C, H, W) \<Rightarrow> if c < C then elt x b c i j else elt y b (c - C) i j)"
    unfolding torch_cat_def by (rule result_elt)
  then show "elt z b c i j = (if c < C then elt x b c i j else elt y b (c - C) i j)"
    by (simp add: sx)
qed

lemma SpatialPath_forward_D:
  assumes "SpatialPath_forward N training (SpatialPath_init c_in c_out act) \<theta> x = Some y"
  shows "\<exists>B H W. t_shape y = (B, c_out, H, W)"
proof -
  from SpatialPath_forward_abs[of N training "SpatialPath_init c_in c_out act" \<theta> x] assms
  have "SpatialPath_forward_shape training (SpatialPath_init c_in c_out act) (t_shape x) = Some (t_shape y)"
    by simp
  then obtain s2 where "ConvBNAct_shape training (ConvBNAct_init c_out c_out 3 2 act) s2 = Some (t_shape y)"
    by (auto simp: SpatialPath_forward_shape_def SpatialPath_init_def split: option.splits)
  from ConvBNAct_shape_D[OF this] show ?thesis by (simp add: ConvBNAct_init_def)
qed

lemma ContextPath_forward_succeeds:
  assumes init: "ContextPath_init out_channels t act = Inr m"
    and pos: "0 < out_channels" "0 < h" "0 < w"
    and bn: "training \<longrightarrow> b * h * w \<noteq> 1"
    and x: "t_shape x = (b, 3, 32 * h, 32 * w)"
  shows "\<exists>out. ContextPath_forward N training m \<theta> x = Some out"
proof -
  from ContextPath_forward_abs[of N training m \<theta> x] ContextPath_shape_ok[OF init pos bn]
  have "map_option t_shape (ContextPath_forward N training m \<theta> x) = Some (b, out_channels, 4 * h, 4 * w)"
    by (simp add: x)
  then show ?thesis by auto
qed

lemma BiSeNetv1_forward_succeeds:
  assumes init: "BiSeNetv1_init num_class 3 backbone_type act_type = Inr m"
    and nc: "0 < num_class"
    and H: "0 < H" "32 dvd H" and W: "0 < W" "32 dvd W"
    and bn: "training \<longrightarrow> B * (H div 32) * (W div 32) \<noteq> 1"
    and x: "t_shape x = (B, 3, H, W)"
  shows "\<exists>out. BiSeNetv1_forward N training m \<theta> x = Some out \<and> t_shape out = (B, num_class, H, W)"
proof -
  from BiSeNetv1_forward_abs[of N training m \<theta> x] BiSeNetv1_forward_shape_ok[OF init nc H W bn]
  have "map_option t_shape (BiSeNetv1_forward N training m \<theta> x) = Some (B, num_class, H, W)"
    by (simp add: x)
  then show ?thesis by auto
qed

subsection \<open>Evaluating the examples\<close>

lemmas eval_defs = tensor_of_def elt_def result_def const_tensor_def
  torch_cat_def cat_shape_def Conv2d_def Conv2d_shape_def window_out_def padded_def
  BatchNorm2d_def BatchNorm2d_shape_def tensor_map_def Activation_def
  ConvBNAct_forward_def ConvBNAct_init_def conv1x1_forward_def conv1x1_def
  AdaptiveAvgPool2d_def plane_mean_def AdaptiveAvgPool2d_shape_def expand_as_def expand_as_shape_def
  belt_def bindex_def torch_mul_def torch_add_def broadcast_shape_def broadcast_dim_def
  FeatureFusionModule_conv2_def FeatureFusionModule_init_def FeatureFusionModule_forward_def
  AttentionRefinementModule_forward_def AttentionRefinementModule_init_def
  example_nonlinearities_def example_FFM_params_def example_ARM_params_def
  example_ConvBNAct_params_def example_Conv1x1_params_def relu_def saturating_sigmoid_def





lemma arm_float32_eval:
  "AttentionRefinementModule_forward (float32_nonlinearities (\<lambda>a. id)) False
     (AttentionRefinementModule_init 1) example_ARM_params (const_tensor (1, 1, 1, 1) v)
   = Some (const_tensor (1, 1, 1, 1) (v * float32_sigmoid v))"
  by (simp add: AttentionRefinementModule_forward_def AttentionRefinementModule_init_def
      example_ARM_params_def example_ConvBNAct_params_def float32_nonlinearities_def
      ConvBNAct_forward_def ConvBNAct_init_def Conv2d_def Conv2d_shape_def window_out_def padded_def
      BatchNorm2d_def BatchNorm2d_shape_def tensor_map_def Activation_def
      AdaptiveAvgPool2d_def plane_mean_def AdaptiveAvgPool2d_shape_def expand_as_def expand_as_shape_def
      belt_def bindex_def torch_mul_def broadcast_shape_def broadcast_dim_def
      tensor_of_def elt_def result_def const_tensor_def)

lemma arm_float32_gate_eval:
  "(AdaptiveAvgPool2d (const_tensor (1, 1, 1, 1) v)
      \<bind> (\<lambda>p. expand_as p (const_tensor (1, 1, 1, 1) v))
      \<bind> ConvBNAct_forward (float32_nonlinearities (\<lambda>a. id)) False
            (ConvBNAct_init 1 1 1 1 ''sigmoid'') (arm_conv_p example_ARM_params))
   = Some (const_tensor (1, 1, 1, 1) (float32_sigmoid v))"
  by (simp add: 
      example_ARM_params_def example_ConvBNAct_params_def float32_nonlinearities_def
      ConvBNAct_forward_def ConvBNAct_init_def Conv2d_def Conv2d_shape_def window_out_def padded_def
      BatchNorm2d_def BatchNorm2d_shape_def tensor_map_def Activation_def
      AdaptiveAvgPool2d_def plane_mean_def AdaptiveAvgPool2d_shape_def expand_as_def expand_as_shape_def
      belt_def bindex_def
      tensor_of_def elt_def result_def const_tensor_def)

lemma arm_example_eval:
  "AttentionRefinementModule_forward example_nonlinearities False
     (AttentionRefinementModule_init 1) example_ARM_params
     (tensor_of (1, 1, 2, 2) (\<lambda>b c i j. real (2 * i + j)))
   = Some (tensor_of (1, 1, 2, 2) (\<lambda>b c i j. real (2 * i + j) * sigmoid (3 / 2)))"
  by (simp add: eval_defs eval_nat_numeral)

lemma ffm_example_eval:
  "FeatureFusionModule_forward example_nonlinearities False (FeatureFusionModule_init 2 1 ''relu'')
     example_FFM_params (tensor_of (1, 1, 1, 2) (\<lambda>b c i j. 2 + 2 * real j)) (const_tensor (1, 1, 1, 2) 3)
   = Some (const_tensor (1, 1, 1, 2) 12)"
  by (simp add: eval_defs eval_nat_numeral)

subsection \<open>The feature fusion module\<close>

lemma FeatureFusionModule_forward_elements:
  assumes fwd: "FeatureFusionModule_forward N training
                  (FeatureFusionModule_init in_channels out_channels act_type) \<theta> x_low x_high = Some out"
  shows "\<exists>cat x pooled expanded gate.
           torch_cat x_low x_high = Some cat
         \<and> ConvBNAct_forward N training (ConvBNAct_init in_channels out_channels 3 1 act_type)
               (ffm_conv1_p \<theta>) cat = Some x
         \<and> AdaptiveAvgPool2d x = Some pooled
         \<and> expand_as pooled x = Some expanded
         \<and> FeatureFusionModule_conv2 N (FeatureFusionModule_init in_channels out_channels act_type)
               \<theta> expanded = Some gate
         \<and> t_shape gate = t_shape x \<and> t_shape out = t_shape x
         \<and> well_formed x \<and> well_formed out
         \<and> (\<forall>b c i j. inside (t_shape x) b c i j \<longrightarrow>
                elt out b c i j = elt x b c i j + elt x b c i j * elt gate b c i j)"
proof -
  let ?m = "FeatureFusionModule_init in_channels out_channels act_type"
  from FeatureFusionModule_forward_steps[OF fwd]
  obtain cat x pooled expanded gate gated
    where cat: "torch_cat x_low x_high = Some cat"
      and x: "ConvBNAct_forward N training (ffm_conv1 ?m) (ffm_conv1_p \<theta>) cat = Some x"
      and p: "AdaptiveAvgPool2d x = Some pooled"
      and e: "expand_as pooled x = Some expanded"
      and g: "FeatureFusionModule_conv2 N ?m \<theta> expanded = Some gate"
      and mul: "torch_mul x gate = Some gated"
      and add: "torch_add x gated = Some out"
    by blast
  have x': "ConvBNAct_forward N training (ConvBNAct_init in_channels out_channels 3 1 act_type)
              (ffm_conv1_p \<theta>) cat = Some x"
    using x by (simp add: FeatureFusionModule_init_def)
  have gs: "t_shape gate = t_shape x"
    by (rule FeatureFusionModule_gate_shape[OF p e g])
  have gated: "gated = tensor_of (t_shape x) (\<lambda>b c i j. elt x b c i j * elt gate b c i j)"
    using mul torch_mul_same_shape[OF gs] by simp
  then have gds: "t_shape gated = t_shape x" by (simp add: t_shape_tensor_of)
  have out: "out = tensor_of (t_shape x) (\<lambda>b c i j. elt x b c i j + elt gated b c i j)"
    using add torch_add_same_shape[OF gds] by simp
  then have os: "t_shape out = t_shape x" by (simp add: t_shape_tensor_of)
  have el: "\<forall>b c i j. inside (t_shape x) b c i j \<longrightarrow>
              elt out b c i j = elt x b c i j + elt x b c i j * elt gate b c i j"
    by (simp add: out gated elt_tensor_of)
  have wx: "well_formed x" by (rule ConvBNAct_forward_SomeD(2)[OF x])
  have wo: "well_formed out" unfolding out by (rule well_formed_tensor_of)
  from cat x' p e g gs os wx wo el show ?thesis by blast
qed



subsection \<open>The sigmoid in single precision\<close>

lemma float32_pow23: "(2::real) powr (a - 23) * 2 ^ 23 = 2 powr a"
proof -
  have "(2::real) powr (a - 23) * 2 powr 23 = 2 powr (a - 23 + 23)" by (simp only: powr_add)
  then show ?thesis by simp
qed

lemma float32_pow24: "(2::real) powr (a - 23) * 2 ^ 24 = 2 powr (a + 1)"
proof -
  have "(2::real) powr (a - 23) * 2 powr 24 = 2 powr (a - 23 + 24)" by (simp only: powr_add)
  moreover have "a - 23 + 24 = a + 1" by simp
  ultimately show ?thesis by simp
qed

lemma float32_ulp_pos: "0 < float32_ulp x"
  by (simp add: float32_ulp_def)

lemma float32_round_nonneg:
  assumes "0 \<le> x" shows "0 \<le> float32_round x"
proof (cases "x = 0")
  case True then show ?thesis by (simp add: float32_round_def)
next
  case False
  with assms have "0 \<le> x / float32_ulp x" using float32_ulp_pos[of x] by simp
  then have "0 \<le> round (x / float32_ulp x)" by (simp add: round_def)
  then have "0 \<le> float32_ulp x * real_of_int (round (x / float32_ulp x))"
    using float32_ulp_pos[of x] by simp
  then show ?thesis using False by (simp only: float32_round_def if_False)
qed

lemma float32_ulp_normal:
  assumes x: "2 powr real_of_int k \<le> x" and k: "- 126 \<le> k"
  shows "float32_ulp x = 2 powr (real_of_int \<lfloor>log 2 x\<rfloor> - 23)" and "k \<le> \<lfloor>log 2 x\<rfloor>"
    and "2 powr real_of_int \<lfloor>log 2 x\<rfloor> \<le> x"
proof -
  have xp: "0 < x" using x powr_gt_zero[of 2 "real_of_int k"] by linarith
  have "real_of_int k \<le> log 2 x" using x xp by (simp add: le_log_iff)
  then show kl: "k \<le> \<lfloor>log 2 x\<rfloor>" by (simp add: le_floor_iff)
  then have m: "max \<lfloor>log 2 \<bar>x\<bar>\<rfloor> (- 126) = \<lfloor>log 2 x\<rfloor>" using k xp by simp
  show "float32_ulp x = 2 powr (real_of_int \<lfloor>log 2 x\<rfloor> - 23)"
    unfolding float32_ulp_def m ..
  have "real_of_int \<lfloor>log 2 x\<rfloor> \<le> log 2 x" by simp
  then show "2 powr real_of_int \<lfloor>log 2 x\<rfloor> \<le> x" using xp by (simp add: powr_le_iff)
qed

lemma round_pow2: "round ((2::real) ^ n) = 2 ^ n"
proof -
  have "(2::real) ^ n = real_of_int (2 ^ n)" by simp
  then show ?thesis by (simp only: round_of_int)
qed

lemma float32_round_ge_pow2:
  assumes x: "2 powr real_of_int k \<le> x" and k: "- 126 \<le> k"
  shows "2 powr real_of_int k \<le> float32_round x"
proof -
  define u where "u = float32_ulp x"
  define e where "e = \<lfloor>log 2 x\<rfloor>"
  have xp: "0 < x" using x powr_gt_zero[of 2 "real_of_int k"] by linarith
  have u: "0 < u" unfolding u_def by (rule float32_ulp_pos)
  note n = float32_ulp_normal[OF x k, folded e_def u_def]
  have ue: "u * 2 ^ 23 = 2 powr real_of_int e" unfolding n(1) by (rule float32_pow23)
  then have "u * 2 ^ 23 \<le> x" using n(3) by simp
  then have q: "2 ^ 23 \<le> x / u" using u by (simp add: pos_le_divide_eq mult.commute)
  have "round ((2::real) ^ 23) \<le> round (x / u)" using q by (rule round_mono)
  then have "(2::int) ^ 23 \<le> round (x / u)" by (simp only: round_pow2)
  then have "real_of_int (2 ^ 23) \<le> real_of_int (round (x / u))" by (simp only: of_int_le_iff)
  then have "(2::real) ^ 23 \<le> real_of_int (round (x / u))" by simp
  then have "u * 2 ^ 23 \<le> u * real_of_int (round (x / u))"
    using u by (simp only: mult_le_cancel_left_pos)
  then have a: "2 powr real_of_int e \<le> u * real_of_int (round (x / u))" by (simp only: ue)
  have "(2::real) powr real_of_int k \<le> 2 powr real_of_int e" using n(2) by simp
  from this a have "2 powr real_of_int k \<le> u * real_of_int (round (x / u))" by (rule order_trans)
  then show ?thesis using xp unfolding u_def by (simp only: float32_round_def) simp
qed

lemma float32_round_le_pow2:
  assumes x: "0 \<le> x" "x \<le> 2 powr real_of_int k" and k: "- 126 \<le> k"
  shows "float32_round x \<le> 2 powr real_of_int k"
proof (cases "x = 0")
  case True then show ?thesis by (simp add: float32_round_def)
next
  case False
  with x have xp: "0 < x" by simp
  define u where "u = float32_ulp x"
  define e where "e = max \<lfloor>log 2 \<bar>x\<bar>\<rfloor> (- 126)"
  have u: "0 < u" unfolding u_def by (rule float32_ulp_pos)
  have ue: "u = 2 powr (real_of_int e - 23)" unfolding u_def float32_ulp_def e_def ..
  have le: "\<lfloor>log 2 x\<rfloor> \<le> e" unfolding e_def using xp by simp
  have "log 2 x \<le> real_of_int k" using x(2) xp by (simp add: log_le_iff)
  then have "\<lfloor>log 2 x\<rfloor> \<le> k" by (simp add: floor_le_iff)
  then have ek: "e \<le> k" unfolding e_def using k xp by simp
  have "log 2 x < real_of_int \<lfloor>log 2 x\<rfloor> + 1" by linarith
  also have "\<dots> \<le> real_of_int e + 1" using le by simp
  finally have "log 2 x < real_of_int e + 1" .
  then have "x < 2 powr (real_of_int e + 1)" using xp by (simp add: log_less_iff)
  then have "x \<le> u * 2 ^ 24" unfolding ue by (simp only: float32_pow24)
  then have q: "x / u \<le> 2 ^ 24" using u by (simp add: pos_divide_le_eq mult.commute)
  then have big: "u * real_of_int (round (x / u)) \<le> 2 powr (real_of_int e + 1)"
  proof -
    have "round (x / u) \<le> round ((2::real) ^ 24)" using q by (rule round_mono)
    then have "round (x / u) \<le> (2::int) ^ 24" by (simp only: round_pow2)
    then have "real_of_int (round (x / u)) \<le> real_of_int (2 ^ 24)" by (simp only: of_int_le_iff)
    then have "real_of_int (round (x / u)) \<le> 2 ^ 24" by simp
    then have "u * real_of_int (round (x / u)) \<le> u * 2 ^ 24"
      using u by (simp only: mult_le_cancel_left_pos)
    then show ?thesis unfolding ue by (simp only: float32_pow24)
  qed
  show ?thesis
  proof (cases "e < k")
    case True
    then have "real_of_int e + 1 \<le> real_of_int k" by linarith
    then have "(2::real) powr (real_of_int e + 1) \<le> 2 powr real_of_int k" by simp
    with big have "u * real_of_int (round (x / u)) \<le> 2 powr real_of_int k" by (rule order_trans)
    then show ?thesis using xp unfolding u_def by (simp only: float32_round_def) simp
  next
    case F2: False
    with ek have ee: "e = k" by simp
    have "x \<le> u * 2 ^ 23" using x(2) unfolding ue ee by (simp only: float32_pow23)
    then have q: "x / u \<le> 2 ^ 23" using u by (simp add: pos_divide_le_eq mult.commute)
    have "round (x / u) \<le> round ((2::real) ^ 23)" using q by (rule round_mono)
    then have "round (x / u) \<le> (2::int) ^ 23" by (simp only: round_pow2)
    then have "real_of_int (round (x / u)) \<le> real_of_int (2 ^ 23)" by (simp only: of_int_le_iff)
    then have "real_of_int (round (x / u)) \<le> 2 ^ 23" by simp
    then have "u * real_of_int (round (x / u)) \<le> u * 2 ^ 23"
      using u by (simp only: mult_le_cancel_left_pos)
    then have "u * real_of_int (round (x / u)) \<le> 2 powr real_of_int k"
      unfolding ue ee by (simp only: float32_pow23)
    then show ?thesis using xp unfolding u_def by (simp only: float32_round_def) simp
  qed
qed

lemma float32_round_ge_1: "1 \<le> x \<Longrightarrow> 1 \<le> float32_round x"
  using float32_round_ge_pow2[of 0 x] by simp

lemma float32_round_le_1: "0 \<le> x \<Longrightarrow> x \<le> 1 \<Longrightarrow> float32_round x \<le> 1"
  using float32_round_le_pow2[of x 0] by simp

lemma float32_sigmoid_range: "0 \<le> float32_sigmoid v \<and> float32_sigmoid v \<le> 1"
proof -
  define e where "e = float32_round (exp (- v))"
  have e: "0 \<le> e" unfolding e_def by (rule float32_round_nonneg) simp
  then have s: "1 \<le> float32_round (1 + e)" by (intro float32_round_ge_1) simp
  then have q: "0 \<le> 1 / float32_round (1 + e)" "1 / float32_round (1 + e) \<le> 1" by simp_all
  from float32_round_nonneg[OF q(1)] float32_round_le_1[OF q]
  show ?thesis unfolding float32_sigmoid_def e_def[symmetric] Let_def by simp
qed

lemma float32_round_near_1:
  assumes "1 \<le> y" "y < 1 + 1 / 2 ^ 24"
  shows "float32_round y = 1"
proof -
  have yp: "0 < y" using assms(1) by simp
  have "0 \<le> log 2 y" using assms(1) by simp
  moreover have "y < 2" using assms(2) by simp
  then have "log 2 y < 1" using yp by (simp add: log_less_iff)
  ultimately have fl: "\<lfloor>log 2 y\<rfloor> = 0" by (simp add: floor_eq_iff)
  have u: "float32_ulp y = 2 powr (- 23)" using yp by (simp add: float32_ulp_def fl)
  have u': "float32_ulp y * 2 ^ 23 = 1" unfolding u using float32_pow23[of 0] by simp
  have up: "0 < float32_ulp y" by (rule float32_ulp_pos)
  have d: "y / float32_ulp y = y * 2 ^ 23" using u' up by (simp add: field_simps)
  have "2 ^ 23 \<le> y * 2 ^ 23" using assms(1) by simp
  moreover have "y * 2 ^ 23 < 2 ^ 23 + 1 / 2" using assms(2) by (simp add: field_simps)
  ultimately have "round (y * 2 ^ 23) = 2 ^ 23"
    unfolding round_def by (simp add: floor_eq_iff)
  then have "float32_round y = float32_ulp y * 2 ^ 23"
    using yp by (simp add: float32_round_def d)
  with u' show ?thesis by simp
qed

lemma float32_round_1: "float32_round 1 = 1"
  by (rule float32_round_near_1) simp_all

lemma float32_max_less: "float32_max < 2 powr 128"
proof -
  have "float32_max < 2 * 2 ^ 127" unfolding float32_max_def by simp
  also have "\<dots> = 2 powr 128" by simp
  finally show ?thesis .
qed

lemma exp_1_lower: "5 / 2 \<le> exp (1::real)"
proof -
  have "1 + 1 / 8 \<le> exp (1 / 8 :: real)" by (rule exp_ge_add_one_self)
  then have "(9 / 8 :: real) ^ 8 \<le> exp (1 / 8) ^ 8" by (intro power_mono) simp_all
  also have "exp (1 / 8 :: real) ^ 8 = exp (of_nat 8 * (1 / 8))" by (simp only: exp_of_nat_mult)
  also have "\<dots> = exp 1" by simp
  finally have "(9 / 8 :: real) ^ 8 \<le> exp 1" .
  moreover have "(5 / 2 :: real) \<le> (9 / 8) ^ 8" by (simp add: power_divide)
  ultimately show ?thesis by linarith
qed

lemma exp_100_lower: "2 powr 128 \<le> exp (100::real)"
proof -
  have "(5 / 2 :: real) ^ 100 \<le> exp 1 ^ 100" using exp_1_lower by (intro power_mono) simp_all
  also have "exp (1::real) ^ 100 = exp (of_nat 100 * 1)" by (simp only: exp_of_nat_mult)
  also have "\<dots> = exp 100" by simp
  finally have "(5 / 2 :: real) ^ 100 \<le> exp 100" .
  moreover have "(2::real) ^ 128 \<le> (5 / 2) ^ 100" by (simp add: power_divide)
  ultimately have "(2::real) ^ 128 \<le> exp 100" by linarith
  then show ?thesis by simp
qed

lemma float32_sigmoid_100: "float32_sigmoid 100 = 1"
proof -
  define e where "e = float32_round (exp (- 100))"
  have "exp (- 100 :: real) = 1 / exp 100" by (simp only: exp_minus inverse_eq_divide)
  also have "\<dots> \<le> 1 / 2 powr 128" using exp_100_lower by (intro divide_left_mono) simp_all
  also have "\<dots> = 2 powr real_of_int (- 128)" by (simp add: powr_minus_divide)
  also have "\<dots> \<le> 2 powr real_of_int (- 100)" by simp
  finally have x: "exp (- 100 :: real) \<le> 2 powr real_of_int (- 100)" .
  have e0: "0 \<le> e" unfolding e_def by (rule float32_round_nonneg) simp
  have "e \<le> 2 powr real_of_int (- 100)" unfolding e_def
    by (rule float32_round_le_pow2[OF _ x]) simp_all
  also have "(2::real) powr real_of_int (- 100) = 1 / 2 ^ 100" by (simp add: powr_minus_divide)
  finally have e1: "e \<le> 1 / 2 ^ 100" .
  then have e2: "e < 1 / 2 ^ 24" by simp
  have "e < 2 powr 128" using e2 by simp
  have m: "\<not> float32_max < e"
  proof -
    have "e < 1" using e2 by simp
    moreover have "1 \<le> float32_max" unfolding float32_max_def by simp
    ultimately show ?thesis by simp
  qed
  have s: "float32_round (1 + e) = 1" by (rule float32_round_near_1) (use e0 e2 in simp_all)
  show ?thesis
    unfolding float32_sigmoid_def e_def[symmetric] Let_def using m s float32_round_1 by simp
qed

lemma float32_sigmoid_minus_200: "float32_sigmoid (- 200) = 0"
proof -
  have "exp (100::real) \<le> exp 200" by simp
  with exp_100_lower have "2 powr 128 \<le> exp (200::real)" by (rule order_trans)
  then have "2 powr real_of_int 128 \<le> exp (200::real)" by simp
  then have "2 powr real_of_int 128 \<le> float32_round (exp 200)"
    by (rule float32_round_ge_pow2) simp
  then have "float32_max < float32_round (exp 200)" using float32_max_less by simp
  then show ?thesis unfolding float32_sigmoid_def Let_def by simp
qed

subsection \<open>The attention refinement module\<close>

lemma AttentionRefinementModule_forward_steps:
  assumes "AttentionRefinementModule_forward N training m \<theta> x = Some out"
  shows "\<exists>pooled expanded gate.
           AdaptiveAvgPool2d x = Some pooled
         \<and> expand_as pooled x = Some expanded
         \<and> ConvBNAct_forward N training (arm_conv m) (arm_conv_p \<theta>) expanded = Some gate
         \<and> torch_mul x gate = Some out"
  using assms unfolding AttentionRefinementModule_forward_def
  by (auto simp: bind_eq_Some_conv)

lemma ConvBNAct_1x1_same_shape:
  assumes "ConvBNAct_forward N training (ConvBNAct_init c c 1 1 act) \<theta> x = Some y"
  shows "t_shape y = t_shape x"
proof -
  from ConvBNAct_forward_SomeD(1)[OF assms]
  obtain s1 where a: "Conv2d_shape c c (Suc 0) (Suc 0) 0 (t_shape x) = Some s1"
    and b: "BatchNorm2d_shape training c s1 = Some (t_shape y)"
    by (auto simp: ConvBNAct_shape_def ConvBNAct_init_def bind_eq_Some_conv)
  from a have "s1 = t_shape x" by (auto dest!: Conv2d_shape_1x1)
  with b show ?thesis
    by (cases "t_shape x") (auto simp: BatchNorm2d_shape_def split: if_splits)
qed

lemma ConvBNAct_forward_activated:
  assumes y: "ConvBNAct_forward N training m \<theta> x = Some y" and i: "inside (t_shape y) b c i j"
  shows "\<exists>v. elt y b c i j = Activation N (cba_act m) v"
proof -
  from y obtain y2 where 3: "y = tensor_map (Activation N (cba_act m)) y2"
    unfolding ConvBNAct_forward_def by (auto simp: bind_eq_Some_conv)
  from i have "inside (t_shape y2) b c i j" by (simp add: 3 tensor_map_shape)
  then have "elt y b c i j = Activation N (cba_act m) (elt y2 b c i j)"
    unfolding 3 by (rule tensor_map_elt)
  then show ?thesis by blast
qed

lemma AttentionRefinementModule_forward_elements:
  assumes fwd: "AttentionRefinementModule_forward N training
                  (AttentionRefinementModule_init channels) \<theta> x = Some out"
  shows "\<exists>pooled expanded gate.
           AdaptiveAvgPool2d x = Some pooled
         \<and> expand_as pooled x = Some expanded
         \<and> ConvBNAct_forward N training (ConvBNAct_init channels channels 1 1 ''sigmoid'')
               (arm_conv_p \<theta>) expanded = Some gate
         \<and> t_shape gate = t_shape x \<and> t_shape out = t_shape x
         \<and> (\<forall>b c i j. inside (t_shape x) b c i j \<longrightarrow>
                elt out b c i j = elt x b c i j * elt gate b c i j)"
proof -
  from AttentionRefinementModule_forward_steps[OF fwd]
  obtain pooled expanded gate
    where p: "AdaptiveAvgPool2d x = Some pooled"
      and e: "expand_as pooled x = Some expanded"
      and g: "ConvBNAct_forward N training (ConvBNAct_init channels channels 1 1 ''sigmoid'')
               (arm_conv_p \<theta>) expanded = Some gate"
      and mul: "torch_mul x gate = Some out"
    by (auto simp: AttentionRefinementModule_init_def)
  have gs: "t_shape gate = t_shape x"
    using ConvBNAct_1x1_same_shape[OF g] expand_as_SomeD(3)[OF e] by simp
  have out: "out = tensor_of (t_shape x) (\<lambda>b c i j. elt x b c i j * elt gate b c i j)"
    using mul torch_mul_same_shape[OF gs] by simp
  then have os: "t_shape out = t_shape x" by (simp add: t_shape_tensor_of)
  have el: "\<forall>b c i j. inside (t_shape x) b c i j \<longrightarrow>
              elt out b c i j = elt x b c i j * elt gate b c i j"
    by (simp add: out elt_tensor_of)
  from p e g gs os el show ?thesis by blast
qed

lemma ARM_init_same_shape:
  assumes "AttentionRefinementModule_forward N training (AttentionRefinementModule_init c) \<theta> x = Some y"
  shows "t_shape y = t_shape x"
  using AttentionRefinementModule_forward_elements[OF assms] by blast

text \<open>
  Claim C7, as amended. With the sigmoid as the library computes it in single precision,
  the output of the attention refinement module is the element-wise product of its input
  with a gate, computed from the expanded global average of the input, whose every value
  lies in the closed interval from 0 to 1; for an input of ones the output is at most the
  input, element by element.
\<close>

theorem AttentionRefinementModule_sigmoid_gate:
  assumes sg: "nl_sigmoid N = float32_sigmoid"
    and fwd: "AttentionRefinementModule_forward N training
                  (AttentionRefinementModule_init channels) \<theta> x = Some out"
  shows "\<exists>pooled expanded gate.
           AdaptiveAvgPool2d x = Some pooled
         \<and> expand_as pooled x = Some expanded
         \<and> ConvBNAct_forward N training
               (ConvBNAct_init channels channels 1 1 ''sigmoid'') (arm_conv_p \<theta>) expanded = Some gate
         \<and> t_shape gate = t_shape x \<and> t_shape out = t_shape x
         \<and> (\<forall>b c i j. inside (t_shape x) b c i j \<longrightarrow>
                0 \<le> elt gate b c i j \<and> elt gate b c i j \<le> 1
                \<and> elt out b c i j = elt x b c i j * elt gate b c i j)
         \<and> ((\<forall>b c i j. inside (t_shape x) b c i j \<longrightarrow> elt x b c i j = 1) \<longrightarrow>
              (\<forall>b c i j. inside (t_shape x) b c i j \<longrightarrow> elt out b c i j \<le> elt x b c i j))"
proof -
  from AttentionRefinementModule_forward_elements[OF fwd]
  obtain pooled expanded gate
    where p: "AdaptiveAvgPool2d x = Some pooled"
      and e: "expand_as pooled x = Some expanded"
      and g: "ConvBNAct_forward N training (ConvBNAct_init channels channels 1 1 ''sigmoid'')
               (arm_conv_p \<theta>) expanded = Some gate"
      and gs: "t_shape gate = t_shape x" and os: "t_shape out = t_shape x"
      and el: "\<forall>b c i j. inside (t_shape x) b c i j \<longrightarrow>
                elt out b c i j = elt x b c i j * elt gate b c i j"
    by blast
  have rng: "0 \<le> elt gate b c i j \<and> elt gate b c i j \<le> 1" if "inside (t_shape x) b c i j" for b c i j
  proof -
    from that gs have "inside (t_shape gate) b c i j" by simp
    from ConvBNAct_forward_activated[OF g this]
    obtain v where "elt gate b c i j = float32_sigmoid v"
      by (auto simp: Activation_def ConvBNAct_init_def sg)
    then show ?thesis by (simp add: float32_sigmoid_range)
  qed
  have ones: "\<forall>b c i j. inside (t_shape x) b c i j \<longrightarrow> elt out b c i j \<le> elt x b c i j"
    if one: "\<forall>b c i j. inside (t_shape x) b c i j \<longrightarrow> elt x b c i j = 1"
  proof (intro allI impI)
    fix b c i j assume i: "inside (t_shape x) b c i j"
    with el one have "elt out b c i j = elt gate b c i j" and "elt x b c i j = 1" by simp_all
    with rng[OF i] show "elt out b c i j \<le> elt x b c i j" by simp
  qed
  from p e g gs os el rng ones show ?thesis by blast
qed

theorem AttentionRefinementModule_sigmoid_gate_witness:
  "AttentionRefinementModule_forward (float32_nonlinearities (\<lambda>a. id)) False
     (AttentionRefinementModule_init 1) example_ARM_params (const_tensor (1, 1, 1, 1) 1)
   = Some (const_tensor (1, 1, 1, 1) (1 * float32_sigmoid 1))
   \<and> nl_sigmoid (float32_nonlinearities (\<lambda>a. id)) = float32_sigmoid
   \<and> elt (const_tensor (1, 1, 1, 1) (1::real)) 0 0 0 0 = 1
   \<and> elt (const_tensor (1, 1, 1, 1) (1 * float32_sigmoid 1)) 0 0 0 0
       \<le> elt (const_tensor (1, 1, 1, 1) (1::real)) 0 0 0 0
   \<and> 0 \<le> elt (const_tensor (1, 1, 1, 1) (float32_sigmoid 1)) 0 0 0 0
   \<and> elt (const_tensor (1, 1, 1, 1) (float32_sigmoid 1)) 0 0 0 0 \<le> 1"
proof -
  let ?N = "float32_nonlinearities (\<lambda>a. id)"
  let ?x = "const_tensor (1, 1, 1, 1) (1::real)"
  let ?y = "const_tensor (1, 1, 1, 1) (1 * float32_sigmoid 1)"
  let ?g = "const_tensor (1, 1, 1, 1) (float32_sigmoid 1)"
  have sg: "nl_sigmoid ?N = float32_sigmoid" by (simp add: float32_nonlinearities_def)
  have ones: "\<forall>b c i j. inside (t_shape ?x) b c i j \<longrightarrow> elt ?x b c i j = 1"
    by (simp add: const_tensor_def t_shape_tensor_of elt_tensor_of)
  from AttentionRefinementModule_sigmoid_gate[OF sg arm_float32_eval[of 1]]
  obtain pooled expanded gate
    where p: "AdaptiveAvgPool2d ?x = Some pooled"
      and e: "expand_as pooled ?x = Some expanded"
      and g: "ConvBNAct_forward ?N False (ConvBNAct_init 1 1 1 1 ''sigmoid'')
                (arm_conv_p example_ARM_params) expanded = Some gate"
      and rng: "\<forall>b c i j. inside (t_shape ?x) b c i j \<longrightarrow>
                  0 \<le> elt gate b c i j \<and> elt gate b c i j \<le> 1
                  \<and> elt ?y b c i j = elt ?x b c i j * elt gate b c i j"
      and le: "(\<forall>b c i j. inside (t_shape ?x) b c i j \<longrightarrow> elt ?x b c i j = 1) \<longrightarrow>
               (\<forall>b c i j. inside (t_shape ?x) b c i j \<longrightarrow> elt ?y b c i j \<le> elt ?x b c i j)"
    by blast
  from p e g arm_float32_gate_eval[of 1] have gate: "gate = ?g" by simp
  have i: "inside (t_shape ?x) 0 0 0 0" by (simp add: t_shape_const_tensor inside_def)
  from le ones i have a: "elt ?y 0 0 0 0 \<le> elt ?x 0 0 0 0" by blast
  from rng i have b: "0 \<le> elt ?g 0 0 0 0" "elt ?g 0 0 0 0 \<le> 1" unfolding gate by blast+
  have c: "elt ?x 0 0 0 0 = 1" using ones i by blast
  from arm_float32_eval[of 1] sg a b c show ?thesis by blast
qed

text \<open>
  The claim as first stated puts every gate value strictly between 0 and 1. In single
  precision the gate reaches both ends: for the one-channel module with convolution
  weight 1 and a normalisation that changes nothing, in evaluation mode, the input 100
  has the gate 1 (\<open>1 + exp (- 100)\<close> rounds to 1) and is returned unchanged, and the input
  -200 has the gate 0 (\<open>exp 200\<close> exceeds the largest finite number).
\<close>

theorem AttentionRefinementModule_sigmoid_gate_counterexample:
  "AttentionRefinementModule_forward (float32_nonlinearities (\<lambda>a. id)) False
     (AttentionRefinementModule_init 1) example_ARM_params (const_tensor (1, 1, 1, 1) 100)
   = Some (const_tensor (1, 1, 1, 1) 100)
   \<and> (AdaptiveAvgPool2d (const_tensor (1, 1, 1, 1) 100)
        \<bind> (\<lambda>p. expand_as p (const_tensor (1, 1, 1, 1) 100))
        \<bind> ConvBNAct_forward (float32_nonlinearities (\<lambda>a. id)) False
              (ConvBNAct_init 1 1 1 1 ''sigmoid'') (arm_conv_p example_ARM_params))
       = Some (const_tensor (1, 1, 1, 1) 1)
   \<and> elt (const_tensor (1, 1, 1, 1) (1::real)) 0 0 0 0 = 1
   \<and> AttentionRefinementModule_forward (float32_nonlinearities (\<lambda>a. id)) False
     (AttentionRefinementModule_init 1) example_ARM_params (const_tensor (1, 1, 1, 1) (- 200))
   = Some (const_tensor (1, 1, 1, 1) 0)
   \<and> (AdaptiveAvgPool2d (const_tensor (1, 1, 1, 1) (- 200))
        \<bind> (\<lambda>p. expand_as p (const_tensor (1, 1, 1, 1) (- 200)))
        \<bind> ConvBNAct_forward (float32_nonlinearities (\<lambda>a. id)) False
              (ConvBNAct_init 1 1 1 1 ''sigmoid'') (arm_conv_p example_ARM_params))
       = Some (const_tensor (1, 1, 1, 1) 0)
   \<and> elt (const_tensor (1, 1, 1, 1) (0::real)) 0 0 0 0 = 0"
proof -
  have el: "elt (const_tensor (1, 1, 1, 1) (v::real)) 0 0 0 0 = v" for v
    by (simp add: const_tensor_def elt_tensor_of inside_def)
  from arm_float32_eval[of 100] arm_float32_gate_eval[of 100]
       arm_float32_eval[of "- 200"] arm_float32_gate_eval[of "- 200"]
  show ?thesis
    by (simp only: float32_sigmoid_100 float32_sigmoid_minus_200 el mult_1_right mult_zero_right simp_thms)
qed

subsection \<open>Gates are constant over the image\<close>

lemma pooled_expand_per_channel:
  assumes p: "AdaptiveAvgPool2d x = Some pooled" and e: "expand_as pooled x = Some expanded"
  shows "per_channel expanded (plane_mean x)"
proof -
  obtain B C H W where s: "t_shape x = (B, C, H, W)" by (cases "t_shape x") auto
  from p s have ps: "t_shape pooled = (B, C, 1, 1)" and pd: "pooled = tensor_of (B, C, 1, 1) (\<lambda>b c i j. plane_mean x b c)"
    by (auto simp: AdaptiveAvgPool2d_def AdaptiveAvgPool2d_shape_def result_eq_Some t_shape_tensor_of
        split: if_splits)
  have es: "t_shape expanded = (B, C, H, W)"
    using expand_as_SomeD(3)[OF e] s by simp
  have ed: "elt expanded b c i j = belt pooled b c i j" if "inside (B, C, H, W) b c i j" for b c i j
    using e that unfolding expand_as_def by (intro result_elt) (auto simp: es)
  show ?thesis
    unfolding per_channel_def
  proof (intro allI impI)
    fix b c i j assume "inside (t_shape expanded) b c i j"
    then have i: "inside (B, C, H, W) b c i j" by (simp add: es)
    then have "belt pooled b c i j = elt pooled b c 0 0"
      by (auto simp: belt_def ps bindex_def inside_def)
    also have "\<dots> = plane_mean x b c"
      using i unfolding pd by (subst elt_tensor_of) (auto simp: inside_def)
    finally show "elt expanded b c i j = plane_mean x b c"
      using i by (simp add: ed)
  qed
qed

lemma Conv2d_1x1_elt:
  assumes y: "Conv2d c_in c_out (Suc 0) (Suc 0) 0 wt x = Some y" and i: "inside (t_shape y) b c i j"
  shows "elt y b c i j = (\<Sum>k<c_in. wt c k 0 0 * elt x b k i j)"
    and "\<forall>k<c_in. inside (t_shape x) b k i j"
proof -
  from Conv2d_SomeD(1)[OF y] obtain B H W
    where sx: "t_shape x = (B, c_in, H, W)" and sy: "t_shape y = (B, c_out, H, W)"
    by (auto dest!: Conv2d_shape_1x1)
  from i sy have r: "b < B" "c < c_out" "i < H" "j < W" by (auto simp: inside_def)
  from y i have "elt y b c i j = (\<Sum>k<c_in. \<Sum>di<Suc 0. \<Sum>dj<Suc 0. wt c k di dj * padded 0 x b k (i * Suc 0 + di) (j * Suc 0 + dj))"
    unfolding Conv2d_def by (rule result_elt)
  also have "\<dots> = (\<Sum>k<c_in. wt c k 0 0 * elt x b k i j)"
    using r by (simp add: padded_def sx)
  finally show "elt y b c i j = (\<Sum>k<c_in. wt c k 0 0 * elt x b k i j)" .
  show "\<forall>k<c_in. inside (t_shape x) b k i j"
    using r by (simp add: sx inside_def)
qed

lemma Conv2d_1x1_per_channel:
  assumes y: "Conv2d c_in c_out (Suc 0) (Suc 0) 0 wt x = Some y" and g: "per_channel x g"
  shows "per_channel y (\<lambda>b c. \<Sum>k<c_in. wt c k 0 0 * g b k)"
  unfolding per_channel_def
proof (intro allI impI)
  fix b c i j assume i: "inside (t_shape y) b c i j"
  from Conv2d_1x1_elt[OF y i] g
  show "elt y b c i j = (\<Sum>k<c_in. wt c k 0 0 * g b k)"
    by (simp add: per_channel_def)
qed

lemma tensor_map_per_channel:
  "per_channel x g \<Longrightarrow> per_channel (tensor_map f x) (\<lambda>b c. f (g b c))"
  by (simp add: per_channel_def tensor_map_shape tensor_map_elt)

lemma BatchNorm2d_per_channel:
  assumes y: "BatchNorm2d training n coef x = Some y" and g: "per_channel x g"
  shows "per_channel y (\<lambda>b c. fst (coef training x c) * g b c + snd (coef training x c))"
proof -
  from BatchNorm2d_SomeD(1)[OF y] have s: "t_shape y = t_shape x"
    by (cases "t_shape x") (auto simp: BatchNorm2d_shape_def split: if_splits)
  have "elt y b c i j = fst (coef training x c) * elt x b c i j + snd (coef training x c)"
    if "inside (t_shape y) b c i j" for b c i j
    using y that unfolding BatchNorm2d_def by (rule result_elt)
  with g show ?thesis by (simp add: per_channel_def s)
qed

lemma ConvBNAct_1x1_per_channel:
  assumes y: "ConvBNAct_forward N training (ConvBNAct_init c_in c_out 1 1 act) \<theta> x = Some y"
    and g: "per_channel x g"
  shows "\<exists>g'. per_channel y g'"
proof -
  from y obtain y1 y2
    where 1: "Conv2d c_in c_out (Suc 0) (Suc 0) 0 (cba_weight \<theta>) x = Some y1"
      and 2: "BatchNorm2d training c_out (cba_coef \<theta>) y1 = Some y2"
      and 3: "y = tensor_map (Activation N act) y2"
    unfolding ConvBNAct_forward_def ConvBNAct_init_def by (auto simp: bind_eq_Some_conv)
  from tensor_map_per_channel[OF BatchNorm2d_per_channel[OF 2 Conv2d_1x1_per_channel[OF 1 g]]] 3
  show ?thesis by blast
qed

lemma conv1x1_forward_per_channel:
  assumes y: "conv1x1_forward m \<theta> x = Some y" and g: "per_channel x g"
  shows "\<exists>g'. per_channel y g'"
proof -
  from y obtain y1
    where 1: "Conv2d (c1_in m) (c1_out m) (Suc 0) (Suc 0) 0 (c1_weight \<theta>) x = Some y1"
      and 2: "y = tensor_of (t_shape y1) (\<lambda>b c i j. elt y1 b c i j + c1_bias \<theta> c)"
    unfolding conv1x1_forward_def by (auto simp: bind_eq_Some_conv)
  from Conv2d_1x1_per_channel[OF 1 g]
  have "per_channel y (\<lambda>b c. (\<Sum>k<c1_in m. c1_weight \<theta> c k 0 0 * g b k) + c1_bias \<theta> c)"
    by (simp add: per_channel_def 2 t_shape_tensor_of elt_tensor_of)
  then show ?thesis by blast
qed

lemma FeatureFusionModule_conv2_per_channel:
  assumes y: "FeatureFusionModule_conv2 N m \<theta> x = Some y" and g: "per_channel x g"
  shows "\<exists>g'. per_channel y g'"
proof -
  from y obtain y1 y2
    where 1: "conv1x1_forward (ffm_conv2_a m) (ffm_conv2_a_p \<theta>) x = Some y1"
      and 2: "conv1x1_forward (ffm_conv2_b m) (ffm_conv2_b_p \<theta>) (tensor_map (nl_relu N) y1) = Some y2"
      and 3: "y = tensor_map (nl_sigmoid N) y2"
    unfolding FeatureFusionModule_conv2_def by (auto simp: bind_eq_Some_conv)
  from conv1x1_forward_per_channel[OF 1 g] obtain g1 where "per_channel y1 g1" by blast
  from conv1x1_forward_per_channel[OF 2 tensor_map_per_channel[OF this]]
  obtain g2 where "per_channel y2 g2" by blast
  from tensor_map_per_channel[OF this] 3 show ?thesis by blast
qed

text \<open>
  Claim C10. In the attention refinement module and in the feature fusion module the gate
  has, for every batch element and channel, one value \<open>g b c\<close> at all spatial positions,
  so every pixel of a channel is multiplied by the same scalar. This holds for all
  parameters, all nonlinearities and both modes.
\<close>

theorem attention_gate_spatially_constant:
  "(AttentionRefinementModule_forward N training (AttentionRefinementModule_init channels) \<theta>a x = Some out
      \<longrightarrow> (\<exists>pooled expanded gate g.
             AdaptiveAvgPool2d x = Some pooled
           \<and> expand_as pooled x = Some expanded
           \<and> ConvBNAct_forward N training (ConvBNAct_init channels channels 1 1 ''sigmoid'')
                 (arm_conv_p \<theta>a) expanded = Some gate
           \<and> t_shape gate = t_shape x \<and> t_shape out = t_shape x
           \<and> (\<forall>b c i j. inside (t_shape x) b c i j \<longrightarrow>
                  elt gate b c i j = g b c \<and> elt out b c i j = elt x b c i j * g b c)))
   \<and> (FeatureFusionModule_forward N training
          (FeatureFusionModule_init in_channels out_channels act_type) \<theta>f x_low x_high = Some out'
      \<longrightarrow> (\<exists>cat x' pooled expanded gate g.
             torch_cat x_low x_high = Some cat
           \<and> ConvBNAct_forward N training (ConvBNAct_init in_channels out_channels 3 1 act_type)
                 (ffm_conv1_p \<theta>f) cat = Some x'
           \<and> AdaptiveAvgPool2d x' = Some pooled
           \<and> expand_as pooled x' = Some expanded
           \<and> FeatureFusionModule_conv2 N (FeatureFusionModule_init in_channels out_channels act_type)
                 \<theta>f expanded = Some gate
           \<and> t_shape gate = t_shape x' \<and> t_shape out' = t_shape x'
           \<and> (\<forall>b c i j. inside (t_shape x') b c i j \<longrightarrow>
                  elt gate b c i j = g b c
                  \<and> elt out' b c i j = elt x' b c i j + elt x' b c i j * g b c)))"
proof (intro conjI impI)
  assume fwd: "AttentionRefinementModule_forward N training (AttentionRefinementModule_init channels) \<theta>a x = Some out"
  from AttentionRefinementModule_forward_elements[OF fwd]
  obtain pooled expanded gate
    where p: "AdaptiveAvgPool2d x = Some pooled"
      and e: "expand_as pooled x = Some expanded"
      and g: "ConvBNAct_forward N training (ConvBNAct_init channels channels 1 1 ''sigmoid'')
               (arm_conv_p \<theta>a) expanded = Some gate"
      and gs: "t_shape gate = t_shape x" and os: "t_shape out = t_shape x"
      and el: "\<forall>b c i j. inside (t_shape x) b c i j \<longrightarrow>
                elt out b c i j = elt x b c i j * elt gate b c i j"
    by blast
  from ConvBNAct_1x1_per_channel[OF g pooled_expand_per_channel[OF p e]]
  obtain g' where "per_channel gate g'" by blast
  with el gs have "\<forall>b c i j. inside (t_shape x) b c i j \<longrightarrow>
                  elt gate b c i j = g' b c \<and> elt out b c i j = elt x b c i j * g' b c"
    by (simp add: per_channel_def)
  with p e g gs os
  show "\<exists>pooled expanded gate g.
             AdaptiveAvgPool2d x = Some pooled
           \<and> expand_as pooled x = Some expanded
           \<and> ConvBNAct_forward N training (ConvBNAct_init channels channels 1 1 ''sigmoid'')
                 (arm_conv_p \<theta>a) expanded = Some gate
           \<and> t_shape gate = t_shape x \<and> t_shape out = t_shape x
           \<and> (\<forall>b c i j. inside (t_shape x) b c i j \<longrightarrow>
                  elt gate b c i j = g b c \<and> elt out b c i j = elt x b c i j * g b c)"
    by blast
next
  assume fwd: "FeatureFusionModule_forward N training
          (FeatureFusionModule_init in_channels out_channels act_type) \<theta>f x_low x_high = Some out'"
  from FeatureFusionModule_forward_elements[OF fwd]
  obtain cat x' pooled expanded gate
    where steps: "torch_cat x_low x_high = Some cat"
        "ConvBNAct_forward N training (ConvBNAct_init in_channels out_channels 3 1 act_type)
               (ffm_conv1_p \<theta>f) cat = Some x'"
      and p: "AdaptiveAvgPool2d x' = Some pooled"
      and e: "expand_as pooled x' = Some expanded"
      and g: "FeatureFusionModule_conv2 N (FeatureFusionModule_init in_channels out_channels act_type)
               \<theta>f expanded = Some gate"
      and gs: "t_shape gate = t_shape x'" and os: "t_shape out' = t_shape x'"
      and el: "\<forall>b c i j. inside (t_shape x') b c i j \<longrightarrow>
                elt out' b c i j = elt x' b c i j + elt x' b c i j * elt gate b c i j"
    by blast
  from FeatureFusionModule_conv2_per_channel[OF g pooled_expand_per_channel[OF p e]]
  obtain g' where "per_channel gate g'" by blast
  with el gs have "\<forall>b c i j. inside (t_shape x') b c i j \<longrightarrow>
                  elt gate b c i j = g' b c
                  \<and> elt out' b c i j = elt x' b c i j + elt x' b c i j * g' b c"
    by (simp add: per_channel_def)
  with steps p e g gs os
  show "\<exists>cat x' pooled expanded gate g.
             torch_cat x_low x_high = Some cat
           \<and> ConvBNAct_forward N training (ConvBNAct_init in_channels out_channels 3 1 act_type)
                 (ffm_conv1_p \<theta>f) cat = Some x'
           \<and> AdaptiveAvgPool2d x' = Some pooled
           \<and> expand_as pooled x' = Some expanded
           \<and> FeatureFusionModule_conv2 N (FeatureFusionModule_init in_channels out_channels act_type)
                 \<theta>f expanded = Some gate
           \<and> t_shape gate = t_shape x' \<and> t_shape out' = t_shape x'
           \<and> (\<forall>b c i j. inside (t_shape x') b c i j \<longrightarrow>
                  elt gate b c i j = g b c
                  \<and> elt out' b c i j = elt x' b c i j + elt x' b c i j * g b c)"
    by blast
qed

theorem attention_gate_spatially_constant_witness:
  "AttentionRefinementModule_forward example_nonlinearities False
     (AttentionRefinementModule_init 1) example_ARM_params
     (tensor_of (1, 1, 2, 2) (\<lambda>b c i j. real (2 * i + j)))
   = Some (tensor_of (1, 1, 2, 2) (\<lambda>b c i j. real (2 * i + j) * sigmoid (3 / 2)))
   \<and> (\<exists>pooled expanded gate.
         AdaptiveAvgPool2d (tensor_of (1, 1, 2, 2) (\<lambda>b c i j. real (2 * i + j))) = Some pooled
       \<and> expand_as pooled (tensor_of (1, 1, 2, 2) (\<lambda>b c i j. real (2 * i + j))) = Some expanded
       \<and> ConvBNAct_forward example_nonlinearities False (ConvBNAct_init 1 1 1 1 ''sigmoid'')
            (arm_conv_p example_ARM_params) expanded = Some gate
       \<and> elt gate 0 0 0 0 = elt gate 0 0 1 1 \<and> elt gate 0 0 0 1 = elt gate 0 0 1 0)
   \<and> FeatureFusionModule_forward example_nonlinearities False (FeatureFusionModule_init 2 1 ''relu'')
       example_FFM_params (tensor_of (1, 1, 1, 2) (\<lambda>b c i j. 2 + 2 * real j)) (const_tensor (1, 1, 1, 2) 3)
     = Some (const_tensor (1, 1, 1, 2) 12)
   \<and> (\<exists>x' pooled expanded gate.
         AdaptiveAvgPool2d x' = Some pooled
       \<and> expand_as pooled x' = Some expanded
       \<and> FeatureFusionModule_conv2 example_nonlinearities (FeatureFusionModule_init 2 1 ''relu'')
            example_FFM_params expanded = Some gate
       \<and> t_shape x' = (1, 1, 1, 2)
       \<and> elt gate 0 0 0 0 = elt gate 0 0 0 1)"
proof -
  let ?xa = "tensor_of (1, 1, 2, 2) (\<lambda>b c i j. real (2 * i + j))"
  note inst = attention_gate_spatially_constant[of example_nonlinearities False 1 example_ARM_params ?xa
      "tensor_of (1, 1, 2, 2) (\<lambda>b c i j. real (2 * i + j) * sigmoid (3 / 2))"
      2 1 "''relu''" example_FFM_params "tensor_of (1, 1, 1, 2) (\<lambda>b c i j. 2 + 2 * real j)"
      "const_tensor (1, 1, 1, 2) 3" "const_tensor (1, 1, 1, 2) 12"]
  from inst arm_example_eval
  obtain pooled expanded gate g
    where a: "AdaptiveAvgPool2d ?xa = Some pooled" "expand_as pooled ?xa = Some expanded"
        "ConvBNAct_forward example_nonlinearities False (ConvBNAct_init 1 1 1 1 ''sigmoid'')
            (arm_conv_p example_ARM_params) expanded = Some gate"
      and ag: "\<forall>b c i j. inside (t_shape ?xa) b c i j \<longrightarrow>
                  elt gate b c i j = g b c \<and>
                  elt (tensor_of (1, 1, 2, 2) (\<lambda>b c i j. real (2 * i + j) * sigmoid (3 / 2))) b c i j
                    = elt ?xa b c i j * g b c"
    by blast
  from ag have ga: "elt gate 0 0 0 0 = elt gate 0 0 1 1 \<and> elt gate 0 0 0 1 = elt gate 0 0 1 0"
    by (simp add: t_shape_tensor_of inside_def)
  from inst ffm_example_eval
  obtain x' pooled' expanded' gate' g'
    where f: "AdaptiveAvgPool2d x' = Some pooled'" "expand_as pooled' x' = Some expanded'"
        "FeatureFusionModule_conv2 example_nonlinearities (FeatureFusionModule_init 2 1 ''relu'')
            example_FFM_params expanded' = Some gate'"
      and fs: "t_shape (const_tensor (1, 1, 1, 2) (12::real)) = t_shape x'"
      and fg: "\<forall>b c i j. inside (t_shape x') b c i j \<longrightarrow>
                  elt gate' b c i j = g' b c
                  \<and> elt (const_tensor (1, 1, 1, 2) (12::real)) b c i j
                      = elt x' b c i j + elt x' b c i j * g' b c"
    by blast
  from fs have xs: "t_shape x' = (1, 1, 1, 2)"
    by (simp add: t_shape_const_tensor)
  from fg have gf: "elt gate' 0 0 0 0 = elt gate' 0 0 0 1"
    by (simp add: xs inside_def)
  from arm_example_eval a ga ffm_example_eval f xs gf show ?thesis by blast
qed

subsection \<open>The context path\<close>

lemma ContextPath_forward_steps:
  assumes "ContextPath_forward N training m \<theta> x = Some out"
  shows "\<exists>x_32 x_16 x_32_avg gated_32 summed_32 proj_32 up_32 gated_16 proj_16 summed_16.
      ResNet_forward training (cp_backbone m) (cp_backbone_p \<theta>) x = Some (x_32, x_16)
    \<and> AdaptiveAvgPool2d x_32 = Some x_32_avg
    \<and> AttentionRefinementModule_forward N training (cp_arm_32 m) (cp_arm_32_p \<theta>) x_32 = Some gated_32
    \<and> torch_iadd gated_32 x_32_avg = Some summed_32
    \<and> conv1x1_forward (cp_conv_32 m) (cp_conv_32_p \<theta>) summed_32 = Some proj_32
    \<and> F_interpolate_scale proj_32 2 = Some up_32
    \<and> AttentionRefinementModule_forward N training (cp_arm_16 m) (cp_arm_16_p \<theta>) x_16 = Some gated_16
    \<and> conv1x1_forward (cp_conv_16 m) (cp_conv_16_p \<theta>) gated_16 = Some proj_16
    \<and> torch_iadd proj_16 up_32 = Some summed_16
    \<and> F_interpolate_scale summed_16 2 = Some out"
  using assms unfolding ContextPath_forward_def
  by (auto simp: bind_eq_Some_conv)

lemma broadcast_doubled:
  assumes "broadcast_shape (B, C, H, W) (B, C, h * 2, w * 2) = Some (B, C, H, W)"
  shows "H = h * 2" and "W = w * 2"
  using assms
  by (auto simp: broadcast_shape_def broadcast_dim_def bind_eq_Some_conv split: if_splits)

lemma ContextPath_forward_elements:
  assumes init: "ContextPath_init out_channels backbone_type act_type = Inr m"
    and fwd: "ContextPath_forward N training m \<theta> x = Some out"
  shows "\<exists>x_32 x_16 x_32_avg gated_32 summed_32 proj_32 up_32 gated_16 proj_16 summed_16 B h w.
      ResNet_forward training (cp_backbone m) (cp_backbone_p \<theta>) x = Some (x_32, x_16)
    \<and> AdaptiveAvgPool2d x_32 = Some x_32_avg
    \<and> AttentionRefinementModule_forward N training (cp_arm_32 m) (cp_arm_32_p \<theta>) x_32 = Some gated_32
    \<and> torch_iadd gated_32 x_32_avg = Some summed_32
    \<and> conv1x1_forward (cp_conv_32 m) (cp_conv_32_p \<theta>) summed_32 = Some proj_32
    \<and> F_interpolate_scale proj_32 2 = Some up_32
    \<and> AttentionRefinementModule_forward N training (cp_arm_16 m) (cp_arm_16_p \<theta>) x_16 = Some gated_16
    \<and> conv1x1_forward (cp_conv_16 m) (cp_conv_16_p \<theta>) gated_16 = Some proj_16
    \<and> torch_iadd proj_16 up_32 = Some summed_16
    \<and> F_interpolate_scale summed_16 2 = Some out
    \<and> t_shape x_32 = (B, cp_channels m ! 1, h, w)
    \<and> t_shape x_16 = (B, cp_channels m ! 0, h * 2, w * 2)
    \<and> t_shape gated_32 = t_shape x_32
    \<and> t_shape proj_32 = (B, out_channels, h, w)
    \<and> t_shape up_32 = (B, out_channels, h * 2, w * 2)
    \<and> t_shape proj_16 = (B, out_channels, h * 2, w * 2)
    \<and> t_shape out = (B, out_channels, h * 2 * 2, w * 2 * 2)
    \<and> (\<forall>b c i j. inside (t_shape x_32) b c i j \<longrightarrow>
          elt summed_32 b c i j = elt gated_32 b c i j + plane_mean x_32 b c)
    \<and> (\<forall>b c i j. inside (t_shape proj_16) b c i j \<longrightarrow>
          elt summed_16 b c i j = elt proj_16 b c i j + elt up_32 b c i j)
    \<and> (\<forall>b c. b < B \<and> c < out_channels \<longrightarrow>
          elt up_32 b c 0 0 = elt proj_32 b c 0 0
        \<and> elt up_32 b c (h * 2 - 1) (w * 2 - 1) = elt proj_32 b c (h - 1) (w - 1)
        \<and> elt out b c 0 0 = elt summed_16 b c 0 0
        \<and> elt out b c (h * 2 * 2 - 1) (w * 2 * 2 - 1) = elt summed_16 b c (h * 2 - 1) (w * 2 - 1))"
proof -
  let ?e = "resnet_expansion (rn_arch (cp_backbone m))"
  note f = ContextPath_init_fields[OF init]
  from ContextPath_forward_steps[OF fwd]
  obtain x_32 x_16 x_32_avg gated_32 summed_32 proj_32 up_32 gated_16 proj_16 summed_16
    where bb: "ResNet_forward training (cp_backbone m) (cp_backbone_p \<theta>) x = Some (x_32, x_16)"
      and avg: "AdaptiveAvgPool2d x_32 = Some x_32_avg"
      and a32: "AttentionRefinementModule_forward N training (cp_arm_32 m) (cp_arm_32_p \<theta>) x_32 = Some gated_32"
      and s32: "torch_iadd gated_32 x_32_avg = Some summed_32"
      and c32: "conv1x1_forward (cp_conv_32 m) (cp_conv_32_p \<theta>) summed_32 = Some proj_32"
      and u32: "F_interpolate_scale proj_32 2 = Some up_32"
      and a16: "AttentionRefinementModule_forward N training (cp_arm_16 m) (cp_arm_16_p \<theta>) x_16 = Some gated_16"
      and c16: "conv1x1_forward (cp_conv_16 m) (cp_conv_16_p \<theta>) gated_16 = Some proj_16"
      and s16: "torch_iadd proj_16 up_32 = Some summed_16"
      and u16: "F_interpolate_scale summed_16 2 = Some out"
    by blast
  from ResNet_forward_D[OF bb] obtain B h16 w16 h w
    where x16: "t_shape x_16 = (B, 256 * ?e, h16, w16)"
      and x32: "t_shape x_32 = (B, 512 * ?e, h, w)"
    by blast
  have ch: "cp_channels m ! 0 = 256 * ?e" "cp_channels m ! Suc 0 = 512 * ?e"
    by (simp_all add: f(1))
  have g32: "t_shape gated_32 = t_shape x_32"
    using a32 unfolding f(3) by (rule ARM_init_same_shape)
  have sm32: "t_shape summed_32 = t_shape x_32"
    using torch_iadd_D(1)[OF s32] g32 by simp
  have p32: "t_shape proj_32 = (B, out_channels, h, w)"
    using conv1x1_forward_D[OF c32[unfolded f(5)]] sm32 x32 by auto
  note up = F_interpolate_scale_D[OF u32 p32]
  have g16: "t_shape gated_16 = t_shape x_16"
    using a16 unfolding f(2) by (rule ARM_init_same_shape)
  have p16: "t_shape proj_16 = (B, out_channels, h16, w16)"
    using conv1x1_forward_D[OF c16[unfolded f(4)]] g16 x16 by auto
  from torch_iadd_D(2)[OF s16] have hw: "h16 = h * 2" "w16 = w * 2"
    unfolding p16 up(1) by (auto dest: broadcast_doubled)
  have sm16: "t_shape summed_16 = (B, out_channels, h * 2, w * 2)"
    using torch_iadd_D(1)[OF s16] p16 hw by simp
  have os: "t_shape out = (B, out_channels, h * 2 * 2, w * 2 * 2)"
    by (rule F_interpolate_scale_D(1)[OF u16 sm16])
  have e32: "\<forall>b c i j. inside (t_shape x_32) b c i j \<longrightarrow>
          elt summed_32 b c i j = elt gated_32 b c i j + plane_mean x_32 b c"
    using torch_iadd_D(3)[OF s32] pooled_belt[OF avg] by (simp add: g32)
  have same: "t_shape up_32 = t_shape proj_16"
    by (simp add: up(1) p16 hw)
  have e16: "\<forall>b c i j. inside (t_shape proj_16) b c i j \<longrightarrow>
          elt summed_16 b c i j = elt proj_16 b c i j + elt up_32 b c i j"
    using torch_iadd_D(3)[OF s16] by (simp add: belt_inside same)
  have x32': "t_shape x_32 = (B, cp_channels m ! 1, h, w)" by (simp add: x32 ch)
  have x16': "t_shape x_16 = (B, cp_channels m ! 0, h * 2, w * 2)" by (simp add: x16 ch hw)
  have p16': "t_shape proj_16 = (B, out_channels, h * 2, w * 2)" by (simp add: p16 hw)
  have corners: "\<forall>b c. b < B \<and> c < out_channels \<longrightarrow>
          elt up_32 b c 0 0 = elt proj_32 b c 0 0
        \<and> elt up_32 b c (h * 2 - 1) (w * 2 - 1) = elt proj_32 b c (h - 1) (w - 1)
        \<and> elt out b c 0 0 = elt summed_16 b c 0 0
        \<and> elt out b c (h * 2 * 2 - 1) (w * 2 * 2 - 1) = elt summed_16 b c (h * 2 - 1) (w * 2 - 1)"
    using F_interpolate_scale_corners[OF u32 p32] F_interpolate_scale_corners[OF u16 sm16]
    by blast
  from bb avg a32 s32 c32 u32 a16 c16 s16 u16 x32' x16' g32 p32 up(1) p16' os e32 e16 corners
  show ?thesis by blast
qed

text \<open>
  Claim C6. \<^verbatim>\<open>ContextPath.forward\<close> pools the raw 1/32 map of the backbone, gates
  that map with \<^verbatim>\<open>arm_32\<close> and adds the pooled value of each channel of the raw map
  to every position of the gated one; the sum is projected by \<^verbatim>\<open>conv_32\<close> and
  upsampled to twice its height and width. The 1/16 map is gated by \<^verbatim>\<open>arm_16\<close> and
  projected by \<^verbatim>\<open>conv_16\<close>, the upsampled result is added to it element by element,
  and the sum, upsampled to twice its size again, is the output. Both upsamplings keep
  the corner pixels of their input (bilinear interpolation with aligned corners).
\<close>

theorem ContextPath_forward_order:
  assumes "ContextPath_init out_channels backbone_type act_type = Inr m"
    and "ContextPath_forward N training m \<theta> x = Some out"
  shows "\<exists>x_32 x_16 x_32_avg gated_32 summed_32 proj_32 up_32 gated_16 proj_16 summed_16 B h w.
      ResNet_forward training (cp_backbone m) (cp_backbone_p \<theta>) x = Some (x_32, x_16)
    \<and> AdaptiveAvgPool2d x_32 = Some x_32_avg
    \<and> AttentionRefinementModule_forward N training (cp_arm_32 m) (cp_arm_32_p \<theta>) x_32 = Some gated_32
    \<and> torch_iadd gated_32 x_32_avg = Some summed_32
    \<and> conv1x1_forward (cp_conv_32 m) (cp_conv_32_p \<theta>) summed_32 = Some proj_32
    \<and> F_interpolate_scale proj_32 2 = Some up_32
    \<and> AttentionRefinementModule_forward N training (cp_arm_16 m) (cp_arm_16_p \<theta>) x_16 = Some gated_16
    \<and> conv1x1_forward (cp_conv_16 m) (cp_conv_16_p \<theta>) gated_16 = Some proj_16
    \<and> torch_iadd proj_16 up_32 = Some summed_16
    \<and> F_interpolate_scale summed_16 2 = Some out
    \<and> t_shape x_32 = (B, cp_channels m ! 1, h, w)
    \<and> t_shape x_16 = (B, cp_channels m ! 0, h * 2, w * 2)
    \<and> t_shape gated_32 = t_shape x_32
    \<and> t_shape proj_32 = (B, out_channels, h, w)
    \<and> t_shape up_32 = (B, out_channels, h * 2, w * 2)
    \<and> t_shape proj_16 = (B, out_channels, h * 2, w * 2)
    \<and> t_shape out = (B, out_channels, h * 2 * 2, w * 2 * 2)
    \<and> (\<forall>b c i j. inside (t_shape x_32) b c i j \<longrightarrow>
          elt summed_32 b c i j = elt gated_32 b c i j + plane_mean x_32 b c)
    \<and> (\<forall>b c i j. inside (t_shape proj_16) b c i j \<longrightarrow>
          elt summed_16 b c i j = elt proj_16 b c i j + elt up_32 b c i j)
    \<and> (\<forall>b c. b < B \<and> c < out_channels \<longrightarrow>
          elt up_32 b c 0 0 = elt proj_32 b c 0 0
        \<and> elt up_32 b c (h * 2 - 1) (w * 2 - 1) = elt proj_32 b c (h - 1) (w - 1)
        \<and> elt out b c 0 0 = elt summed_16 b c 0 0
        \<and> elt out b c (h * 2 * 2 - 1) (w * 2 * 2 - 1) = elt summed_16 b c (h * 2 - 1) (w * 2 - 1))"
  using assms by (rule ContextPath_forward_elements)

theorem ContextPath_forward_order_witness:
  "\<exists>m out x_32 x_16 x_32_avg.
      ContextPath_init 256 ''resnet18'' ''relu'' = Inr m
    \<and> ContextPath_forward example_nonlinearities True m (context_path_p example_params)
         (const_tensor (2, 3, 32, 32) 1) = Some out
    \<and> ResNet_forward True (cp_backbone m) (cp_backbone_p (context_path_p example_params))
         (const_tensor (2, 3, 32, 32) 1) = Some (x_32, x_16)
    \<and> AdaptiveAvgPool2d x_32 = Some x_32_avg
    \<and> t_shape x_32 = (2, 512, 1, 1)
    \<and> t_shape out = (2, 256, 4, 4)"
proof -
  let ?x = "const_tensor (2, 3, 32, 32) (1::real)"
  obtain m' where "BiSeNetv1_init 1 3 ''resnet18'' ''relu'' = Inr m'"
    using BiSeNetv1_init_supported[of "''resnet18''" 1 3 "''relu''"] by auto
  from BiSeNetv1_init_fields(2)[OF this]
  obtain m where init: "ContextPath_init 256 ''resnet18'' ''relu'' = Inr m" by blast
  have "\<exists>out. ContextPath_forward example_nonlinearities True m (context_path_p example_params) ?x = Some out"
    by (rule ContextPath_forward_succeeds[OF init, where h = 1 and w = 1 and b = 2])
       (simp_all add: t_shape_const_tensor)
  then obtain out where fwd: "ContextPath_forward example_nonlinearities True m
      (context_path_p example_params) ?x = Some out" by blast
  from ContextPath_forward_order[OF init fwd]
  obtain x_32 x_16 x_32_avg B h w
    where bb: "ResNet_forward True (cp_backbone m) (cp_backbone_p (context_path_p example_params)) ?x
                = Some (x_32, x_16)"
      and avg: "AdaptiveAvgPool2d x_32 = Some x_32_avg"
      and s32: "t_shape x_32 = (B, cp_channels m ! 1, h, w)"
      and so: "t_shape out = (B, 256, h * 2 * 2, w * 2 * 2)"
    by blast
  from ContextPath_forward_abs[of example_nonlinearities True m "context_path_p example_params" ?x]
    ContextPath_shape_ok[OF init, of 1 1 True 2] fwd
  have "t_shape out = (2, 256, 4, 4)" by (simp add: t_shape_const_tensor)
  with so have "B = 2" "h = 1" "w = 1" by auto
  moreover have "cp_channels m ! 1 = 512"
    using ContextPath_init_fields(1,6)[OF init] resnet_hub_cases[of "''resnet18''"]
    by (auto simp: resnet_expansion_def)
  ultimately have "t_shape x_32 = (2, 512, 1, 1)" using s32 by simp
  with init fwd bb avg \<open>t_shape out = (2, 256, 4, 4)\<close> show ?thesis by blast
qed

subsection \<open>The network\<close>

lemma BiSeNetv1_forward_steps:
  assumes "BiSeNetv1_forward N training m \<theta> x = Some out"
  shows "\<exists>x_s x_c fused logits.
      SpatialPath_forward N training (spatial_path m) (spatial_path_p \<theta>) x = Some x_s
    \<and> ContextPath_forward N training (context_path m) (context_path_p \<theta>) x = Some x_c
    \<and> FeatureFusionModule_forward N training (ffm m) (ffm_p \<theta>) x_s x_c = Some fused
    \<and> SegHead_forward N training (seg_head m) (seg_head_p \<theta>) fused = Some logits
    \<and> F_interpolate_size logits (spatial_size (t_shape x)) = Some out"
  using assms unfolding BiSeNetv1_forward_def Let_def
  by (auto simp: bind_eq_Some_conv)

lemma ConvBNAct_forward_constant:
  assumes y: "ConvBNAct_forward N training m \<theta> x = Some y"
    and coef: "cba_coef \<theta> = (\<lambda>t x c. (0, s))"
    and i: "inside (t_shape y) b c i j"
  shows "elt y b c i j = Activation N (cba_act m) s"
proof -
  from y obtain y1 y2
    where 2: "BatchNorm2d training (cba_out m) (cba_coef \<theta>) y1 = Some y2"
      and 3: "y = tensor_map (Activation N (cba_act m)) y2"
    unfolding ConvBNAct_forward_def by (auto simp: bind_eq_Some_conv)
  from i have i2: "inside (t_shape y2) b c i j" by (simp add: 3 tensor_map_shape)
  with 2 have "elt y2 b c i j
      = fst (cba_coef \<theta> training y1 c) * elt y1 b c i j + snd (cba_coef \<theta> training y1 c)"
    unfolding BatchNorm2d_def by (rule result_elt)
  then have "elt y2 b c i j = s" by (simp add: coef)
  moreover have "elt y b c i j = Activation N (cba_act m) (elt y2 b c i j)"
    unfolding 3 using i2 by (rule tensor_map_elt)
  ultimately show ?thesis by simp
qed

lemma SpatialPath_forward_constant:
  assumes y: "SpatialPath_forward N training (SpatialPath_init c_in c_out act) \<theta> x = Some y"
    and coef: "cba_coef (\<theta> 2) = (\<lambda>t x c. (0, s))"
    and i: "inside (t_shape y) b c i j"
  shows "elt y b c i j = Activation N act s"
proof -
  from y obtain y2
    where "ConvBNAct_forward N training (ConvBNAct_init c_out c_out 3 2 act) (\<theta> 2) y2 = Some y"
    unfolding SpatialPath_forward_def SpatialPath_init_def
    by (auto simp: eval_nat_numeral split: option.splits)
  from ConvBNAct_forward_constant[OF this coef i] show ?thesis
    by (simp add: ConvBNAct_init_def)
qed

lemma conv1x1_forward_zero_weight:
  assumes y: "conv1x1_forward m \<theta> x = Some y"
    and w: "c1_weight \<theta> = (\<lambda>o' c di dj. 0)"
    and i: "inside (t_shape y) b c i j"
  shows "elt y b c i j = c1_bias \<theta> c"
proof -
  from y obtain y1
    where 1: "Conv2d (c1_in m) (c1_out m) 1 1 0 (c1_weight \<theta>) x = Some y1"
      and 2: "y = tensor_of (t_shape y1) (\<lambda>b c i j. elt y1 b c i j + c1_bias \<theta> c)"
    unfolding conv1x1_forward_def by (auto simp: bind_eq_Some_conv)
  from i have i1: "inside (t_shape y1) b c i j" by (simp add: 2 t_shape_tensor_of)
  with 1 have "elt y1 b c i j
      = (\<Sum>c'<c1_in m. \<Sum>di<1. \<Sum>dj<1. c1_weight \<theta> c c' di dj * padded 0 x b c' (i * 1 + di) (j * 1 + dj))"
    unfolding Conv2d_def by (rule result_elt)
  then have "elt y1 b c i j = 0" by (simp add: w)
  moreover have "elt y b c i j = elt y1 b c i j + c1_bias \<theta> c"
    unfolding 2 using i1 by (rule elt_tensor_of)
  ultimately show ?thesis by simp
qed

text \<open>
  Claim C9. In a forward pass of a constructed network the feature fusion module is
  called with the output \<open>x_s\<close> of the spatial path first and the output \<open>x_c\<close> of the
  context path second. The tensor that enters the 3x3 convolution block of the module is
  their concatenation \<open>cat\<close>, of 384 channels: channels 0 to 127 are the 128 channels of
  \<open>x_s\<close>, channels 128 to 383 the 256 channels of \<open>x_c\<close>, in their order. From the
  result \<open>y\<close> of that block the module computes its gate and its output \<open>fused\<close>, and
  the output of the network is the segmentation head of \<open>fused\<close>, upsampled to the size
  of the input.
\<close>

theorem FeatureFusionModule_concatenation_order:
  assumes init: "BiSeNetv1_init num_class n_channel backbone_type act_type = Inr m"
    and fwd: "BiSeNetv1_forward N training m \<theta> x = Some out"
  shows "\<exists>x_s x_c cat y pooled expanded gate gated fused logits B H W.
      SpatialPath_forward N training (spatial_path m) (spatial_path_p \<theta>) x = Some x_s
    \<and> ContextPath_forward N training (context_path m) (context_path_p \<theta>) x = Some x_c
    \<and> t_shape x_s = (B, 128, H, W)
    \<and> t_shape x_c = (B, 256, H, W)
    \<and> torch_cat x_s x_c = Some cat
    \<and> t_shape cat = (B, 384, H, W)
    \<and> (\<forall>b c i j. inside (t_shape cat) b c i j \<longrightarrow>
          elt cat b c i j = (if c < 128 then elt x_s b c i j else elt x_c b (c - 128) i j))
    \<and> ConvBNAct_forward N training (ConvBNAct_init 384 256 3 1 act_type)
          (ffm_conv1_p (ffm_p \<theta>)) cat = Some y
    \<and> AdaptiveAvgPool2d y = Some pooled
    \<and> expand_as pooled y = Some expanded
    \<and> FeatureFusionModule_conv2 N (ffm m) (ffm_p \<theta>) expanded = Some gate
    \<and> torch_mul y gate = Some gated
    \<and> torch_add y gated = Some fused
    \<and> FeatureFusionModule_forward N training (ffm m) (ffm_p \<theta>) x_s x_c = Some fused
    \<and> SegHead_forward N training (seg_head m) (seg_head_p \<theta>) fused = Some logits
    \<and> F_interpolate_size logits (spatial_size (t_shape x)) = Some out"
proof -
  note f = BiSeNetv1_init_fields[OF init]
  from BiSeNetv1_forward_steps[OF fwd]
  obtain x_s x_c fused logits
    where sp: "SpatialPath_forward N training (spatial_path m) (spatial_path_p \<theta>) x = Some x_s"
      and cp: "ContextPath_forward N training (context_path m) (context_path_p \<theta>) x = Some x_c"
      and ff: "FeatureFusionModule_forward N training (ffm m) (ffm_p \<theta>) x_s x_c = Some fused"
      and sh: "SegHead_forward N training (seg_head m) (seg_head_p \<theta>) fused = Some logits"
      and up: "F_interpolate_size logits (spatial_size (t_shape x)) = Some out"
    by blast
  from FeatureFusionModule_forward_steps[OF ff]
  obtain cat y pooled expanded gate gated
    where cat: "torch_cat x_s x_c = Some cat"
      and y: "ConvBNAct_forward N training (ffm_conv1 (ffm m)) (ffm_conv1_p (ffm_p \<theta>)) cat = Some y"
      and p: "AdaptiveAvgPool2d y = Some pooled"
      and e: "expand_as pooled y = Some expanded"
      and g: "FeatureFusionModule_conv2 N (ffm m) (ffm_p \<theta>) expanded = Some gate"
      and mul: "torch_mul y gate = Some gated"
      and add: "torch_add y gated = Some fused"
    by blast
  have y': "ConvBNAct_forward N training (ConvBNAct_init 384 256 3 1 act_type)
              (ffm_conv1_p (ffm_p \<theta>)) cat = Some y"
    using y by (simp add: f(3) FeatureFusionModule_init_def)
  from SpatialPath_forward_D[OF sp[unfolded f(1)]]
  obtain B H W where xs: "t_shape x_s = (B, 128, H, W)" by blast
  from ContextPath_forward_elements[OF f(2) cp]
  obtain B' h w where xc: "t_shape x_c = (B', 256, h * 2 * 2, w * 2 * 2)" by blast
  from torch_cat_D(1)[OF cat xs] xc
  have xc': "t_shape x_c = (B, 256, H, W)" and cs: "t_shape cat = (B, 384, H, W)" by auto
  from torch_cat_D(2)[OF cat xs]
  have el: "\<forall>b c i j. inside (t_shape cat) b c i j \<longrightarrow>
          elt cat b c i j = (if c < 128 then elt x_s b c i j else elt x_c b (c - 128) i j)"
    by blast
  from sp cp xs xc' cat cs el y' p e g mul add ff sh up show ?thesis by blast
qed

theorem FeatureFusionModule_concatenation_order_witness:
  "\<exists>m out x_s x_c cat y fused logits.
      BiSeNetv1_init 19 3 ''resnet18'' ''relu'' = Inr m
    \<and> BiSeNetv1_forward example_nonlinearities False m distinct_branch_params
         (const_tensor (1, 3, 32, 32) 1) = Some out
    \<and> SpatialPath_forward example_nonlinearities False (spatial_path m)
         (spatial_path_p distinct_branch_params) (const_tensor (1, 3, 32, 32) 1) = Some x_s
    \<and> ContextPath_forward example_nonlinearities False (context_path m)
         (context_path_p distinct_branch_params) (const_tensor (1, 3, 32, 32) 1) = Some x_c
    \<and> t_shape x_s = (1, 128, 4, 4)
    \<and> t_shape x_c = (1, 256, 4, 4)
    \<and> elt x_s 0 0 0 0 = 7 \<and> elt x_s 0 127 0 0 = 7
    \<and> elt x_c 0 0 0 0 = 0 \<and> elt x_c 0 255 0 0 = 0
    \<and> torch_cat x_s x_c = Some cat
    \<and> t_shape cat = (1, 384, 4, 4)
    \<and> elt cat 0 0 0 0 = 7 \<and> elt cat 0 127 0 0 = 7
    \<and> elt cat 0 128 0 0 = 0 \<and> elt cat 0 383 0 0 = 0
    \<and> ConvBNAct_forward example_nonlinearities False (ConvBNAct_init 384 256 3 1 ''relu'')
         (ffm_conv1_p (ffm_p distinct_branch_params)) cat = Some y
    \<and> FeatureFusionModule_forward example_nonlinearities False (ffm m)
         (ffm_p distinct_branch_params) x_s x_c = Some fused
    \<and> SegHead_forward example_nonlinearities False (seg_head m)
         (seg_head_p distinct_branch_params) fused = Some logits
    \<and> F_interpolate_size logits (32, 32) = Some out"
proof -
  let ?x = "const_tensor (1, 3, 32, 32) (1::real)"
  let ?N = example_nonlinearities
  let ?P = distinct_branch_params
  obtain m where init: "BiSeNetv1_init 19 3 ''resnet18'' ''relu'' = Inr m"
    using BiSeNetv1_init_supported[of "''resnet18''" 19 3 "''relu''"] by auto
  note f = BiSeNetv1_init_fields[OF init]
  have "\<exists>out. BiSeNetv1_forward ?N False m ?P ?x = Some out \<and> t_shape out = (1, 19, 32, 32)"
    by (rule BiSeNetv1_forward_succeeds[OF init]) (simp_all add: t_shape_const_tensor)
  then obtain out where fwd: "BiSeNetv1_forward ?N False m ?P ?x = Some out"
    by blast
  from FeatureFusionModule_concatenation_order[OF init fwd]
  obtain x_s x_c cat y fused logits B H W
    where sp: "SpatialPath_forward ?N False (spatial_path m) (spatial_path_p ?P) ?x = Some x_s"
      and cp: "ContextPath_forward ?N False (context_path m) (context_path_p ?P) ?x = Some x_c"
      and cat: "torch_cat x_s x_c = Some cat"
      and xs: "t_shape x_s = (B, 128, H, W)"
      and xc: "t_shape x_c = (B, 256, H, W)"
      and cs: "t_shape cat = (B, 384, H, W)"
      and el: "\<forall>b c i j. inside (t_shape cat) b c i j \<longrightarrow>
          elt cat b c i j = (if c < 128 then elt x_s b c i j else elt x_c b (c - 128) i j)"
      and y: "ConvBNAct_forward ?N False (ConvBNAct_init 384 256 3 1 ''relu'')
                (ffm_conv1_p (ffm_p ?P)) cat = Some y"
      and ff: "FeatureFusionModule_forward ?N False (ffm m) (ffm_p ?P) x_s x_c = Some fused"
      and sh: "SegHead_forward ?N False (seg_head m) (seg_head_p ?P) fused = Some logits"
      and up: "F_interpolate_size logits (spatial_size (t_shape ?x)) = Some out"
    by blast
  from SpatialPath_forward_abs[of ?N False "spatial_path m" "spatial_path_p ?P" ?x]
    SpatialPath_shape_ok[of 4 4 False 1 3 128 "''relu''"] sp f(1)
  have xs': "t_shape x_s = (1, 128, 4, 4)" by (simp add: t_shape_const_tensor)
  with xs have "B = 1" "H = 4" "W = 4" by auto
  with cs xc have cs': "t_shape cat = (1, 384, 4, 4)" and xc': "t_shape x_c = (1, 256, 4, 4)"
    by simp_all
  have coef: "cba_coef (spatial_path_p ?P 2) = (\<lambda>t x c. (0, 7))"
    by (simp add: distinct_branch_params_def constant_ConvBNAct_params_def)
  have s7: "elt x_s b c i j = 7" if "inside (1, 128, 4, 4) b c i j" for b c i j
    using SpatialPath_forward_constant[OF sp[unfolded f(1)] coef, of b c i j] that
    by (simp add: xs' Activation_def example_nonlinearities_def relu_def)
  from ContextPath_forward_elements[OF f(2) cp]
  obtain proj_32 up_32 gated_16 summed_32 proj_16 summed_16 B' h w
    where c32: "conv1x1_forward (cp_conv_32 (context_path m)) (cp_conv_32_p (context_path_p ?P))
                  summed_32 = Some proj_32"
      and c16: "conv1x1_forward (cp_conv_16 (context_path m)) (cp_conv_16_p (context_path_p ?P))
                  gated_16 = Some proj_16"
      and p32: "t_shape proj_32 = (B', 256, h, w)"
      and p16: "t_shape proj_16 = (B', 256, h * 2, w * 2)"
      and os: "t_shape x_c = (B', 256, h * 2 * 2, w * 2 * 2)"
      and add: "\<forall>b c i j. inside (t_shape proj_16) b c i j \<longrightarrow>
          elt summed_16 b c i j = elt proj_16 b c i j + elt up_32 b c i j"
      and corner: "\<forall>b c. b < B' \<and> c < 256 \<longrightarrow>
          elt up_32 b c 0 0 = elt proj_32 b c 0 0
        \<and> elt up_32 b c (h * 2 - 1) (w * 2 - 1) = elt proj_32 b c (h - 1) (w - 1)
        \<and> elt x_c b c 0 0 = elt summed_16 b c 0 0
        \<and> elt x_c b c (h * 2 * 2 - 1) (w * 2 * 2 - 1) = elt summed_16 b c (h * 2 - 1) (w * 2 - 1)"
    by blast
  from os xc' have bhw: "B' = 1" "h = 1" "w = 1" by auto
  have w0: "c1_weight (cp_conv_32_p (context_path_p ?P)) = (\<lambda>o' c di dj. 0)"
       "c1_weight (cp_conv_16_p (context_path_p ?P)) = (\<lambda>o' c di dj. 0)"
       "c1_bias (cp_conv_32_p (context_path_p ?P)) = (\<lambda>c. 0)"
       "c1_bias (cp_conv_16_p (context_path_p ?P)) = (\<lambda>c. 0)"
    by (simp_all add: distinct_branch_params_def example_params_def example_Conv1x1_params_def)
  have c0: "elt x_c 0 c 0 0 = 0" if c: "c < 256" for c
  proof -
    have i32: "inside (t_shape proj_32) 0 c 0 0" and i16: "inside (t_shape proj_16) 0 c 0 0"
      using c by (simp_all add: p32 p16 bhw inside_def)
    from conv1x1_forward_zero_weight[OF c32 w0(1) i32] have a: "elt proj_32 0 c 0 0 = 0"
      by (simp add: w0(3))
    from conv1x1_forward_zero_weight[OF c16 w0(2) i16] have b: "elt proj_16 0 c 0 0 = 0"
      by (simp add: w0(4))
    from corner c have "elt up_32 0 c 0 0 = elt proj_32 0 c 0 0"
      and "elt x_c 0 c 0 0 = elt summed_16 0 c 0 0" by (simp_all add: bhw)
    moreover from add i16 have "elt summed_16 0 c 0 0 = elt proj_16 0 c 0 0 + elt up_32 0 c 0 0"
      by blast
    ultimately show ?thesis using a b by simp
  qed
  have xs7: "elt x_s 0 0 0 0 = 7" "elt x_s 0 127 0 0 = 7" by (simp_all add: s7 inside_def)
  have xc0: "elt x_c 0 0 0 0 = 0" "elt x_c 0 255 0 0 = 0" by (simp_all add: c0)
  from el have e: "elt cat 0 0 0 0 = elt x_s 0 0 0 0" "elt cat 0 127 0 0 = elt x_s 0 127 0 0"
      "elt cat 0 128 0 0 = elt x_c 0 0 0 0" "elt cat 0 383 0 0 = elt x_c 0 255 0 0"
    by (simp_all add: cs' inside_def)
  from up have up': "F_interpolate_size logits (32, 32) = Some out"
    by (simp add: t_shape_const_tensor spatial_size_def)
  from init fwd sp cp xs' xc' xs7 xc0 cat cs' e[unfolded xs7 xc0] y ff sh up'
  show ?thesis by blast
qed

lemma BiSeNetv1_forward_fails:
  assumes "BiSeNetv1_forward_shape training m (t_shape x) = None"
  shows "BiSeNetv1_forward N training m \<theta> x = None"
  using BiSeNetv1_forward_abs[of N training m \<theta> x] assms by simp

text \<open>
  Claim C1, as amended. For a network built with a supported backbone, three input
  channels and at least one class, and for an input of shape \<open>(B, 3, H, W)\<close> whose
  height and width are positive multiples of 32, the forward pass returns a tensor of
  shape \<open>(B, num_class, H, W)\<close>, whatever the parameters and the input's values; in
  training mode the input must not reduce to a single value per channel at 1/32
  resolution (\<open>B * (H div 32) * (W div 32) \<noteq> 1\<close>).
\<close>

theorem BiSeNetv1_forward_output_shape:
  assumes init: "BiSeNetv1_init num_class 3 backbone_type act_type = Inr m"
    and nc: "0 < num_class"
    and H: "0 < H" "32 dvd H" and W: "0 < W" "32 dvd W"
    and bn: "training \<longrightarrow> B * (H div 32) * (W div 32) \<noteq> 1"
  shows "BiSeNetv1_forward_shape training m (B, 3, H, W) = Some (B, num_class, H, W)
       \<and> (\<forall>N \<theta> x. t_shape x = (B, 3, H, W) \<longrightarrow>
             (\<exists>out. BiSeNetv1_forward N training m \<theta> x = Some out
                  \<and> t_shape out = (B, num_class, H, W)))"
  using BiSeNetv1_forward_shape_ok[OF assms] BiSeNetv1_forward_succeeds[OF assms]
  by blast

theorem BiSeNetv1_forward_output_shape_witness:
  "\<exists>m out. BiSeNetv1_init 19 3 ''resnet18'' ''relu'' = Inr m
       \<and> BiSeNetv1_forward_shape True m (1, 3, 512, 512) = Some (1, 19, 512, 512)
       \<and> BiSeNetv1_forward example_nonlinearities True m example_params
            (const_tensor (1, 3, 512, 512) 1) = Some out
       \<and> t_shape out = (1, 19, 512, 512)"
proof -
  obtain m where m: "BiSeNetv1_init 19 3 ''resnet18'' ''relu'' = Inr m"
    using BiSeNetv1_init_supported[of "''resnet18''" 19 3 "''relu''"] by auto
  have "BiSeNetv1_forward_shape True m (1, 3, 512, 512) = Some (1, 19, 512, 512)
       \<and> (\<forall>N \<theta> x. t_shape x = (1, 3, 512, 512) \<longrightarrow>
             (\<exists>out. BiSeNetv1_forward N True m \<theta> x = Some out \<and> t_shape out = (1, 19, 512, 512)))"
    by (rule BiSeNetv1_forward_output_shape[OF m]) simp_all
  then show ?thesis
    using m t_shape_const_tensor[of "(1, 3, 512, 512)" "1::real"] by blast
qed

text \<open>
  The claim as first stated asks for this of every network and of every height and width
  divisible by 32. The forward pass raises for one 32x32 image in training mode (a batch
  normalisation meets the 1x1 map at 1/32 resolution), for an image of height 0 (the
  first convolution has no room for its kernel), and in a network built for four input
  channels (its spatial path refuses the three channels of the input).
\<close>

lemma BiSeNetv1_forward_shape_failures:
  "(case BiSeNetv1_init 19 3 ''resnet18'' ''relu'' of
      Inl e \<Rightarrow> False
    | Inr m \<Rightarrow>
        BiSeNetv1_forward_shape True m (1, 3, 32, 32) = None
        \<and> BiSeNetv1_forward_shape False m (1, 3, 0, 32) = None)
   \<and> (case BiSeNetv1_init 19 4 ''resnet18'' ''relu'' of
      Inl e \<Rightarrow> False
    | Inr m \<Rightarrow> BiSeNetv1_forward_shape False m (2, 3, 64, 64) = None)"
  by code_simp

theorem BiSeNetv1_forward_output_shape_counterexample:
  "\<exists>m m'. BiSeNetv1_init 19 3 ''resnet18'' ''relu'' = Inr m
     \<and> BiSeNetv1_init 19 4 ''resnet18'' ''relu'' = Inr m'
     \<and> (32::nat) dvd 32
     \<and> BiSeNetv1_forward_shape True m (1, 3, 32, 32) = None
     \<and> BiSeNetv1_forward example_nonlinearities True m example_params
          (const_tensor (1, 3, 32, 32) 1) = None
     \<and> (32::nat) dvd 0
     \<and> BiSeNetv1_forward_shape False m (1, 3, 0, 32) = None
     \<and> BiSeNetv1_forward example_nonlinearities False m example_params
          (const_tensor (1, 3, 0, 32) 1) = None
     \<and> (32::nat) dvd 64
     \<and> BiSeNetv1_forward_shape False m' (2, 3, 64, 64) = None
     \<and> BiSeNetv1_forward example_nonlinearities False m' example_params
          (const_tensor (2, 3, 64, 64) 1) = None"
proof -
  from BiSeNetv1_forward_shape_failures
  obtain m m' where m: "BiSeNetv1_init 19 3 ''resnet18'' ''relu'' = Inr m"
    and m': "BiSeNetv1_init 19 4 ''resnet18'' ''relu'' = Inr m'"
    and a: "BiSeNetv1_forward_shape True m (1, 3, 32, 32) = None"
    and b: "BiSeNetv1_forward_shape False m (1, 3, 0, 32) = None"
    and c: "BiSeNetv1_forward_shape False m' (2, 3, 64, 64) = None"
    by (auto split: sum.splits)
  have "BiSeNetv1_forward example_nonlinearities True m example_params
          (const_tensor (1, 3, 32, 32) 1) = None"
    by (rule BiSeNetv1_forward_fails) (simp only: t_shape_const_tensor a)
  moreover have "BiSeNetv1_forward example_nonlinearities False m example_params
          (const_tensor (1, 3, 0, 32) 1) = None"
    by (rule BiSeNetv1_forward_fails) (simp only: t_shape_const_tensor b)
  moreover have "BiSeNetv1_forward example_nonlinearities False m' example_params
          (const_tensor (2, 3, 64, 64) 1) = None"
    by (rule BiSeNetv1_forward_fails) (simp only: t_shape_const_tensor c)
  ultimately show ?thesis using m m' a b c by simp
qed

subsection \<open>In-place updates and the order of the branches\<close>

lemma BiSeNetv1_forward_context_first_eq:
  "BiSeNetv1_forward_context_first N training m \<theta> x = BiSeNetv1_forward N training m \<theta> x"
proof (cases "SpatialPath_forward N training (spatial_path m) (spatial_path_p \<theta>) x")
  case None
  then show ?thesis
    by (cases "ContextPath_forward N training (context_path m) (context_path_p \<theta>) x")
       (simp_all add: BiSeNetv1_forward_context_first_def BiSeNetv1_forward_def)
next
  case (Some x_s)
  then show ?thesis
    by (cases "ContextPath_forward N training (context_path m) (context_path_p \<theta>) x")
       (simp_all add: BiSeNetv1_forward_context_first_def BiSeNetv1_forward_def)
qed

lemma new_bind:
  "new r h \<bind> f = r \<bind> (\<lambda>v. f (length h, h @ [v]))"
  by (cases r) (simp_all add: new_def)

lemma new_pair_bind:
  "new_pair r h \<bind> f = r \<bind> (\<lambda>(v, v'). f ((length h, Suc (length h)), h @ [v, v']))"
  by (cases r) (auto simp: new_pair_def)

lemma iadd_ref_bind:
  "iadd_ref a b h \<bind> f = torch_iadd (h ! a) (h ! b) \<bind> (\<lambda>v. f (a, h[a := v]))"
  by (cases "torch_iadd (h ! a) (h ! b)") (simp_all add: iadd_ref_def)

lemma returned_bind: "returned (r \<bind> f) = r \<bind> (\<lambda>v. returned (f v))"
  by (cases r) (simp_all add: returned_def)

lemma returned_new: "returned (new r h) = r"
  by (cases r) (simp_all add: returned_def new_def)

lemma ContextPath_forward_heap_returned:
  assumes "x < length h"
  shows "returned (ContextPath_forward_heap N training m \<theta> x h) = ContextPath_forward N training m \<theta> (h ! x)"
  using assms
  unfolding ContextPath_forward_heap_def ContextPath_forward_def
  by (simp add: new_bind new_pair_bind iadd_ref_bind returned_bind returned_new nth_append
      split_beta cong: Option.bind_cong)

lemma new_SomeD:
  assumes "new r h = Some (a, h')"
  shows "\<exists>v. r = Some v \<and> a = length h \<and> h' = h @ [v]"
  using assms by (cases r) (auto simp: new_def)

lemma ContextPath_forward_heap_frame:
  assumes "ContextPath_forward_heap N training m \<theta> x h = Some (r, h')"
  shows "\<exists>vs. h' = h @ vs \<and> r = length h + 8 \<and> length vs = 9"
  using assms
  unfolding ContextPath_forward_heap_def
  by (auto simp: new_def new_pair_def iadd_ref_def bind_eq_Some_conv list_update_append nth_append)

lemma ContextPath_forward_heap_result:
  assumes x: "x < length h"
  shows "(ContextPath_forward_heap N training m \<theta> x h = None
          \<and> ContextPath_forward N training m \<theta> (h ! x) = None)
       \<or> (\<exists>v vs. ContextPath_forward_heap N training m \<theta> x h = Some (length h + 8, h @ vs)
             \<and> ContextPath_forward N training m \<theta> (h ! x) = Some v
             \<and> length vs = 9 \<and> vs ! 8 = v)"
proof (cases "ContextPath_forward_heap N training m \<theta> x h")
  case None
  with ContextPath_forward_heap_returned[OF x, of N training m \<theta>]
  have "ContextPath_forward N training m \<theta> (h ! x) = None" by (simp add: returned_def)
  with None show ?thesis by simp
next
  case (Some p)
  obtain r h' where p: "p = (r, h')" by (cases p)
  from ContextPath_forward_heap_frame[OF Some[unfolded p]]
  obtain vs where h': "h' = h @ vs" and r: "r = length h + 8" and l: "length vs = 9" by blast
  from ContextPath_forward_heap_returned[OF x, of N training m \<theta>] Some
  have "ContextPath_forward N training m \<theta> (h ! x) = Some (vs ! 8)"
    by (simp add: returned_def p h' r)
  with Some l show ?thesis by (simp add: p h' r)
qed

lemma BiSeNetv1_forward_heap_returned:
  assumes x: "x < length h"
  shows "returned (BiSeNetv1_forward_heap N training m \<theta> x h) = BiSeNetv1_forward N training m \<theta> (h ! x)"
proof (cases "SpatialPath_forward N training (spatial_path m) (spatial_path_p \<theta>) (h ! x)")
  case None
  then show ?thesis
    by (simp add: BiSeNetv1_forward_heap_def BiSeNetv1_forward_def new_bind returned_def)
next
  case (Some x_s)
  have x': "x < length (h @ [x_s])" using x by simp
  from ContextPath_forward_heap_result[OF x', of N training "context_path m" "context_path_p \<theta>"]
  show ?thesis
  proof (elim disjE conjE exE)
    assume "ContextPath_forward_heap N training (context_path m) (context_path_p \<theta>) x (h @ [x_s]) = None"
      and "ContextPath_forward N training (context_path m) (context_path_p \<theta>) ((h @ [x_s]) ! x) = None"
    with Some x show ?thesis
      by (simp add: BiSeNetv1_forward_heap_def BiSeNetv1_forward_def new_bind returned_def nth_append)
  next
    fix x_c vs
    assume "ContextPath_forward_heap N training (context_path m) (context_path_p \<theta>) x (h @ [x_s])
              = Some (length (h @ [x_s]) + 8, (h @ [x_s]) @ vs)"
      and "ContextPath_forward N training (context_path m) (context_path_p \<theta>) ((h @ [x_s]) ! x) = Some x_c"
      and "length vs = 9" and "vs ! 8 = x_c"
    with Some x show ?thesis
      by (simp add: BiSeNetv1_forward_heap_def BiSeNetv1_forward_def new_bind returned_bind
          returned_new nth_append split_beta cong: Option.bind_cong)
  qed
qed

lemma BiSeNetv1_forward_heap_context_first_returned:
  assumes x: "x < length h"
  shows "returned (BiSeNetv1_forward_heap_context_first N training m \<theta> x h)
         = BiSeNetv1_forward_context_first N training m \<theta> (h ! x)"
  using ContextPath_forward_heap_result[OF x, of N training "context_path m" "context_path_p \<theta>"]
proof (elim disjE conjE exE)
  assume "ContextPath_forward_heap N training (context_path m) (context_path_p \<theta>) x h = None"
    and "ContextPath_forward N training (context_path m) (context_path_p \<theta>) (h ! x) = None"
  then show ?thesis
    by (simp add: BiSeNetv1_forward_heap_context_first_def BiSeNetv1_forward_context_first_def returned_def)
next
  fix x_c vs
  assume "ContextPath_forward_heap N training (context_path m) (context_path_p \<theta>) x h
            = Some (length h + 8, h @ vs)"
    and "ContextPath_forward N training (context_path m) (context_path_p \<theta>) (h ! x) = Some x_c"
    and "length vs = 9" and "vs ! 8 = x_c"
  with x show ?thesis
    by (simp add: BiSeNetv1_forward_heap_context_first_def BiSeNetv1_forward_context_first_def
        new_bind returned_bind returned_new nth_append split_beta cong: Option.bind_cong)
qed

text \<open>
  Claim C8. With the input at a reference of the heap, evaluating the context path before
  the spatial path returns the same tensor as \<^verbatim>\<open>BiSeNetv1.forward\<close> does (or fails
  when it fails), and that tensor is the one the forward pass on values computes from the
  input. The in-place additions of the context path write to cells the context path has
  created itself: every tensor that existed before the call, the input among them, is
  unchanged after it.
\<close>

theorem BiSeNetv1_branches_commute:
  assumes x: "x < length h"
  shows "returned (BiSeNetv1_forward_heap_context_first N training m \<theta> x h)
           = returned (BiSeNetv1_forward_heap N training m \<theta> x h)
       \<and> returned (BiSeNetv1_forward_heap N training m \<theta> x h)
           = BiSeNetv1_forward N training m \<theta> (h ! x)
       \<and> (\<forall>r h'. ContextPath_forward_heap N training (context_path m) (context_path_p \<theta>) x h
                     = Some (r, h') \<longrightarrow> take (length h) h' = h)"
proof (intro conjI allI impI)
  show "returned (BiSeNetv1_forward_heap_context_first N training m \<theta> x h)
           = returned (BiSeNetv1_forward_heap N training m \<theta> x h)"
    by (simp only: BiSeNetv1_forward_heap_context_first_returned[OF x]
        BiSeNetv1_forward_heap_returned[OF x] BiSeNetv1_forward_context_first_eq)
  show "returned (BiSeNetv1_forward_heap N training m \<theta> x h)
           = BiSeNetv1_forward N training m \<theta> (h ! x)"
    by (rule BiSeNetv1_forward_heap_returned[OF x])
  fix r h'
  assume "ContextPath_forward_heap N training (context_path m) (context_path_p \<theta>) x h = Some (r, h')"
  from ContextPath_forward_heap_frame[OF this] show "take (length h) h' = h" by auto
qed

theorem BiSeNetv1_branches_commute_witness:
  "\<exists>m out r h'.
      BiSeNetv1_init 19 3 ''resnet18'' ''relu'' = Inr m
    \<and> (0::nat) < length [const_tensor (1, 3, 32, 32) (1::real)]
    \<and> returned (BiSeNetv1_forward_heap_context_first example_nonlinearities False m example_params 0
          [const_tensor (1, 3, 32, 32) 1]) = Some out
    \<and> returned (BiSeNetv1_forward_heap example_nonlinearities False m example_params 0
          [const_tensor (1, 3, 32, 32) 1]) = Some out
    \<and> ContextPath_forward_heap example_nonlinearities False (context_path m)
          (context_path_p example_params) 0 [const_tensor (1, 3, 32, 32) 1] = Some (r, h')
    \<and> take 1 h' = [const_tensor (1, 3, 32, 32) 1]"
proof -
  let ?x = "const_tensor (1, 3, 32, 32) (1::real)"
  obtain m where init: "BiSeNetv1_init 19 3 ''resnet18'' ''relu'' = Inr m"
    using BiSeNetv1_init_supported[of "''resnet18''" 19 3 "''relu''"] by auto
  have "\<exists>out. BiSeNetv1_forward example_nonlinearities False m example_params ?x = Some out
            \<and> t_shape out = (1, 19, 32, 32)"
    by (rule BiSeNetv1_forward_succeeds[OF init]) (simp_all add: t_shape_const_tensor)
  then obtain out where fwd: "BiSeNetv1_forward example_nonlinearities False m example_params ?x = Some out"
    by blast
  have l: "(0::nat) < length [?x]" by simp
  note c = BiSeNetv1_branches_commute[OF l, of example_nonlinearities False m example_params]
  from c fwd have a: "returned (BiSeNetv1_forward_heap example_nonlinearities False m example_params 0 [?x]) = Some out"
    and b: "returned (BiSeNetv1_forward_heap_context_first example_nonlinearities False m example_params 0 [?x]) = Some out"
    by simp_all
  from BiSeNetv1_forward_steps[OF fwd]
  obtain x_c where "ContextPath_forward example_nonlinearities False (context_path m)
      (context_path_p example_params) ?x = Some x_c" by blast
  with ContextPath_forward_heap_returned[OF l, of example_nonlinearities False "context_path m"
      "context_path_p example_params"]
  obtain r h' where cp: "ContextPath_forward_heap example_nonlinearities False (context_path m)
          (context_path_p example_params) 0 [?x] = Some (r, h')"
    by (auto simp: returned_def)
  with c have "take 1 h' = [?x]" by auto
  with init l a b cp show ?thesis by blast
qed

end
